theory Spec2Isabelle
  imports Main
begin

section \<open>Text: Python \<open>str\<close> values and the methods the scripts call\<close>

text \<open>
  A Python 3 \<open>str\<close> is a sequence of Unicode code points, and the rule tables of the
  migration scripts contain accented letters, box-drawing characters and emoji. Text is
  therefore a list of code points (\<open>nat\<close>), not a list of 8-bit \<open>char\<close>s.
  \<open>U\<close> turns an ASCII literal into such a list; a character that cannot be written in a
  literal is spliced in by its code point.
\<close>

type_synonym ustr = "nat list"

definition U :: "string \<Rightarrow> ustr" where
  "U = map of_char"

definition NL :: nat where
  "NL = 10"

text \<open>
  \<open>str.isspace\<close> on one character; the pattern class \<open>\s\<close> of the \<open>re\<close> module uses the
  same table for \<open>str\<close> patterns. (The scripts read their files in text mode, so a
  carriage return never reaches them; the table is kept whole all the same.)
\<close>

definition isspace :: "nat \<Rightarrow> bool" where
  "isspace c \<longleftrightarrow>
     (9 \<le> c \<and> c \<le> 13) \<or> (28 \<le> c \<and> c \<le> 32) \<or> c = 133 \<or> c = 160 \<or> c = 5760 \<or>
     (8192 \<le> c \<and> c \<le> 8202) \<or> c = 8232 \<or> c = 8233 \<or> c = 8239 \<or> c = 8287 \<or> c = 12288"

text \<open>\<open>s.strip()\<close>: whitespace removed at both ends.\<close>

definition lstrip :: "ustr \<Rightarrow> ustr" where
  "lstrip s = dropWhile isspace s"

definition strip :: "ustr \<Rightarrow> ustr" where
  "strip s = rev (dropWhile isspace (rev (dropWhile isspace s)))"

text \<open>
  \<open>strip_prefix w s\<close> is the rest of \<open>s\<close> after the prefix \<open>w\<close>, if \<open>s\<close> starts with
  \<open>w\<close>; \<open>s.startswith(w)\<close> asks whether there is one.
\<close>

fun strip_prefix :: "ustr \<Rightarrow> ustr \<Rightarrow> ustr option" where
  "strip_prefix [] s = Some s"
| "strip_prefix (c # w) [] = None"
| "strip_prefix (c # w) (d # s) = (if c = d then strip_prefix w s else None)"

definition startswith :: "ustr \<Rightarrow> ustr \<Rightarrow> bool" where
  "startswith s w \<longleftrightarrow> strip_prefix w s \<noteq> None"

text \<open>\<open>w in s\<close>: \<open>w\<close> occurs somewhere in \<open>s\<close>.\<close>

fun contains :: "ustr \<Rightarrow> ustr \<Rightarrow> bool" where
  "contains w [] \<longleftrightarrow> w = []"
| "contains w (c # s) \<longleftrightarrow> strip_prefix w (c # s) \<noteq> None \<or> contains w s"

text \<open>\<open>s.split(',')\<close> for a one-character separator: never an empty list.\<close>

fun split_on :: "nat \<Rightarrow> ustr \<Rightarrow> ustr list" where
  "split_on sep [] = [[]]"
| "split_on sep (c # s) =
     (if c = sep then [] # split_on sep s
      else (case split_on sep s of
              [] \<Rightarrow> [[c]]
            | w # ws \<Rightarrow> (c # w) # ws))"

text \<open>\<open>sep.join(xs)\<close>.\<close>

fun join :: "ustr \<Rightarrow> ustr list \<Rightarrow> ustr" where
  "join sep [] = []"
| "join sep [x] = x"
| "join sep (x # y # xs) = x @ sep @ join sep (y # xs)"

text \<open>\<open>s.replace('\n', ' ')\<close>: both strings are one character long.\<close>

definition replace_char :: "nat \<Rightarrow> nat \<Rightarrow> ustr \<Rightarrow> ustr" where
  "replace_char old new s = map (\<lambda>c. if c = old then new else c) s"

text \<open>
  \<open>f.readlines()\<close> on the text of a file: the lines, each with its line feed, the last
  one possibly without; \<open>f.writelines(xs)\<close> writes the concatenation.
\<close>

fun readlines :: "ustr \<Rightarrow> ustr list" where
  "readlines [] = []"
| "readlines (c # s) =
     (if c = NL then [c] # readlines s
      else (case readlines s of
              [] \<Rightarrow> [[c]]
            | l # ls \<Rightarrow> (c # l) # ls))"

definition spaces :: "nat \<Rightarrow> ustr" where
  "spaces n = replicate n 32"

text \<open>A text written over several lines: \<open>'\n'.join(ls)\<close>.\<close>

definition ulines :: "ustr list \<Rightarrow> ustr" where
  "ulines ls = join [NL] ls"


section \<open>The \<open>re\<close> module: patterns, matching, searching, substitution\<close>

text \<open>
  The patterns of the scripts use literals, the class \<open>\s\<close>, negated one-character sets
  such as \<open>[^}]\<close>, the repetitions \<open>*\<close>, \<open>+\<close>, \<open>{12,}\<close> (greedy) and \<open>+?\<close> (lazy) on these
  classes only, alternation, capture groups and \<open>^\<close>. The type \<open>regex\<close> has exactly these
  forms. No pattern contains \<open>.\<close> or \<open>$\<close>, and \<open>^\<close> occurs only in calls of \<open>re.match\<close>
  without flags, so the flags \<open>re.MULTILINE\<close> and \<open>re.DOTALL\<close> that some calls pass change
  nothing.
\<close>

datatype cls = Space | Not_lit nat

fun in_cls :: "cls \<Rightarrow> nat \<Rightarrow> bool" where
  "in_cls Space c \<longleftrightarrow> isspace c"
| "in_cls (Not_lit d) c \<longleftrightarrow> c \<noteq> d"

datatype greed = Greedy | Lazy

datatype regex =
    Lit ustr
  | Rep greed nat cls
  | Seq "regex list"
  | Alt "regex list"
  | Grp nat regex
  | Bol

text \<open>
  A matcher state is the position reached, the text from there on, and the groups captured
  so far. \<open>ms r st\<close> lists every way in which \<open>r\<close> matches at \<open>st\<close>, in the order in which
  the backtracking matcher of \<open>re\<close> tries them: the first alternative first, a greedy
  repetition longest first, a lazy one shortest first.
\<close>

type_synonym groups = "nat \<rightharpoonup> ustr"
type_synonym mstate = "nat \<times> ustr \<times> groups"

text \<open>The ends of \<open>c{m,}\<close> at a state, shortest first.\<close>

fun rep_ends :: "cls \<Rightarrow> nat \<Rightarrow> mstate \<Rightarrow> mstate list" where
  "rep_ends c m (p, [], g) = (if m = 0 then [(p, [], g)] else [])"
| "rep_ends c m (p, x # s, g) =
     (if m = 0 then [(p, x # s, g)] else []) @
     (if in_cls c x then rep_ends c (m - 1) (Suc p, s, g) else [])"

fun ms :: "regex \<Rightarrow> mstate \<Rightarrow> mstate list"
  and ms_seq :: "regex list \<Rightarrow> mstate \<Rightarrow> mstate list"
  and ms_alt :: "regex list \<Rightarrow> mstate \<Rightarrow> mstate list" where
  "ms (Lit w) (p, s, g) =
     (case strip_prefix w s of None \<Rightarrow> [] | Some s' \<Rightarrow> [(p + length w, s', g)])"
| "ms (Rep Greedy m c) st = rev (rep_ends c m st)"
| "ms (Rep Lazy m c) st = rep_ends c m st"
| "ms (Seq rs) st = ms_seq rs st"
| "ms (Alt rs) st = ms_alt rs st"
| "ms (Grp k r) (p, s, g) =
     map (\<lambda>(p', s', g'). (p', s', g'(k \<mapsto> take (p' - p) s))) (ms r (p, s, g))"
| "ms Bol (p, s, g) = (if p = 0 then [(p, s, g)] else [])"
| "ms_seq [] st = [st]"
| "ms_seq (r # rs) st = concat (map (ms_seq rs) (ms r st))"
| "ms_alt [] st = []"
| "ms_alt (r # rs) st = ms r st @ ms_alt rs st"

text \<open>
  A match object: where the match starts and ends, the text after it, and its groups
  (group 0 is the whole match).
\<close>

record rmatch =
  m_start :: nat
  m_end :: nat
  m_rest :: ustr
  m_groups :: groups

text \<open>
  One match attempt at a position. With \<open>adv\<close> set the attempt must not end where it
  starts: the matcher then backtracks into the next way of matching.
\<close>

fun first_ok :: "bool \<Rightarrow> nat \<Rightarrow> mstate list \<Rightarrow> mstate option" where
  "first_ok adv p [] = None"
| "first_ok adv p ((p', s', g) # xs) =
     (if adv \<and> p' = p then first_ok adv p xs else Some (p', s', g))"

definition match_at :: "regex \<Rightarrow> bool \<Rightarrow> nat \<Rightarrow> ustr \<Rightarrow> rmatch option" where
  "match_at r adv p s =
     (case first_ok adv p (ms r (p, s, Map.empty)) of
        None \<Rightarrow> None
      | Some (p', s', g) \<Rightarrow>
          Some \<lparr>m_start = p, m_end = p', m_rest = s', m_groups = g(0 \<mapsto> take (p' - p) s)\<rparr>)"

text \<open>\<open>re.match(r, s)\<close>: an attempt at position 0 only.\<close>

definition re_match :: "regex \<Rightarrow> ustr \<Rightarrow> rmatch option" where
  "re_match r s = match_at r False 0 s"

text \<open>
  The search of \<open>re\<close>: the leftmost position from \<open>p\<close> on at which an attempt succeeds,
  together with the text skipped before it. The flag \<open>adv\<close> holds for the first position
  tried only.
\<close>

fun scan :: "regex \<Rightarrow> bool \<Rightarrow> nat \<Rightarrow> ustr \<Rightarrow> (ustr \<times> rmatch) option" where
  "scan r adv p [] = map_option (\<lambda>m. ([], m)) (match_at r adv p [])"
| "scan r adv p (c # s) =
     (case match_at r adv p (c # s) of
        Some m \<Rightarrow> Some ([], m)
      | None \<Rightarrow> map_option (\<lambda>(pre, m). (c # pre, m)) (scan r False (Suc p) s))"

text \<open>\<open>re.search(r, s)\<close>.\<close>

definition re_search :: "regex \<Rightarrow> ustr \<Rightarrow> rmatch option" where
  "re_search r s = map_option snd (scan r False 0 s)"


subsection \<open>What a match consumes\<close>

text \<open>
  Every way of matching consumes a prefix of the text it starts on and moves the position
  by the length of that prefix. The substitution loop below terminates because of this.
\<close>

lemma strip_prefix_Some: "strip_prefix w s = Some s' \<Longrightarrow> s = w @ s'"
  by (induction w s rule: strip_prefix.induct) (auto split: if_splits)

lemma rep_ends_shape:
  "(p', s', g') \<in> set (rep_ends c m (p, s, g)) \<Longrightarrow>
     \<exists>u. s = u @ s' \<and> p' = p + length u \<and> m \<le> length u \<and> g' = g"
proof (induction s arbitrary: p m)
  case Nil
  then show ?case by (auto split: if_splits)
next
  case (Cons x s)
  from Cons.prems consider
      (here) "m = 0" "(p', s', g') = (p, x # s, g)"
    | (later) "in_cls c x" "(p', s', g') \<in> set (rep_ends c (m - 1) (Suc p, s, g))"
    by (auto split: if_splits)
  then show ?case
  proof cases
    case here
    then show ?thesis by simp
  next
    case later
    from Cons.IH [OF later(2)] obtain u where
      "s = u @ s'" "p' = Suc p + length u" "m - 1 \<le> length u" "g' = g" by blast
    then have "x # s = (x # u) @ s' \<and> p' = p + length (x # u) \<and> m \<le> length (x # u) \<and> g' = g"
      by auto
    then show ?thesis by blast
  qed
qed

lemma ms_shape:
  "(p', s', g') \<in> set (ms r (p, s, g)) \<Longrightarrow> \<exists>u. s = u @ s' \<and> p' = p + length u"
  and "(p', s', g') \<in> set (ms_seq rs (p, s, g)) \<Longrightarrow> \<exists>u. s = u @ s' \<and> p' = p + length u"
  and "(p', s', g') \<in> set (ms_alt rs (p, s, g)) \<Longrightarrow> \<exists>u. s = u @ s' \<and> p' = p + length u"
proof (induction r "(p, s, g)" and rs "(p, s, g)" and rs "(p, s, g)"
       arbitrary: p s g p' s' g' and p s g p' s' g' and p s g p' s' g' rule: ms_ms_seq_ms_alt.induct)
  case (1 w p s g)
  from "1.prems" have sp: "strip_prefix w s = Some s'" and p': "p' = p + length w"
    by (auto split: option.splits)
  from strip_prefix_Some [OF sp] p' show ?case by blast
next
  case (2 m c)
  then show ?case by (auto dest: rep_ends_shape)
next
  case (3 m c)
  then show ?case by (auto dest: rep_ends_shape)
next
  case (4 rs)
  then show ?case by simp
next
  case (5 rs)
  then show ?case by simp
next
  case (6 k r p s g)
  then show ?case by fastforce
next
  case (7 p s g)
  then show ?case by (auto split: if_splits)
next
  case (8)
  then show ?case by simp
next
  case (9 r rs p s g)
  from "9.prems" obtain q t h where mid: "(q, t, h) \<in> set (ms r (p, s, g))"
    and fin: "(p', s', g') \<in> set (ms_seq rs (q, t, h))"
    by auto
  from "9.hyps"(1) [OF mid] obtain u where a: "s = u @ t" "q = p + length u" by blast
  from "9.hyps"(2) [OF mid fin] obtain v where b: "t = v @ s'" "p' = q + length v" by blast
  from a b have "s = (u @ v) @ s' \<and> p' = p + length (u @ v)" by simp
  then show ?case by blast
next
  case (10)
  then show ?case by simp
next
  case (11 r rs p s g)
  then show ?case by auto
qed

lemma first_ok_Some:
  "first_ok adv p xs = Some x \<Longrightarrow> x \<in> set xs \<and> (adv \<longrightarrow> fst x \<noteq> p)"
  by (induction adv p xs rule: first_ok.induct) (auto split: if_splits)

lemma match_at_Some:
  assumes "match_at r adv p s = Some m"
  shows "\<exists>u. s = u @ m_rest m \<and> m_start m = p \<and> m_end m = p + length u \<and> (adv \<longrightarrow> u \<noteq> [])"
proof -
  from assms obtain p' s' g where f: "first_ok adv p (ms r (p, s, Map.empty)) = Some (p', s', g)"
    and m: "m = \<lparr>m_start = p, m_end = p', m_rest = s', m_groups = g(0 \<mapsto> take (p' - p) s)\<rparr>"
    by (auto simp: match_at_def split: option.splits)
  from first_ok_Some [OF f] have mem: "(p', s', g) \<in> set (ms r (p, s, Map.empty))"
    and adv: "adv \<longrightarrow> p' \<noteq> p" by auto
  from ms_shape(1) [OF mem] obtain u where "s = u @ s'" "p' = p + length u" by blast
  with adv m show ?thesis by auto
qed

lemma scan_Some:
  "scan r adv p s = Some (pre, m) \<Longrightarrow>
     \<exists>u. s = pre @ u @ m_rest m \<and> m_start m = p + length pre \<and> m_end m = m_start m + length u \<and>
         (adv \<longrightarrow> pre @ u \<noteq> [])"
proof (induction r adv p s arbitrary: pre m rule: scan.induct)
  case (1 r adv p)
  then show ?case by (auto dest!: match_at_Some)
next
  case (2 r adv p c s)
  show ?case
  proof (cases "match_at r adv p (c # s)")
    case None
    with "2.prems" obtain pre' where sc: "scan r False (Suc p) s = Some (pre', m)" and pre: "pre = c # pre'"
      by auto
    from "2.IH" [OF None sc] obtain u where
      "s = pre' @ u @ m_rest m" "m_start m = Suc p + length pre'" "m_end m = m_start m + length u"
      by blast
    with pre show ?thesis by auto
  next
    case (Some m')
    with "2.prems" have "pre = []" "m' = m" by auto
    with match_at_Some [OF Some] show ?thesis by auto
  qed
qed


subsection \<open>All matches of a pattern: the loop behind \<open>re.sub\<close> and \<open>re.findall\<close>\<close>

text \<open>
  \<open>re.sub\<close> and \<open>re.findall\<close> run the same loop (Python 3.7 and later): search from
  the end of the previous match; an empty match is accepted, but the search after it must
  not return an empty match at the same position again. \<open>matches\<close> returns the matches
  in order, each with the text skipped before it, and the text after the last match.
\<close>

function matches :: "regex \<Rightarrow> bool \<Rightarrow> nat \<Rightarrow> ustr \<Rightarrow> (ustr \<times> rmatch) list \<times> ustr" where
  "matches r adv p s =
     (case scan r adv p s of
        None \<Rightarrow> ([], s)
      | Some (pre, m) \<Rightarrow>
          (case matches r (m_end m = m_start m) (m_end m) (m_rest m) of
             (ps, rest) \<Rightarrow> ((pre, m) # ps, rest)))"
  by pat_completeness auto
termination
proof (relation "measure (\<lambda>(r, adv, p, s). 2 * length s + (if adv then 0 else 1))")
  show "wf (measure (\<lambda>(r, adv, p, s). 2 * length s + (if adv then 0 else 1)))"
    by simp
next
  fix r :: regex and adv p s x2 pre m
  assume "scan r adv p s = Some x2" and "(pre, m) = x2"
  then have "scan r adv p s = Some (pre, m)" by simp
  from scan_Some [OF this] obtain u where
    u: "s = pre @ u @ m_rest m" "m_end m = m_start m + length u" "adv \<longrightarrow> pre @ u \<noteq> []"
    by blast
  have len: "length s = length pre + length u + length (m_rest m)"
    by (subst u(1)) simp
  have pos: "0 < length pre + length u" if adv
    using u(3) that by (cases pre) auto
  have nonempty: "0 < length u" if "m_end m \<noteq> m_start m"
    using u(2) that by simp
  have "2 * length (m_rest m) + (if m_end m = m_start m then 0 else 1)
          < 2 * length s + (if adv then 0 else (1::nat))"
  proof (cases adv)
    case True
    from pos [OF True] have "2 * length (m_rest m) + 1 < 2 * length s"
      unfolding len by arith
    with True show ?thesis by simp
  next
    case False
    show ?thesis
    proof (cases "m_end m = m_start m")
      case True
      with False len show ?thesis by simp
    next
      case ne: False
      from nonempty [OF ne] have "2 * length (m_rest m) + 1 < 2 * length s + 1"
        unfolding len by arith
      with False ne show ?thesis by simp
    qed
  qed
  then show "((r, m_end m = m_start m, m_end m, m_rest m), r, adv, p, s)
          \<in> measure (\<lambda>(r, adv, p, s). 2 * length s + (if adv then 0 else 1))"
    by simp
qed


declare matches.simps [simp del]

text \<open>
  \<open>re.subn(r, new, s)\<close> with a replacement string. The template parser of \<open>re\<close> expands
  group references and backslash escapes in \<open>new\<close>; the replacement strings of the scripts
  contain no backslash but in \<open>\'\<close>, which the parser keeps as it is written, so the
  template stands for its own text. \<open>re.sub\<close> is the text of \<open>re.subn\<close>.
\<close>

definition re_subn :: "regex \<Rightarrow> ustr \<Rightarrow> ustr \<Rightarrow> ustr \<times> nat" where
  "re_subn r new s =
     (case matches r False 0 s of
        (ps, rest) \<Rightarrow> (concat (map (\<lambda>(pre, m). pre @ new) ps) @ rest, length ps))"

definition re_sub :: "regex \<Rightarrow> ustr \<Rightarrow> ustr \<Rightarrow> ustr" where
  "re_sub r new s = fst (re_subn r new s)"

text \<open>\<open>len(re.findall(r, s))\<close>: the number of matches.\<close>

definition findall_count :: "regex \<Rightarrow> ustr \<Rightarrow> nat" where
  "findall_count r s = length (fst (matches r False 0 s))"

text \<open>
  Exceptions of the scripts: a file that cannot be opened, an index out of range, and a
  method called on \<open>None\<close> (\<open>re.match(...).group\<close> or \<open>match.group(k).strip\<close> when there is
  no match or the group took no part in it).
\<close>

datatype error = FileNotFoundError | IndexError | AttributeError

text \<open>
  \<open>re.sub(r, f, s)\<close> with a function \<open>f\<close> as replacement: \<open>f\<close> is called on each match in
  order; it may raise, and it may update a variable of the enclosing scope (the state
  \<open>'st\<close>).
\<close>

fun sub_calls :: "(rmatch \<Rightarrow> 'st \<Rightarrow> error + ustr \<times> 'st) \<Rightarrow> (ustr \<times> rmatch) list \<Rightarrow> 'st
    \<Rightarrow> error + ustr \<times> 'st" where
  "sub_calls f [] st = Inr ([], st)"
| "sub_calls f ((pre, m) # ps) st =
     (case f m st of
        Inl e \<Rightarrow> Inl e
      | Inr (new, st') \<Rightarrow>
          (case sub_calls f ps st' of
             Inl e \<Rightarrow> Inl e
           | Inr (out, st'') \<Rightarrow> Inr (pre @ new @ out, st'')))"

definition re_sub_fn :: "regex \<Rightarrow> (rmatch \<Rightarrow> 'st \<Rightarrow> error + ustr \<times> 'st) \<Rightarrow> ustr \<Rightarrow> 'st
    \<Rightarrow> error + ustr \<times> 'st" where
  "re_sub_fn r f s st =
     (case matches r False 0 s of
        (ps, rest) \<Rightarrow>
          (case sub_calls f ps st of
             Inl e \<Rightarrow> Inl e
           | Inr (out, st') \<Rightarrow> Inr (out @ rest, st')))"

text \<open>
  \<open>xs[i]\<close> for an index that is not negative, and the text an f-string puts for a value
  that is a \<open>str\<close> or \<open>None\<close>.
\<close>

definition item :: "'a list \<Rightarrow> nat \<Rightarrow> error + 'a" where
  "item xs i = (if i < length xs then Inr (xs ! i) else Inl IndexError)"

definition fmt :: "ustr option \<Rightarrow> ustr" where
  "fmt v = (case v of None \<Rightarrow> U ''None'' | Some s \<Rightarrow> s)"

text \<open>\<open>m.group(k)\<close>: \<open>None\<close> for a group that took no part in the match.\<close>

definition group :: "rmatch \<Rightarrow> nat \<Rightarrow> ustr option" where
  "group m k = m_groups m k"


section \<open>The world of a script: files, writes, messages\<close>

text \<open>
  A script reads and writes files by path and prints to standard output. The content of a
  file is its text as Python's text mode gives it. \<open>written\<close> records every write (path and
  text written) in order, so that a write that stores the text the file already has is
  still seen. The text of a printed message is not modelled, only which message it is.
\<close>

datatype message =
    Corrections nat
  | No_correction
  | Logger_not_imported string
  | Migrating string
  | Migrated string
  | No_console_left string
  | Console_left string nat
  | Starting
  | Verifying
  | All_migrated
  | Some_left
  | Migration_failed
  | Finished

record world =
  files :: "string \<rightharpoonup> ustr"
  written :: "(string \<times> ustr) list"
  printed :: "message list"

text \<open>\<open>open(path, 'r')\<close> and \<open>f.read()\<close>; \<open>open(path, 'w')\<close> and \<open>f.write(text)\<close>; \<open>print\<close>.\<close>

definition read_file :: "string \<Rightarrow> world \<Rightarrow> error + ustr" where
  "read_file path w = (case files w path of None \<Rightarrow> Inl FileNotFoundError | Some text \<Rightarrow> Inr text)"

definition write_file :: "string \<Rightarrow> ustr \<Rightarrow> world \<Rightarrow> world" where
  "write_file path text w =
     w\<lparr>files := (files w)(path \<mapsto> text), written := written w @ [(path, text)]\<rparr>"

definition print :: "message \<Rightarrow> world \<Rightarrow> world" where
  "print msg w = w\<lparr>printed := printed w @ [msg]\<rparr>"


section \<open>\<open>fix-indentation-storage-facade.py\<close>: the indentation repair\<close>

definition file_path :: string where
  "file_path = ''server/storage/facade/StorageFacade.ts''"

text \<open>The four patterns of the script.\<close>

definition indent_re :: regex where
  \<comment> \<open>\<open>^(\s*)\<close>\<close>
  "indent_re = Seq [Bol, Grp 1 (Rep Greedy 0 Space)]"

definition metadata_re :: regex where
  \<comment> \<open>\<open>metadata:\s*\{([^}]+?)\}\<close>\<close>
  "metadata_re =
     Seq [Lit (U ''metadata:''), Rep Greedy 0 Space, Lit (U ''{''),
          Grp 1 (Rep Lazy 1 (Not_lit 125)), Lit (U ''}'')]"

definition logger_re :: regex where
  \<comment> \<open>\<open>(this\.facadeLogger|logger)\.(info|warn|error|debug)\('([^']+)'\<close>\<close>
  "logger_re =
     Seq [Grp 1 (Alt [Lit (U ''this.facadeLogger''), Lit (U ''logger'')]), Lit (U ''.''),
          Grp 2 (Alt [Lit (U ''info''), Lit (U ''warn''), Lit (U ''error''), Lit (U ''debug'')]),
          Lit (U ''('' @ [39]), Grp 3 (Rep Greedy 1 (Not_lit 39)), Lit [39]]"

definition prop_re :: regex where
  \<comment> \<open>\<open>^\s{12,}(module|operation|error|id|count|projectId|weekNumber|year|category|userId|labelId|email):\<close>\<close>
  "prop_re =
     Seq [Bol, Rep Greedy 12 Space,
          Grp 1 (Alt [Lit (U ''module''), Lit (U ''operation''), Lit (U ''error''), Lit (U ''id''),
                      Lit (U ''count''), Lit (U ''projectId''), Lit (U ''weekNumber''),
                      Lit (U ''year''), Lit (U ''category''), Lit (U ''userId''),
                      Lit (U ''labelId''), Lit (U ''email'')]),
          Lit (U '':'')]"

text \<open>
  The state of the main loop: the index \<open>i\<close>, the counter \<open>fixed\<close> and the list
  \<open>new_lines\<close>.
\<close>

record loop_state =
  st_i :: nat
  st_fixed :: nat
  st_new_lines :: "ustr list"

text \<open>
  The three searches for an anchor run backwards from the line before \<open>i\<close>:
  \<^verbatim>\<open>
  j = i - 1
  while j >= 0:
      if <anchor> in lines[j]:
          base_indent = re.match(r'^(\s*)', lines[j]).group(1)
          break
      j -= 1
  \<close>
  The second argument of \<open>find_indent\<close> is \<open>j + 1\<close>, the third the value \<open>base_indent\<close> has
  before the loop.
\<close>

fun find_indent :: "(ustr \<Rightarrow> bool) \<Rightarrow> ustr list \<Rightarrow> nat \<Rightarrow> ustr option \<Rightarrow> error + ustr option" where
  "find_indent anchor lines 0 base_indent = Inr base_indent"
| "find_indent anchor lines (Suc j) base_indent =
     (case item lines j of
        Inl e \<Rightarrow> Inl e
      | Inr l \<Rightarrow>
          if anchor l then
            (case re_match indent_re l of
               None \<Rightarrow> Inl AttributeError
             | Some m \<Rightarrow> Inr (group m 1))
          else find_indent anchor lines j base_indent)"

definition logger_anchor :: "ustr \<Rightarrow> bool" where
  "logger_anchor l \<longleftrightarrow> contains (U ''facadeLogger.'') l \<or> contains (U ''logger.'') l"

definition metadata_anchor :: "ustr \<Rightarrow> bool" where
  "metadata_anchor l \<longleftrightarrow> contains (U ''metadata: {'') l"

text \<open>\<open>not base_indent\<close>: \<open>None\<close> and the empty string are false.\<close>

definition falsy :: "ustr option \<Rightarrow> bool" where
  "falsy v \<longleftrightarrow> v = None \<or> v = Some []"

text \<open>
  The condition of the first repair (lines 17 to 21 of the script): a line with
  \<open>metadata: {\<close>, at least three more lines after it, the next line a closing brace indented
  by eight spaces or more, the line after it \<open>);\<close>. Python's \<open>and\<close> reads \<open>lines[i+2]\<close>
  only when the test on \<open>lines[i+1]\<close> holds.
\<close>

definition block_shape :: "ustr list \<Rightarrow> nat \<Rightarrow> ustr \<Rightarrow> error + bool" where
  "block_shape lines i line =
     (if metadata_anchor line \<and> i + 3 < length lines then
        (case item lines (i + 1) of
           Inl e \<Rightarrow> Inl e
         | Inr l1 \<Rightarrow>
             if strip l1 = U ''}'' then
               (case item lines (i + 2) of
                  Inl e \<Rightarrow> Inl e
                | Inr l2 \<Rightarrow>
                    Inr (strip l2 = U '');'' \<and>
                         (startswith l1 (spaces 8) \<or> startswith l1 (spaces 14))))
             else Inr False)
      else Inr False)"

text \<open>
  The first repair: the lines that replace a metadata block. \<open>None\<close> means that the
  script falls through to the next test: the shape does not fit, or one of the two searches
  in the line finds nothing.
\<close>

definition block_lines :: "ustr list \<Rightarrow> nat \<Rightarrow> ustr \<Rightarrow> error + ustr list option" where
  "block_lines lines i line =
     (case block_shape lines i line of
        Inl e \<Rightarrow> Inl e
      | Inr False \<Rightarrow> Inr None
      | Inr True \<Rightarrow>
          (case find_indent logger_anchor lines i (Some []) of
             Inl e \<Rightarrow> Inl e
           | Inr found \<Rightarrow>
               let base_indent = (if falsy found then Some (spaces 6) else found) in
               (case re_search metadata_re line of
                  None \<Rightarrow> Inr None
                | Some metadata_match \<Rightarrow>
                    (case group metadata_match 1 of
                       None \<Rightarrow> Inl AttributeError
                     | Some content \<Rightarrow>
                         let metadata_content = strip content;
                             props = map strip
                               (filter (\<lambda>p. strip p \<noteq> []) (split_on 44 metadata_content));
                             formatted_props = join (U '','' @ [NL])
                               (map (\<lambda>prop. fmt base_indent @ spaces 10 @ prop) props)
                         in
                         (case re_search logger_re line of
                            None \<Rightarrow> Inr None
                          | Some logger_match \<Rightarrow>
                              let logger_var = group logger_match 1;
                                  level = group logger_match 2;
                                  message = group logger_match 3
                              in Inr (Some
                                   ([fmt base_indent @ fmt logger_var @ U ''.'' @ fmt level @
                                       U ''('' @ [39] @ fmt message @ [39] @ U '', {'' @ [NL],
                                     fmt base_indent @ spaces 8 @ U ''metadata: {'' @ [NL]] @
                                    (if formatted_props \<noteq> [] then [formatted_props @ [NL]] else []) @
                                    [fmt base_indent @ spaces 8 @ U ''}'' @ [NL],
                                     fmt base_indent @ spaces 6 @ U ''});'' @ [NL]])))))))"

text \<open>
  The second repair: a property line indented by twelve spaces or more is written again
  at the indentation of the nearest \<open>metadata: {\<close> line before it, or at six spaces.
\<close>

definition prop_shape :: "ustr \<Rightarrow> bool" where
  "prop_shape line \<longleftrightarrow> re_match prop_re line \<noteq> None"

definition prop_line :: "ustr list \<Rightarrow> nat \<Rightarrow> ustr \<Rightarrow> error + ustr" where
  "prop_line lines i line =
     (case find_indent metadata_anchor lines i (Some (spaces 6)) of
        Inl e \<Rightarrow> Inl e
      | Inr base_indent \<Rightarrow>
          let prop = strip line in Inr (fmt base_indent @ spaces 10 @ prop @ [NL]))"

text \<open>The third repair: a closing brace indented too far.\<close>

definition brace_shape :: "ustr \<Rightarrow> bool" where
  "brace_shape line \<longleftrightarrow>
     strip line = U ''}'' \<and> (startswith line (spaces 14) \<or> startswith line (spaces 8 @ U ''}''))"

definition brace_line :: "ustr list \<Rightarrow> nat \<Rightarrow> error + ustr" where
  "brace_line lines i =
     (case find_indent metadata_anchor lines i (Some (spaces 6)) of
        Inl e \<Rightarrow> Inl e
      | Inr base_indent \<Rightarrow> Inr (fmt base_indent @ spaces 8 @ U ''}'' @ [NL]))"

text \<open>
  One round of the \<open>while\<close> loop: the three repairs in the order of the script, each
  ending the round with \<open>continue\<close> when it applies (\<open>new_lines.append\<close>, \<open>fixed += 1\<close>,
  \<open>i += 3\<close> or \<open>i += 1\<close>), and the copy of the line otherwise.
\<close>

definition body :: "ustr list \<Rightarrow> loop_state \<Rightarrow> error + loop_state" where
  "body lines st =
     (case item lines (st_i st) of
        Inl e \<Rightarrow> Inl e
      | Inr line \<Rightarrow>
          (case block_lines lines (st_i st) line of
             Inl e \<Rightarrow> Inl e
           | Inr (Some block) \<Rightarrow>
               Inr \<lparr>st_i = st_i st + 3,
                    st_fixed = st_fixed st + 1,
                    st_new_lines = st_new_lines st @ block\<rparr>
           | Inr None \<Rightarrow>
               if prop_shape line then
                 (case prop_line lines (st_i st) line of
                    Inl e \<Rightarrow> Inl e
                  | Inr l \<Rightarrow>
                      Inr \<lparr>st_i = st_i st + 1,
                           st_fixed = st_fixed st + 1,
                           st_new_lines = st_new_lines st @ [l]\<rparr>)
               else if brace_shape line then
                 (case brace_line lines (st_i st) of
                    Inl e \<Rightarrow> Inl e
                  | Inr l \<Rightarrow>
                      Inr \<lparr>st_i = st_i st + 1,
                           st_fixed = st_fixed st + 1,
                           st_new_lines = st_new_lines st @ [l]\<rparr>)
               else
                 Inr \<lparr>st_i = st_i st + 1,
                      st_fixed = st_fixed st,
                      st_new_lines = st_new_lines st @ [line]\<rparr>))"

subsection \<open>No round of the loop raises, and every round moves on\<close>

lemma rep_ends_zero_nonempty: "rep_ends c 0 st \<noteq> []"
proof -
  obtain p s g where st: "st = (p, s, g)" by (cases st) auto
  show ?thesis unfolding st by (cases s) auto
qed

lemma re_match_indent_re: "\<exists>m. re_match indent_re l = Some m"
proof -
  obtain x xs where ne: "rev (rep_ends Space 0 (0, l, Map.empty)) = x # xs"
    using rep_ends_zero_nonempty [of Space "(0, l, Map.empty)"]
    by (cases "rev (rep_ends Space 0 (0, l, Map.empty))") auto
  obtain p' s' g' where x: "x = (p', s', g')" by (cases x) auto
  show ?thesis
    by (simp add: re_match_def match_at_def indent_re_def ne x)
qed

lemma find_indent_total:
  "k \<le> length lines \<Longrightarrow> \<exists>v. find_indent anchor lines k base = Inr v"
proof (induction k)
  case 0
  then show ?case by simp
next
  case (Suc j)
  then have "item lines j = Inr (lines ! j)" by (simp add: item_def)
  moreover obtain m where "re_match indent_re (lines ! j) = Some m"
    using re_match_indent_re by blast
  moreover from Suc have "\<exists>v. find_indent anchor lines j base = Inr v" by simp
  ultimately show ?case by auto
qed

lemma find_indent_default:
  "\<forall>j<k. \<not> anchor (lines ! j) \<Longrightarrow> k \<le> length lines \<Longrightarrow> find_indent anchor lines k base = Inr base"
  by (induction k) (auto simp: item_def)

lemma scan_match_at:
  "scan r adv p s = Some (pre, m) \<Longrightarrow> \<exists>adv' p' s'. match_at r adv' p' s' = Some m"
proof (induction r adv p s arbitrary: pre rule: scan.induct)
  case (1 r adv p)
  then show ?case by auto
next
  case (2 r adv p c s)
  then show ?case by (cases "match_at r adv p (c # s)") auto
qed

lemma match_at_groups:
  assumes "match_at r adv p s = Some m" and "k \<noteq> 0"
  shows "\<exists>p' s' g. (p', s', g) \<in> set (ms r (p, s, Map.empty)) \<and> m_groups m k = g k"
proof -
  from assms(1) obtain p' s' g where f: "first_ok adv p (ms r (p, s, Map.empty)) = Some (p', s', g)"
    and m: "m = \<lparr>m_start = p, m_end = p', m_rest = s', m_groups = g(0 \<mapsto> take (p' - p) s)\<rparr>"
    by (auto simp: match_at_def split: option.splits)
  from first_ok_Some [OF f] have "(p', s', g) \<in> set (ms r (p, s, Map.empty))" by simp
  with m assms(2) show ?thesis by auto
qed

lemma ms_Lit_groups: "(p', s', g') \<in> set (ms (Lit w) (p, s, g)) \<Longrightarrow> g' = g"
  by (auto split: option.splits)

lemma ms_Rep_groups: "(p', s', g') \<in> set (ms (Rep gr n c) (p, s, g)) \<Longrightarrow> g' = g"
  by (cases gr) (auto dest: rep_ends_shape)

lemma metadata_re_group:
  assumes "(p', s', g') \<in> set (ms metadata_re (p, s, g))"
  shows "g' 1 \<noteq> None"
  using assms unfolding metadata_re_def
  by (auto dest!: ms_Lit_groups ms_Rep_groups simp del: ms.simps(1,2,3) split: prod.splits)


lemma re_search_metadata_group:
  assumes "re_search metadata_re line = Some m"
  shows "\<exists>c. group m 1 = Some c"
proof -
  from assms obtain pre where "scan metadata_re False 0 line = Some (pre, m)"
    by (auto simp: re_search_def)
  from scan_match_at [OF this] obtain adv p s where "match_at metadata_re adv p s = Some m"
    by blast
  from match_at_groups [OF this, of 1] obtain p' s' g where
    "(p', s', g) \<in> set (ms metadata_re (p, s, Map.empty))" "m_groups m 1 = g 1"
    by auto
  with metadata_re_group show ?thesis by (fastforce simp: group_def)
qed

lemma block_shape_total: "\<exists>b. block_shape lines i line = Inr b"
  by (auto simp: block_shape_def item_def)

lemma block_shape_True: "block_shape lines i line = Inr True \<Longrightarrow> i + 3 < length lines"
  by (auto simp: block_shape_def split: if_splits sum.splits)

lemma block_lines_cases:
  assumes "i < length lines"
  shows "block_lines lines i line = Inr None \<or>
         (\<exists>block. block_shape lines i line = Inr True \<and> block_lines lines i line = Inr (Some block))"
proof -
  obtain b where b: "block_shape lines i line = Inr b"
    using block_shape_total by blast
  show ?thesis
  proof (cases b)
    case False
    with b show ?thesis by (simp add: block_lines_def)
  next
    case True
    from assms obtain found where f: "find_indent logger_anchor lines i (Some []) = Inr found"
      using find_indent_total [of i lines] by (metis less_imp_le)
    show ?thesis
    proof (cases "re_search metadata_re line")
      case None
      with b True f show ?thesis by (simp add: block_lines_def Let_def)
    next
      case (Some mm)
      then obtain c where c: "group mm 1 = Some c" using re_search_metadata_group by blast
      show ?thesis
      proof (cases "re_search logger_re line")
        case None
        with b True f Some c show ?thesis by (simp add: block_lines_def Let_def)
      next
        case lm: (Some lm)
        with b True f Some c show ?thesis by (simp add: block_lines_def Let_def)
      qed
    qed
  qed
qed

lemma prop_line_total:
  assumes "i < length lines"
  shows "\<exists>l. prop_line lines i line = Inr l"
proof -
  from assms obtain v where "find_indent metadata_anchor lines i (Some (spaces 6)) = Inr v"
    using find_indent_total [of i lines] by (metis less_imp_le)
  then show ?thesis by (simp add: prop_line_def)
qed

lemma brace_line_total:
  assumes "i < length lines"
  shows "\<exists>l. brace_line lines i = Inr l"
proof -
  from assms obtain v where "find_indent metadata_anchor lines i (Some (spaces 6)) = Inr v"
    using find_indent_total [of i lines] by (metis less_imp_le)
  then show ?thesis by (simp add: brace_line_def)
qed

text \<open>
  The three ways in which a round ends: a block rewritten (three lines consumed, which
  are there), one line rewritten, one line copied.
\<close>

lemma body_cases:
  assumes "st_i st < length lines"
  shows "(\<exists>block. st_i st + 3 < length lines \<and>
            block_lines lines (st_i st) (lines ! st_i st) = Inr (Some block) \<and>
            body lines st = Inr
              \<lparr>st_i = st_i st + 3, st_fixed = st_fixed st + 1,
               st_new_lines = st_new_lines st @ block\<rparr>) \<or>
         (\<exists>l. block_lines lines (st_i st) (lines ! st_i st) = Inr None \<and>
            (prop_shape (lines ! st_i st) \<or> brace_shape (lines ! st_i st)) \<and>
            body lines st = Inr
              \<lparr>st_i = st_i st + 1, st_fixed = st_fixed st + 1,
               st_new_lines = st_new_lines st @ [l]\<rparr>) \<or>
         (block_lines lines (st_i st) (lines ! st_i st) = Inr None \<and>
            \<not> prop_shape (lines ! st_i st) \<and> \<not> brace_shape (lines ! st_i st) \<and>
            body lines st = Inr
              \<lparr>st_i = st_i st + 1, st_fixed = st_fixed st,
               st_new_lines = st_new_lines st @ [lines ! st_i st]\<rparr>)"
proof -
  let ?line = "lines ! st_i st"
  from assms have it: "item lines (st_i st) = Inr ?line" by (simp add: item_def)
  from block_lines_cases [OF assms, of ?line] prop_line_total [OF assms, of ?line]
    brace_line_total [OF assms] it
  show ?thesis
    by (auto simp: body_def dest: block_shape_True)
qed

lemma body_advances:
  assumes "st_i st < length lines" and "body lines st = Inr st'"
  shows "st_i st < st_i st' \<and> st_i st' \<le> length lines"
  using body_cases [OF assms(1)] assms by auto

subsection \<open>The loop and the script\<close>

text \<open>
  \<^verbatim>\<open>
  while i < len(lines):
      ...
  \<close>
\<close>

function repair_loop :: "ustr list \<Rightarrow> loop_state \<Rightarrow> error + loop_state" where
  "repair_loop lines st =
     (if st_i st < length lines then
        (case body lines st of
           Inl e \<Rightarrow> Inl e
         | Inr st' \<Rightarrow> repair_loop lines st')
      else Inr st)"
  by pat_completeness auto
termination
proof (relation "measure (\<lambda>(lines, st). length lines - st_i st)")
  show "wf (measure (\<lambda>(lines, st). length lines - st_i st))" by simp
next
  fix lines :: "ustr list" and st st' :: loop_state
  assume "st_i st < length lines" and "body lines st = Inr st'"
  from body_advances [OF this]
  show "((lines, st'), lines, st) \<in> measure (\<lambda>(lines, st). length lines - st_i st)"
    by auto
qed

declare repair_loop.simps [simp del]

text \<open>
  The repair as a function of the lines: the new lines and the number of corrections.
\<close>

definition repairIndentation :: "ustr list \<Rightarrow> error + ustr list \<times> nat" where
  "repairIndentation lines =
     (case repair_loop lines \<lparr>st_i = 0, st_fixed = 0, st_new_lines = []\<rparr> of
        Inl e \<Rightarrow> Inl e
      | Inr st \<Rightarrow> Inr (st_new_lines st, st_fixed st))"

text \<open>
  The script: read the lines of the file, repair, and write them back when something was
  corrected.
\<close>

definition fix_indentation :: "world \<Rightarrow> error + world" where
  "fix_indentation w =
     (case read_file file_path w of
        Inl e \<Rightarrow> Inl e
      | Inr text \<Rightarrow>
          (case repairIndentation (readlines text) of
             Inl e \<Rightarrow> Inl e
           | Inr (new_lines, fixed) \<Rightarrow>
               if fixed > 0 then
                 Inr (print (Corrections fixed) (write_file file_path (concat new_lines) w))
               else Inr (print No_correction w)))"

subsection \<open>The rounds of the loop\<close>

text \<open>
  To speak about single rounds: the state in which a round at line \<open>k\<close> starts with
  nothing counted and nothing written yet; whether the first repair applies at \<open>k\<close>;
  whether any repair does; the lines the round at \<open>k\<close> appends; and the list of rounds
  the loop makes from line \<open>k\<close> on, each with the index it starts and the index it ends
  at.
\<close>

definition at_line :: "nat \<Rightarrow> loop_state" where
  "at_line k = \<lparr>st_i = k, st_fixed = 0, st_new_lines = []\<rparr>"

definition block_fires :: "ustr list \<Rightarrow> nat \<Rightarrow> bool" where
  "block_fires lines k \<longleftrightarrow>
     (case block_lines lines k (lines ! k) of Inr (Some block) \<Rightarrow> True | _ \<Rightarrow> False)"

definition repaired_at :: "ustr list \<Rightarrow> nat \<Rightarrow> bool" where
  "repaired_at lines k \<longleftrightarrow>
     block_fires lines k \<or> prop_shape (lines ! k) \<or> brace_shape (lines ! k)"

definition emitted :: "ustr list \<Rightarrow> nat \<Rightarrow> ustr list" where
  "emitted lines k = (case body lines (at_line k) of Inl e \<Rightarrow> [] | Inr st' \<Rightarrow> st_new_lines st')"

lemma body_frame:
  "body lines st =
     (case body lines (at_line (st_i st)) of
        Inl e \<Rightarrow> Inl e
      | Inr d \<Rightarrow> Inr \<lparr>st_i = st_i d, st_fixed = st_fixed st + st_fixed d,
                      st_new_lines = st_new_lines st @ st_new_lines d\<rparr>)"
  by (simp add: body_def at_line_def split: sum.splits option.splits)

lemma round_summary:
  assumes "k < length lines"
  shows "\<exists>d. body lines (at_line k) = Inr d \<and>
             st_i d = (if block_fires lines k then k + 3 else k + 1) \<and>
             st_i d \<le> length lines \<and>
             st_fixed d = (if repaired_at lines k then 1 else 0) \<and>
             st_new_lines d = emitted lines k \<and>
             (\<not> repaired_at lines k \<longrightarrow> emitted lines k = [lines ! k])"
proof -
  have k: "st_i (at_line k) < length lines" using assms by (simp add: at_line_def)
  from body_cases [OF k] assms show ?thesis
    by (auto simp: at_line_def block_fires_def repaired_at_def emitted_def)
qed

function spans :: "ustr list \<Rightarrow> nat \<Rightarrow> (nat \<times> nat) list" where
  "spans lines k =
     (if k < length lines then
        (case body lines (at_line k) of
           Inl e \<Rightarrow> []
         | Inr st' \<Rightarrow> (k, st_i st') # spans lines (st_i st'))
      else [])"
  by pat_completeness auto
termination
proof (relation "measure (\<lambda>(lines, k). length lines - k)")
  show "wf (measure (\<lambda>(lines, k). length lines - k))" by simp
next
  fix lines :: "ustr list" and k :: nat and st' :: loop_state
  assume "k < length lines" and b: "body lines (at_line k) = Inr st'"
  then have "st_i (at_line k) < length lines" by (simp add: at_line_def)
  from body_advances [OF this b]
  show "((lines, st_i st'), lines, k) \<in> measure (\<lambda>(lines, k). length lines - k)"
    by (auto simp: at_line_def)
qed

declare spans.simps [simp del]

lemma spans_unfold:
  assumes "k < length lines"
  shows "spans lines k =
           (k, if block_fires lines k then k + 3 else k + 1) #
           spans lines (if block_fires lines k then k + 3 else k + 1)"
  using round_summary [OF assms] assms by (subst spans.simps) auto

lemma spans_end: "\<not> k < length lines \<Longrightarrow> spans lines k = []"
  by (subst spans.simps) simp

lemma next_le:
  assumes "k < length lines"
  shows "(if block_fires lines k then k + 3 else k + 1) \<le> length lines"
  using round_summary [OF assms] by auto

lemma spans_cover:
  "k \<le> length lines \<Longrightarrow> concat (map (\<lambda>(a, b). [a..<b]) (spans lines k)) = [k..<length lines]"
proof (induction lines k rule: spans.induct)
  case (1 lines k)
  show ?case
  proof (cases "k < length lines")
    case False
    with "1.prems" show ?thesis by (simp add: spans_end)
  next
    case True
    let ?n = "if block_fires lines k then k + 3 else k + 1"
    from round_summary [OF True] obtain d where d: "body lines (at_line k) = Inr d" "st_i d = ?n"
      by blast
    from next_le [OF True] have le: "?n \<le> length lines" .
    from "1.IH" [OF True d(1)] d(2) le
    have ih: "concat (map (\<lambda>(a, b). [a..<b]) (spans lines ?n)) = [?n..<length lines]" by simp
    have "k \<le> ?n" by simp
    then have "[k..<?n] @ [?n..<length lines] = [k..<length lines]"
      using le by (metis le_Suc_ex upt_add_eq_append)
    with ih show ?thesis
      by (subst spans_unfold [OF True]) simp
  qed
qed

lemma spans_steps:
  "(a, b) \<in> set (spans lines k) \<Longrightarrow> (b = a + 1 \<or> b = a + 3) \<and> k \<le> a \<and> b \<le> length lines"
proof (induction lines k rule: spans.induct)
  case (1 lines k)
  show ?case
  proof (cases "k < length lines")
    case False
    with "1.prems" show ?thesis by (simp add: spans_end)
  next
    case True
    let ?n = "if block_fires lines k then k + 3 else k + 1"
    from round_summary [OF True] obtain d where d: "body lines (at_line k) = Inr d" "st_i d = ?n"
      by blast
    from "1.prems" spans_unfold [OF True]
    have "(a, b) = (k, ?n) \<or> (a, b) \<in> set (spans lines ?n)" by auto
    then show ?thesis
    proof
      assume "(a, b) = (k, ?n)"
      with next_le [OF True] show ?thesis by (auto split: if_splits)
    next
      assume "(a, b) \<in> set (spans lines ?n)"
      with "1.IH" [OF True d(1)] d(2) show ?thesis by (auto split: if_splits)
    qed
  qed
qed

lemma spans_round:
  "(a, b) \<in> set (spans lines k) \<Longrightarrow>
     a < length lines \<and> b = (if block_fires lines a then a + 3 else a + 1)"
proof (induction lines k rule: spans.induct)
  case (1 lines k)
  show ?case
  proof (cases "k < length lines")
    case False
    with "1.prems" show ?thesis by (simp add: spans_end)
  next
    case True
    let ?n = "if block_fires lines k then k + 3 else k + 1"
    from round_summary [OF True] obtain d where d: "body lines (at_line k) = Inr d" "st_i d = ?n"
      by blast
    from "1.prems" spans_unfold [OF True]
    have "(a, b) = (k, ?n) \<or> (a, b) \<in> set (spans lines ?n)" by auto
    then show ?thesis
    proof
      assume "(a, b) = (k, ?n)"
      with True show ?thesis by auto
    next
      assume "(a, b) \<in> set (spans lines ?n)"
      with "1.IH" [OF True d(1)] d(2) show ?thesis by (auto split: if_splits)
    qed
  qed
qed

lemma spans_length: "length (spans lines k) \<le> length lines - k"
proof (induction lines k rule: spans.induct)
  case (1 lines k)
  show ?case
  proof (cases "k < length lines")
    case False
    then show ?thesis by (simp add: spans_end)
  next
    case True
    let ?n = "if block_fires lines k then k + 3 else k + 1"
    from round_summary [OF True] obtain d where d: "body lines (at_line k) = Inr d" "st_i d = ?n"
      by blast
    from "1.IH" [OF True d(1)] d(2) have "length (spans lines ?n) \<le> length lines - ?n" by simp
    with True show ?thesis by (subst spans_unfold [OF True]) (auto split: if_splits)
  qed
qed

lemma repair_loop_spans:
  "st_i st \<le> length lines \<Longrightarrow>
   repair_loop lines st = Inr
     \<lparr>st_i = length lines,
      st_fixed = st_fixed st + length (filter (repaired_at lines) (map fst (spans lines (st_i st)))),
      st_new_lines = st_new_lines st @ concat (map (emitted lines) (map fst (spans lines (st_i st))))\<rparr>"
proof (induction lines st rule: repair_loop.induct)
  case (1 lines st)
  let ?k = "st_i st"
  show ?case
  proof (cases "?k < length lines")
    case False
    with "1.prems" have "?k = length lines" by simp
    with False show ?thesis by (subst repair_loop.simps) (simp add: spans_end)
  next
    case True
    let ?n = "if block_fires lines ?k then ?k + 3 else ?k + 1"
    from round_summary [OF True] obtain d where d: "body lines (at_line ?k) = Inr d"
      "st_i d = ?n" "st_fixed d = (if repaired_at lines ?k then 1 else 0)"
      "st_new_lines d = emitted lines ?k"
      by blast
    define st' where "st' = \<lparr>st_i = st_i d, st_fixed = st_fixed st + st_fixed d,
                      st_new_lines = st_new_lines st @ st_new_lines d\<rparr>"
    have b: "body lines st = Inr st'"
      by (subst body_frame) (simp add: d(1) st'_def)
    have le: "st_i st' \<le> length lines" using next_le [OF True] d(2) by (simp add: st'_def)
    from "1.IH" [OF True b le]
    have "repair_loop lines st' = Inr
     \<lparr>st_i = length lines,
      st_fixed = st_fixed st' + length (filter (repaired_at lines) (map fst (spans lines (st_i st')))),
      st_new_lines = st_new_lines st' @ concat (map (emitted lines) (map fst (spans lines (st_i st'))))\<rparr>" .
    moreover have "repair_loop lines st = repair_loop lines st'"
      using True b by (subst repair_loop.simps) simp
    moreover have "st_i st' = ?n" by (simp add: st'_def d(2))
    moreover note su = spans_unfold [OF True]
    ultimately show ?thesis
      by (simp add: su st'_def d)
  qed
qed


subsection \<open>Running the repair on a given input\<close>

text \<open>
  The equations that evaluate the definitions above on a given input, for the simplifier.
\<close>

lemma spaces_eval:
  "spaces 6 = [32, 32, 32, 32, 32, 32]"
  "spaces 8 = [32, 32, 32, 32, 32, 32, 32, 32]"
  "spaces 10 = [32, 32, 32, 32, 32, 32, 32, 32, 32, 32]"
  "spaces 14 = [32, 32, 32, 32, 32, 32, 32, 32, 32, 32, 32, 32, 32, 32]"
  by (simp_all add: spaces_def eval_nat_numeral)

lemmas text_defs = U_def NL_def isspace_def strip_def lstrip_def startswith_def spaces_eval
  replace_char_def

lemmas re_defs = re_search_def re_match_def match_at_def group_def fmt_def item_def

lemmas indent_defs = indent_re_def metadata_re_def logger_re_def prop_re_def
  logger_anchor_def metadata_anchor_def falsy_def block_shape_def block_lines_def prop_shape_def
  prop_line_def brace_shape_def brace_line_def body_def repairIndentation_def
  at_line_def block_fires_def repaired_at_def emitted_def Let_def

text \<open>Two inputs used below.\<close>

definition block_example :: "ustr list" where
  "block_example =
     [U ''  logger.info('hi', { metadata: { a: 1, b: 2 }\<newline>'',
      U ''          }\<newline>'',
      U ''      );\<newline>'',
      U ''x\<newline>'']"

definition aligned_example :: "ustr list" where
  "aligned_example = [U ''metadata: {\<newline>'', U ''x\<newline>'', U ''        }\<newline>'']"


section \<open>Properties of the indentation repair\<close>

text \<open>
  C10. For every finite list of lines the scanning loop terminates, every round of it
  moves the index on by 1 or by 3, and every line is consumed by exactly one round.
  In the statement: from a state whose index is inside the list the loop makes one round
  of its body, which does not raise and moves the index on by 1 or by 3 without passing
  the end, and goes on from the state reached; from a state whose index is not inside
  the list it returns that state. From the initial state the loop returns with the
  index at the length of the list, and what it returns is put together from the rounds in
  \<open>spans lines 0\<close> and from nothing else: it has counted the rounds that repair, and its
  output is the lines these rounds append, in order. Each of these rounds starts inside
  the list and is the round the body makes from any state at its index. There are at most
  as many rounds as lines, and their index ranges, put one after the other, are the
  indices of the list in order.
\<close>

theorem loop_terminates_each_line_once:
  "(\<forall>st. st_i st < length lines \<longrightarrow>
      (\<exists>st'. body lines st = Inr st' \<and> repair_loop lines st = repair_loop lines st' \<and>
             (st_i st' = st_i st + 1 \<or> st_i st' = st_i st + 3) \<and> st_i st' \<le> length lines)) \<and>
   (\<forall>st. \<not> st_i st < length lines \<longrightarrow> repair_loop lines st = Inr st) \<and>
   (\<exists>st. repair_loop lines \<lparr>st_i = 0, st_fixed = 0, st_new_lines = []\<rparr> = Inr st \<and>
         st_i st = length lines) \<and>
   repair_loop lines \<lparr>st_i = 0, st_fixed = 0, st_new_lines = []\<rparr> = Inr
     \<lparr>st_i = length lines,
      st_fixed = length (filter (repaired_at lines) (map fst (spans lines 0))),
      st_new_lines = concat (map (emitted lines) (map fst (spans lines 0)))\<rparr> \<and>
   (\<forall>(a, b) \<in> set (spans lines 0).
      a < length lines \<and> (b = a + 1 \<or> b = a + 3) \<and> b \<le> length lines \<and>
      (\<forall>st. st_i st = a \<longrightarrow>
         body lines st = Inr
           \<lparr>st_i = b, st_fixed = st_fixed st + (if repaired_at lines a then 1 else 0),
            st_new_lines = st_new_lines st @ emitted lines a\<rparr>)) \<and>
   length (spans lines 0) \<le> length lines \<and>
   concat (map (\<lambda>(a, b). [a..<b]) (spans lines 0)) = [0..<length lines]"
proof (intro conjI allI impI)
  fix st :: loop_state
  assume lt: "st_i st < length lines"
  from body_cases [OF lt] obtain st' where b: "body lines st = Inr st'"
    and s: "st_i st' = st_i st + 1 \<or> st_i st' = st_i st + 3" by auto
  from body_advances [OF lt b] have le: "st_i st' \<le> length lines" by simp
  have "repair_loop lines st = repair_loop lines st'"
    using lt b by (subst repair_loop.simps) simp
  with b s le
  show "\<exists>st'. body lines st = Inr st' \<and> repair_loop lines st = repair_loop lines st' \<and>
             (st_i st' = st_i st + 1 \<or> st_i st' = st_i st + 3) \<and> st_i st' \<le> length lines"
    by blast
next
  fix st :: loop_state
  assume "\<not> st_i st < length lines"
  then show "repair_loop lines st = Inr st" by (subst repair_loop.simps) simp
next
  show "\<exists>st. repair_loop lines \<lparr>st_i = 0, st_fixed = 0, st_new_lines = []\<rparr> = Inr st \<and>
         st_i st = length lines"
    using repair_loop_spans [of "\<lparr>st_i = 0, st_fixed = 0, st_new_lines = []\<rparr>" lines] by simp
next
  show "repair_loop lines \<lparr>st_i = 0, st_fixed = 0, st_new_lines = []\<rparr> = Inr
     \<lparr>st_i = length lines,
      st_fixed = length (filter (repaired_at lines) (map fst (spans lines 0))),
      st_new_lines = concat (map (emitted lines) (map fst (spans lines 0)))\<rparr>"
    using repair_loop_spans [of "\<lparr>st_i = 0, st_fixed = 0, st_new_lines = []\<rparr>" lines] by simp
next
  show "\<forall>(a, b) \<in> set (spans lines 0).
      a < length lines \<and> (b = a + 1 \<or> b = a + 3) \<and> b \<le> length lines \<and>
      (\<forall>st. st_i st = a \<longrightarrow>
         body lines st = Inr
           \<lparr>st_i = b, st_fixed = st_fixed st + (if repaired_at lines a then 1 else 0),
            st_new_lines = st_new_lines st @ emitted lines a\<rparr>)"
  proof (intro ballI, clarify)
    fix a b
    assume ab: "(a, b) \<in> set (spans lines 0)"
    from spans_round [OF ab] have lt: "a < length lines"
      and b: "b = (if block_fires lines a then a + 3 else a + 1)" by simp_all
    from round_summary [OF lt] obtain d where d: "body lines (at_line a) = Inr d"
      "st_i d = (if block_fires lines a then a + 3 else a + 1)" "st_i d \<le> length lines"
      "st_fixed d = (if repaired_at lines a then 1 else 0)" "st_new_lines d = emitted lines a"
      by blast
    have "body lines st = Inr
           \<lparr>st_i = b, st_fixed = st_fixed st + (if repaired_at lines a then 1 else 0),
            st_new_lines = st_new_lines st @ emitted lines a\<rparr>" if "st_i st = a" for st :: loop_state
      using that d b by (subst body_frame) simp
    with lt b d(2,3)
    show "a < length lines \<and> (b = a + 1 \<or> b = a + 3) \<and> b \<le> length lines \<and>
      (\<forall>st. st_i st = a \<longrightarrow>
         body lines st = Inr
           \<lparr>st_i = b, st_fixed = st_fixed st + (if repaired_at lines a then 1 else 0),
            st_new_lines = st_new_lines st @ emitted lines a\<rparr>)"
      by auto
  qed
next
  show "length (spans lines 0) \<le> length lines"
    using spans_length [of lines 0] by simp
next
  show "concat (map (\<lambda>(a, b). [a..<b]) (spans lines 0)) = [0..<length lines]"
    using spans_cover [of 0 lines] by simp
qed

lemma block_example_spans: "spans block_example 0 = [(0, 3), (3, 4)]"
  by (simp add: spans.simps block_example_def text_defs re_defs indent_defs)

lemma block_example_rounds:
  "emitted block_example 0 =
     [U ''      logger.info('hi', {\<newline>'',
      U ''              metadata: {\<newline>'',
      U ''                a: 1,\<newline>                b: 2\<newline>'',
      U ''              }\<newline>'',
      U ''            });\<newline>'']"
  "emitted block_example 3 = [U ''x\<newline>'']"
  "repaired_at block_example 0" "\<not> repaired_at block_example 3"
  by (simp_all add: block_example_def text_defs re_defs indent_defs)

theorem loop_terminates_each_line_once_witness:
  "spans block_example 0 = [(0, 3), (3, 4)] \<and>
   (\<exists>st'. body block_example \<lparr>st_i = 0, st_fixed = 0, st_new_lines = []\<rparr> = Inr st' \<and>
      st_i st' = 3 \<and>
      repair_loop block_example \<lparr>st_i = 0, st_fixed = 0, st_new_lines = []\<rparr> =
        repair_loop block_example st') \<and>
   repair_loop block_example \<lparr>st_i = 0, st_fixed = 0, st_new_lines = []\<rparr> = Inr
     \<lparr>st_i = 4, st_fixed = 1,
      st_new_lines =
        [U ''      logger.info('hi', {\<newline>'',
         U ''              metadata: {\<newline>'',
         U ''                a: 1,\<newline>                b: 2\<newline>'',
         U ''              }\<newline>'',
         U ''            });\<newline>'',
         U ''x\<newline>'']\<rparr> \<and>
   concat (map (\<lambda>(a, b). [a..<b]) (spans block_example 0)) = [0, 1, 2, 3]"
proof -
  let ?init = "\<lparr>st_i = 0, st_fixed = 0, st_new_lines = []\<rparr> :: loop_state"
  have len: "length block_example = 4" by (simp add: block_example_def)
  have up: "[0..<4] = [0, 1, 2, 3::nat]" by (simp add: upt_rec)
  have mem: "(0, 3) \<in> set (spans block_example 0)" by (simp add: block_example_spans)
  note t = loop_terminates_each_line_once [of block_example]
  note t1 = t [THEN conjunct1]
  note t4 = t [THEN conjunct2, THEN conjunct2, THEN conjunct2, THEN conjunct1]
  note t5 = t [THEN conjunct2, THEN conjunct2, THEN conjunct2, THEN conjunct2, THEN conjunct1]
  note t7 = t [THEN conjunct2, THEN conjunct2, THEN conjunct2, THEN conjunct2, THEN conjunct2,
      THEN conjunct2]
  have "st_i ?init < length block_example" by (simp add: len)
  with t1 [THEN spec, of ?init] obtain st' where st': "body block_example ?init = Inr st'"
      "repair_loop block_example ?init = repair_loop block_example st'"
    by blast
  from bspec [OF t5 mem] have "\<forall>st. st_i st = 0 \<longrightarrow>
         body block_example st = Inr
           \<lparr>st_i = 3, st_fixed = st_fixed st + (if repaired_at block_example 0 then 1 else 0),
            st_new_lines = st_new_lines st @ emitted block_example 0\<rparr>"
    by simp
  from this [THEN spec, of ?init] st'(1) have "st_i st' = 3" by simp
  with st' have 1: "\<exists>st'. body block_example ?init = Inr st' \<and> st_i st' = 3 \<and>
      repair_loop block_example ?init = repair_loop block_example st'"
    by blast
  from t4 have 2: "repair_loop block_example ?init = Inr
     \<lparr>st_i = 4, st_fixed = 1,
      st_new_lines =
        [U ''      logger.info('hi', {\<newline>'',
         U ''              metadata: {\<newline>'',
         U ''                a: 1,\<newline>                b: 2\<newline>'',
         U ''              }\<newline>'',
         U ''            });\<newline>'',
         U ''x\<newline>'']\<rparr>"
    by (simp add: block_example_spans block_example_rounds len)
  from t7 have 3: "concat (map (\<lambda>(a, b). [a..<b]) (spans block_example 0)) = [0, 1, 2, 3]"
    by (simp only: len up)
  from 1 2 3 block_example_spans show ?thesis by (intro conjI)
qed

subsection \<open>Which lines start a round\<close>

lemma strip_prefix_set: "strip_prefix w s = Some s' \<Longrightarrow> set w \<subseteq> set s"
  by (auto dest: strip_prefix_Some)

lemma contains_set: "contains w s \<Longrightarrow> set w \<subseteq> set s"
proof (induction s)
  case Nil
  then show ?case by simp
next
  case (Cons c s)
  from Cons.prems have "strip_prefix w (c # s) \<noteq> None \<or> contains w s" by simp
  then show ?case
  proof
    assume "strip_prefix w (c # s) \<noteq> None"
    then obtain y where "strip_prefix w (c # s) = Some y" by auto
    then show ?thesis by (rule strip_prefix_set)
  next
    assume "contains w s"
    with Cons.IH show ?thesis by auto
  qed
qed

lemma mem_dropWhile: "x \<in> set xs \<Longrightarrow> \<not> P x \<Longrightarrow> x \<in> set (dropWhile P xs)"
  by (induction xs) auto

lemma mem_strip: "x \<in> set s \<Longrightarrow> \<not> isspace x \<Longrightarrow> x \<in> set (strip s)"
  unfolding strip_def by (simp add: mem_dropWhile)

lemma metadata_anchor_strip:
  assumes "metadata_anchor l"
  shows "strip l \<noteq> U ''}''" and "strip l \<noteq> U '');''"
proof -
  from assms have "set (U ''metadata: {'') \<subseteq> set l"
    unfolding metadata_anchor_def by (rule contains_set)
  then have "109 \<in> set l" by (auto simp: U_def)
  moreover have "\<not> isspace 109" by (simp add: isspace_def)
  ultimately have m: "109 \<in> set (strip l)" by (rule mem_strip)
  from m show "strip l \<noteq> U ''}''" by (auto simp: U_def)
  from m show "strip l \<noteq> U '');''" by (auto simp: U_def)
qed

lemma block_fires_shape:
  assumes "block_fires lines j"
  shows "j + 3 < length lines" and "metadata_anchor (lines ! j)"
    and "strip (lines ! (j + 1)) = U ''}''" and "strip (lines ! (j + 2)) = U '');''"
proof -
  from assms have sh: "block_shape lines j (lines ! j) = Inr True"
    by (auto simp: block_fires_def block_lines_def split: sum.splits bool.splits option.splits)
  then show "j + 3 < length lines" by (rule block_shape_True)
  from sh show "metadata_anchor (lines ! j)"
    by (auto simp: block_shape_def split: if_splits)
  from sh show "strip (lines ! (j + 1)) = U ''}''"
    by (auto simp: block_shape_def item_def split: if_splits)
  from sh show "strip (lines ! (j + 2)) = U '');''"
    by (auto simp: block_shape_def item_def split: if_splits)
qed

lemma block_fires_apart:
  assumes "block_fires lines j"
  shows "\<not> block_fires lines (j + 1)" and "\<not> block_fires lines (j + 2)"
proof -
  show "\<not> block_fires lines (j + 1)"
  proof
    assume "block_fires lines (j + 1)"
    from block_fires_shape(2) [OF this] metadata_anchor_strip(1) block_fires_shape(3) [OF assms]
    show False by blast
  qed
  show "\<not> block_fires lines (j + 2)"
  proof
    assume "block_fires lines (j + 2)"
    from block_fires_shape(2) [OF this] metadata_anchor_strip(2) block_fires_shape(4) [OF assms]
    show False by blast
  qed
qed

text \<open>
  The index after the round at \<open>k\<close>, and the indices at which the rounds from \<open>k\<close> on
  start.
\<close>

definition next_round :: "ustr list \<Rightarrow> nat \<Rightarrow> nat" where
  "next_round lines k = (if block_fires lines k then k + 3 else k + 1)"

definition starts :: "ustr list \<Rightarrow> nat \<Rightarrow> nat list" where
  "starts lines k = map fst (spans lines k)"

lemma starts_unfold:
  "k < length lines \<Longrightarrow> starts lines k = k # starts lines (next_round lines k)"
  by (simp add: starts_def next_round_def spans_unfold)

lemma starts_end: "\<not> k < length lines \<Longrightarrow> starts lines k = []"
  by (simp add: starts_def spans_end)

lemma starts_bounds: "a \<in> set (starts lines k) \<Longrightarrow> k \<le> a \<and> a < length lines"
proof -
  assume "a \<in> set (starts lines k)"
  then obtain b where "(a, b) \<in> set (spans lines k)" by (auto simp: starts_def)
  from spans_steps [OF this] show ?thesis by auto
qed

lemma starts_step:
  "a \<in> set (starts lines k) \<Longrightarrow> next_round lines a < length lines \<Longrightarrow>
     next_round lines a \<in> set (starts lines k)"
proof (induction lines k rule: spans.induct)
  case (1 lines k)
  from "1.prems"(1) starts_bounds have lt: "k < length lines" by fastforce
  let ?n = "next_round lines k"
  from round_summary [OF lt] obtain d where d: "body lines (at_line k) = Inr d" "st_i d = ?n"
    by (auto simp: next_round_def)
  from "1.prems"(1) starts_unfold [OF lt] have "a = k \<or> a \<in> set (starts lines ?n)" by auto
  then show ?case
  proof
    assume "a = k"
    with "1.prems"(2) have "?n < length lines" by simp
    from starts_unfold [OF this] have "?n \<in> set (starts lines ?n)" by simp
    with \<open>a = k\<close> show ?thesis by (simp add: starts_unfold [OF lt])
  next
    assume "a \<in> set (starts lines ?n)"
    with "1.IH" [OF lt d(1)] d(2) "1.prems"(2)
    have "next_round lines a \<in> set (starts lines ?n)" by simp
    then show ?thesis by (simp add: starts_unfold [OF lt])
  qed
qed

lemma starts_origin:
  "a \<in> set (starts lines k) \<Longrightarrow> a = k \<or> (\<exists>j \<in> set (starts lines k). next_round lines j = a)"
proof (induction lines k rule: spans.induct)
  case (1 lines k)
  from "1.prems"(1) starts_bounds have lt: "k < length lines" by fastforce
  let ?n = "next_round lines k"
  from round_summary [OF lt] obtain d where d: "body lines (at_line k) = Inr d" "st_i d = ?n"
    by (auto simp: next_round_def)
  from "1.prems"(1) starts_unfold [OF lt] have "a = k \<or> a \<in> set (starts lines ?n)" by auto
  then show ?case
  proof
    assume "a = k" then show ?thesis by simp
  next
    assume mem: "a \<in> set (starts lines ?n)"
    with "1.IH" [OF lt d(1)] d(2)
    have "a = ?n \<or> (\<exists>j \<in> set (starts lines ?n). next_round lines j = a)" by simp
    then show ?thesis
    proof
      assume "a = ?n"
      moreover have "k \<in> set (starts lines k)" by (simp add: starts_unfold [OF lt])
      ultimately show ?thesis by blast
    next
      assume "\<exists>j \<in> set (starts lines ?n). next_round lines j = a"
      then show ?thesis by (auto simp: starts_unfold [OF lt])
    qed
  qed
qed

text \<open>
  A line is inside a rewritten block when the first repair applies one or two lines
  before it: the round there consumes it. A round starts at line \<open>k\<close> exactly when \<open>k\<close>
  is not inside a rewritten block.
\<close>

definition inside_block :: "ustr list \<Rightarrow> nat \<Rightarrow> bool" where
  "inside_block lines k \<longleftrightarrow>
     (1 \<le> k \<and> block_fires lines (k - 1)) \<or> (2 \<le> k \<and> block_fires lines (k - 2))"

lemma starts_iff:
  "k \<in> set (starts lines 0) \<longleftrightarrow> k < length lines \<and> \<not> inside_block lines k"
proof (induction k rule: less_induct)
  case (less k)
  show ?case
  proof (cases "k = 0")
    case True
    show ?thesis
    proof (cases "0 < length lines")
      case True
      with \<open>k = 0\<close> show ?thesis by (simp add: starts_unfold inside_block_def)
    next
      case False
      with \<open>k = 0\<close> show ?thesis by (simp add: starts_end)
    qed
  next
    case False
    then obtain k1 where k1: "k = Suc k1" by (cases k) auto
    show ?thesis
    proof
      assume mem: "k \<in> set (starts lines 0)"
      from starts_bounds [OF mem] have lt: "k < length lines" by simp
      from starts_origin [OF mem] False obtain j where
        j: "j \<in> set (starts lines 0)" "next_round lines j = k" by blast
      have "\<not> inside_block lines k"
      proof (cases "block_fires lines j")
        case True
        with j(2) have kj: "k = j + 3" by (simp add: next_round_def)
        from block_fires_apart [OF True] kj show ?thesis
          by (simp add: inside_block_def numeral_3_eq_3 numeral_2_eq_2)
      next
        case nf: False
        with j(2) have kj: "k = j + 1" by (simp add: next_round_def)
        then have "j < k" by simp
        from less.IH [OF this] j(1) have "\<not> inside_block lines j" by simp
        with nf kj show ?thesis
          by (auto simp: inside_block_def numeral_2_eq_2)
      qed
      with lt show "k < length lines \<and> \<not> inside_block lines k" by simp
    next
      assume a: "k < length lines \<and> \<not> inside_block lines k"
      then have lt: "k < length lines" and nb: "\<not> inside_block lines k" by simp_all
      from nb k1 have nf1: "\<not> block_fires lines k1" by (simp add: inside_block_def)
      have k1lt: "k1 < k" using k1 by simp
      show "k \<in> set (starts lines 0)"
      proof (cases "inside_block lines k1")
        case False
        with less.IH [OF k1lt] lt k1 have "k1 \<in> set (starts lines 0)" by simp
        moreover from nf1 k1 have "next_round lines k1 = k" by (simp add: next_round_def)
        ultimately show ?thesis using starts_step [of k1 lines 0] lt by simp
      next
        case True
        with nb k1 have f3: "3 \<le> k \<and> block_fires lines (k - 3)"
          by (auto simp: inside_block_def numeral_2_eq_2 numeral_3_eq_3 Suc_le_eq
                   elim!: less_SucE)
        define j where "j = k - 3"
        with f3 have kj: "k = j + 3" and fj: "block_fires lines j" by simp_all
        have "\<not> inside_block lines j"
        proof
          assume "inside_block lines j"
          then consider "1 \<le> j" "block_fires lines (j - 1)" | "2 \<le> j" "block_fires lines (j - 2)"
            by (auto simp: inside_block_def)
          then show False
          proof cases
            case 1
            from 1(1) have "j - 1 + 1 = j" by simp
            with block_fires_apart(1) [OF 1(2)] fj show False by simp
          next
            case 2
            from 2(1) have "j - 2 + 2 = j" by simp
            with block_fires_apart(2) [OF 2(2)] fj show False by simp
          qed
        qed
        moreover have "j < k" using kj by simp
        moreover have "j < length lines" using kj lt by simp
        ultimately have "j \<in> set (starts lines 0)" using less.IH [of j] by simp
        moreover from fj kj have "next_round lines j = k" by (simp add: next_round_def)
        ultimately show ?thesis using starts_step [of j lines 0] lt by simp
      qed
    qed
  qed
qed

lemma repair_out:
  "repairIndentation lines =
     Inr (concat (map (emitted lines) (starts lines 0)),
          length (filter (repaired_at lines) (starts lines 0)))"
  using repair_loop_spans [of "\<lparr>st_i = 0, st_fixed = 0, st_new_lines = []\<rparr>" lines]
  by (simp add: repairIndentation_def starts_def)

lemma emitted_plain:
  "k < length lines \<Longrightarrow> \<not> repaired_at lines k \<Longrightarrow> emitted lines k = [lines ! k]"
  using round_summary [of k lines] by auto

lemma emitted_in_out:
  assumes "k < length lines" and "\<not> inside_block lines k"
  shows "set (emitted lines k) \<subseteq> set (concat (map (emitted lines) (starts lines 0)))"
proof -
  from assms have "k \<in> set (starts lines 0)" by (simp add: starts_iff)
  then show ?thesis by auto
qed

lemma starts_sorted: "sorted_wrt (<) (starts lines k)"
proof (induction lines k rule: spans.induct)
  case (1 lines k)
  show ?case
  proof (cases "k < length lines")
    case False
    then show ?thesis by (simp add: starts_end)
  next
    case True
    let ?n = "next_round lines k"
    from round_summary [OF True] obtain d where d: "body lines (at_line k) = Inr d" "st_i d = ?n"
      by (auto simp: next_round_def)
    from "1.IH" [OF True d(1)] d(2) have "sorted_wrt (<) (starts lines ?n)" by simp
    moreover have "\<forall>a \<in> set (starts lines ?n). k < a"
    proof
      fix a assume "a \<in> set (starts lines ?n)"
      from starts_bounds [OF this] show "k < a" by (auto simp: next_round_def split: if_splits)
    qed
    ultimately show ?thesis by (simp add: starts_unfold [OF True])
  qed
qed

lemma starts_filter:
  "starts lines 0 = filter (\<lambda>k. \<not> inside_block lines k) [0..<length lines]"
proof (rule sorted_distinct_set_unique)
  from starts_sorted [of lines 0] show "sorted (starts lines 0)"
    by (simp add: strict_sorted_iff)
  from starts_sorted [of lines 0] show "distinct (starts lines 0)"
    by (simp add: strict_sorted_iff)
  show "sorted (filter (\<lambda>k. \<not> inside_block lines k) [0..<length lines])"
    by (simp add: sorted_wrt_filter)
  show "distinct (filter (\<lambda>k. \<not> inside_block lines k) [0..<length lines])" by simp
  show "set (starts lines 0) = set (filter (\<lambda>k. \<not> inside_block lines k) [0..<length lines])"
    using starts_iff [of _ lines] by auto
qed

lemma block_fires_not_inside: "block_fires lines k \<Longrightarrow> \<not> inside_block lines k"
proof
  assume f: "block_fires lines k" and "inside_block lines k"
  then consider "1 \<le> k" "block_fires lines (k - 1)" | "2 \<le> k" "block_fires lines (k - 2)"
    by (auto simp: inside_block_def)
  then show False
  proof cases
    case 1
    from 1(1) have "k - 1 + 1 = k" by simp
    with block_fires_apart(1) [OF 1(2)] f show False by simp
  next
    case 2
    from 2(1) have "k - 2 + 2 = k" by simp
    with block_fires_apart(2) [OF 2(2)] f show False by simp
  qed
qed


lemma concat_singletons: "concat (map (\<lambda>k. [f k]) xs) = map f xs"
  by (induction xs) simp_all


subsection \<open>Anchors and defaults\<close>

lemma strip_prefix_append: "strip_prefix w (w @ b) = Some b"
  by (induction w) simp_all

lemma contains_here: "contains w (w @ b)"
  by (cases "w @ b") (simp_all add: strip_prefix_append [symmetric] del: strip_prefix.simps, metis strip_prefix_append option.distinct(1))

lemma contains_intro: "contains w (a @ w @ b)"
proof (induction a)
  case Nil
  show ?case using contains_here by simp
next
  case (Cons c a)
  then show ?case by simp
qed

lemma scan_split:
  "scan r adv p s = Some (pre, m) \<Longrightarrow> \<exists>adv' p' s'. match_at r adv' p' s' = Some m \<and> s = pre @ s'"
proof (induction r adv p s arbitrary: pre rule: scan.induct)
  case (1 r adv p)
  then show ?case by auto
next
  case (2 r adv p c s)
  show ?case
  proof (cases "match_at r adv p (c # s)")
    case None
    with "2.prems" obtain pre' where sc: "scan r False (Suc p) s = Some (pre', m)" and pre: "pre = c # pre'"
      by auto
    from "2.IH" [OF None sc] pre show ?thesis by auto
  next
    case (Some m')
    with "2.prems" have "pre = []" "m' = m" by auto
    with Some show ?thesis by auto
  qed
qed

lemma ms_Lit_mem:
  assumes "x \<in> set (ms (Lit w) (p, s, g))"
  shows "\<exists>s'. s = w @ s'"
proof (cases "strip_prefix w s")
  case None
  with assms show ?thesis by simp
next
  case (Some s')
  from strip_prefix_Some [OF this] show ?thesis by blast
qed

lemma ms_Seq_Cons:
  "x \<in> set (ms (Seq (r # rs)) st) \<longleftrightarrow> (\<exists>y \<in> set (ms r st). x \<in> set (ms (Seq rs) y))"
  by simp

lemma logger_re_prefix:
  assumes "(p', s', g') \<in> set (ms logger_re (p, s, g))"
  shows "(\<exists>t. s = U ''this.facadeLogger.'' @ t) \<or> (\<exists>t. s = U ''logger.'' @ t)"
proof -
  from assms [unfolded logger_re_def, THEN iffD1 [OF ms_Seq_Cons]] obtain y where
    first: "y \<in> set (ms (Grp 1 (Alt [Lit (U ''this.facadeLogger''), Lit (U ''logger'')])) (p, s, g))"
    and rest: "(p', s', g') \<in> set (ms (Seq [Lit (U ''.''),
          Grp 2 (Alt [Lit (U ''info''), Lit (U ''warn''), Lit (U ''error''), Lit (U ''debug'')]),
          Lit (U ''('' @ [39]), Grp 3 (Rep Greedy 1 (Not_lit 39)), Lit [39]]) y)"
    by blast
  obtain q t h where y: "y = (q, t, h)" by (cases y) auto
  from rest [THEN iffD1 [OF ms_Seq_Cons]] obtain z where "z \<in> set (ms (Lit (U ''.'')) (q, t, h))"
    unfolding y by blast
  from ms_Lit_mem [OF this] obtain t2 where dot: "t = U ''.'' @ t2" by blast
  from first have "(q, t, h) \<in> set (ms (Lit (U ''this.facadeLogger'')) (p, s, g)) \<or>
      (q, t, h) \<in> set (ms (Lit (U ''logger'')) (p, s, g))
      \<or> (\<exists>h'. (q, t, h') \<in> set (ms (Lit (U ''this.facadeLogger'')) (p, s, g))) \<or>
      (\<exists>h'. (q, t, h') \<in> set (ms (Lit (U ''logger'')) (p, s, g)))"
    unfolding y by (auto simp del: ms.simps(1) simp: ms.simps(5,6))
  then have "s = U ''this.facadeLogger'' @ t \<or> s = U ''logger'' @ t"
    using ms_shape(1) ms_Lit_mem
    by (auto split: option.splits dest!: strip_prefix_Some [OF sym])
  with dot show ?thesis by (auto simp: U_def)
qed

lemma re_search_logger_anchor:
  assumes "re_search logger_re l = Some m"
  shows "logger_anchor l"
proof -
  from assms obtain pre where "scan logger_re False 0 l = Some (pre, m)"
    by (auto simp: re_search_def)
  from scan_split [OF this] obtain adv p s where ma: "match_at logger_re adv p s = Some m"
    and l: "l = pre @ s" by blast
  from ma obtain p' s' g where "first_ok adv p (ms logger_re (p, s, Map.empty)) = Some (p', s', g)"
    by (auto simp: match_at_def split: option.splits)
  from first_ok_Some [OF this] have "(p', s', g) \<in> set (ms logger_re (p, s, Map.empty))" by simp
  from logger_re_prefix [OF this]
  show ?thesis
  proof
    assume "\<exists>t. s = U ''this.facadeLogger.'' @ t"
    then obtain t where "s = U ''this.facadeLogger.'' @ t" ..
    then have "l = (pre @ U ''this.'') @ U ''facadeLogger.'' @ t" using l by (simp add: U_def)
    then have "contains (U ''facadeLogger.'') l" by (simp only: contains_intro)
    then show ?thesis by (simp add: logger_anchor_def)
  next
    assume "\<exists>t. s = U ''logger.'' @ t"
    then obtain t where "s = U ''logger.'' @ t" ..
    then have "l = pre @ U ''logger.'' @ t" using l by simp
    then have "contains (U ''logger.'') l" by (simp only: contains_intro)
    then show ?thesis by (simp add: logger_anchor_def)
  qed
qed

lemma block_fires_logger_anchor:
  assumes "block_fires lines j"
  shows "logger_anchor (lines ! j)"
proof -
  from assms have "re_search logger_re (lines ! j) \<noteq> None"
    by (auto simp: block_fires_def block_lines_def Let_def split: sum.splits bool.splits option.splits)
  then show ?thesis using re_search_logger_anchor by blast
qed

lemma no_anchor_not_inside:
  assumes "\<forall>j<k. \<not> metadata_anchor (lines ! j) \<or> \<not> logger_anchor (lines ! j)"
  shows "\<not> inside_block lines k"
proof
  assume "inside_block lines k"
  then consider "1 \<le> k" "block_fires lines (k - 1)" | "2 \<le> k" "block_fires lines (k - 2)"
    by (auto simp: inside_block_def)
  then obtain j where "j < k" "block_fires lines j"
  proof cases
    case 1
    then have "k - 1 < k" by simp
    with 1(2) that show ?thesis by blast
  next
    case 2
    then have "k - 2 < k" by simp
    with 2(2) that show ?thesis by blast
  qed
  with block_fires_shape(2) [of lines j] block_fires_logger_anchor [of lines j] assms
  show False by blast
qed

lemma startswith_append: "startswith (a @ t) a"
  by (simp add: startswith_def strip_prefix_append)

lemma join_map_prefix:
  assumes "join sep (map (\<lambda>x. a @ f x) xs) \<noteq> []"
  shows "\<exists>t. join sep (map (\<lambda>x. a @ f x) xs) = a @ t"
proof (cases xs)
  case Nil
  with assms show ?thesis by simp
next
  case (Cons x ys)
  then show ?thesis by (cases ys) simp_all
qed

lemma prop_line_default:
  assumes "k < length lines" and "\<forall>j<k. \<not> metadata_anchor (lines ! j)"
  shows "prop_line lines k line = Inr (spaces 6 @ spaces 10 @ strip line @ [NL])"
  using find_indent_default [of k metadata_anchor lines "Some (spaces 6)"] assms
  by (simp add: prop_line_def fmt_def)

lemma brace_line_default:
  assumes "k < length lines" and "\<forall>j<k. \<not> metadata_anchor (lines ! j)"
  shows "brace_line lines k = Inr (spaces 6 @ spaces 8 @ U ''}'' @ [NL])"
  using find_indent_default [of k metadata_anchor lines "Some (spaces 6)"] assms
  by (simp add: brace_line_def fmt_def)

lemma block_lines_default:
  assumes "k < length lines" and "\<forall>j<k. \<not> logger_anchor (lines ! j)"
    and "block_lines lines k line = Inr (Some block)"
  shows "\<forall>l \<in> set block. startswith l (spaces 6)"
proof -
  from find_indent_default [of k logger_anchor lines "Some []"] assms(1,2)
  have f: "find_indent logger_anchor lines k (Some []) = Inr (Some [])" by simp
  define a where "a = spaces 6"
  have j: "join sep (map (\<lambda>x. a @ h x) xs) \<noteq> [] \<Longrightarrow>
      startswith (join sep (map (\<lambda>x. a @ h x) xs) @ [NL]) a" for sep xs and h :: "ustr \<Rightarrow> ustr"
  proof -
    assume "join sep (map (\<lambda>x. a @ h x) xs) \<noteq> []"
    from join_map_prefix [OF this] obtain t where
      "join sep (map (\<lambda>x. a @ h x) xs) = a @ t" by blast
    then have "join sep (map (\<lambda>x. a @ h x) xs) @ [NL] = a @ (t @ [NL])" by simp
    then show ?thesis by (simp only: startswith_append)
  qed
  have aa: "startswith (a @ t) a" for t by (rule startswith_append)
  from assms(3) show ?thesis
    unfolding block_lines_def f Let_def falsy_def fmt_def a_def [symmetric]
    by (auto simp: aa j comp_def a_def [symmetric]
             split: sum.splits bool.splits option.splits if_splits)
qed

lemma emitted_block:
  assumes "k < length lines" and "block_lines lines k (lines ! k) = Inr (Some block)"
  shows "emitted lines k = block"
  using assms by (simp add: emitted_def body_def at_line_def item_def)

lemma emitted_prop:
  assumes "k < length lines" and "\<not> block_fires lines k" and "prop_shape (lines ! k)"
    and "prop_line lines k (lines ! k) = Inr l"
  shows "emitted lines k = [l]"
proof -
  from block_lines_cases [OF assms(1), of "lines ! k"] assms(2)
  have "block_lines lines k (lines ! k) = Inr None" by (auto simp: block_fires_def)
  with assms show ?thesis by (simp add: emitted_def body_def at_line_def item_def)
qed

lemma emitted_brace:
  assumes "k < length lines" and "\<not> block_fires lines k" and "\<not> prop_shape (lines ! k)"
    and "brace_shape (lines ! k)" and "brace_line lines k = Inr l"
  shows "emitted lines k = [l]"
proof -
  from block_lines_cases [OF assms(1), of "lines ! k"] assms(2)
  have "block_lines lines k (lines ! k) = Inr None" by (auto simp: block_fires_def)
  with assms show ?thesis by (simp add: emitted_def body_def at_line_def item_def)
qed


text \<open>More inputs, and the runs of the repair on them.\<close>

definition prop_example :: "ustr list" where
  "prop_example = [U ''                  module: 'x',\<newline>'', U ''              }'']"

definition plain_example :: "ustr list" where
  "plain_example = [U ''x\<newline>'']"

lemma block_example_run:
  "repairIndentation block_example =
     Inr ([U ''      logger.info('hi', {\<newline>'',
           U ''              metadata: {\<newline>'',
           U ''                a: 1,\<newline>                b: 2\<newline>'',
           U ''              }\<newline>'',
           U ''            });\<newline>'',
           U ''x\<newline>''], 1)"
  by (simp add: repair_loop.simps block_example_def text_defs re_defs indent_defs)

lemma aligned_example_run: "repairIndentation aligned_example = Inr (aligned_example, 1)"
  by (simp add: repair_loop.simps aligned_example_def text_defs re_defs indent_defs)

lemma prop_example_run:
  "repairIndentation prop_example =
     Inr ([U ''                module: 'x',\<newline>'', U ''              }\<newline>''], 2)"
  by (simp add: repair_loop.simps prop_example_def text_defs re_defs indent_defs)

lemma plain_example_run: "repairIndentation plain_example = Inr (plain_example, 0)"
  by (simp add: repair_loop.simps plain_example_def text_defs re_defs indent_defs)

text \<open>
  C7. Every line that matches none of the repaired shapes appears unchanged in the output:
  a line that is not part of a metadata block the first repair rewrites (the repair
  applies neither at the line nor one or two lines before it), is not an over-indented
  property and is not an over-indented closing brace, is an element of the new lines.
\<close>

theorem unmatched_lines_copied:
  assumes "k < length lines"
    and "\<not> block_fires lines k" and "\<not> inside_block lines k"
    and "\<not> prop_shape (lines ! k)" and "\<not> brace_shape (lines ! k)"
  shows "\<exists>out n. repairIndentation lines = Inr (out, n) \<and> lines ! k \<in> set out"
proof -
  from assms(2,4,5) have "\<not> repaired_at lines k" by (simp add: repaired_at_def)
  with assms(1) have "emitted lines k = [lines ! k]" by (rule emitted_plain)
  with emitted_in_out [OF assms(1,3)]
  have "lines ! k \<in> set (concat (map (emitted lines) (starts lines 0)))" by simp
  with repair_out [of lines] show ?thesis by blast
qed


theorem unmatched_lines_copied_witness:
  "3 < length block_example \<and> \<not> block_fires block_example 3 \<and>
   \<not> inside_block block_example 3 \<and> \<not> prop_shape (block_example ! 3) \<and>
   \<not> brace_shape (block_example ! 3) \<and>
   (\<exists>out n. repairIndentation block_example = Inr (out, n) \<and> block_example ! 3 \<in> set out)"
proof -
  have h1: "3 < length block_example" by (simp add: block_example_def)
  have h2: "\<not> block_fires block_example 3"
    by (simp add: block_example_def text_defs re_defs indent_defs)
  have h3: "\<not> inside_block block_example 3"
    by (simp add: inside_block_def block_example_def text_defs re_defs indent_defs)
  have h4: "\<not> prop_shape (block_example ! 3)"
    by (simp add: block_example_def text_defs re_defs indent_defs)
  have h5: "\<not> brace_shape (block_example ! 3)"
    by (simp add: block_example_def text_defs re_defs indent_defs)
  from unmatched_lines_copied [OF h1 h2 h3 h4 h5] h1 h2 h3 h4 h5 show ?thesis by blast
qed

text \<open>
  C4, as the claim states it, fails. The claim: the correction count equals the number of
  output lines whose indentation differs from that of the corresponding input line. In
  the words of the claim:
\<close>

definition indentation :: "ustr \<Rightarrow> ustr" where
  "indentation l = takeWhile isspace l"

definition altered_lines :: "ustr list \<Rightarrow> ustr list \<Rightarrow> nat" where
  "altered_lines lines out =
     length (filter (\<lambda>(a, b). indentation a \<noteq> indentation b) (zip lines out))"

text \<open>
  On the three lines \<open>metadata: {\<close>, \<open>x\<close> and a closing brace after eight spaces, the third
  line has the shape of the third repair, its anchor has no indentation, and the line
  written is the line read: the output is the input, no indentation is altered, and the
  count is 1.
\<close>

theorem count_counterexample:
  "repairIndentation aligned_example = Inr (aligned_example, 1) \<and>
   altered_lines aligned_example aligned_example = 0"
proof
  show "repairIndentation aligned_example = Inr (aligned_example, 1)"
    by (rule aligned_example_run)
  show "altered_lines aligned_example aligned_example = 0"
    by (simp add: altered_lines_def aligned_example_def)
qed

text \<open>
  C4, amended. The correction count is the number of repairs made: the number of lines at
  which a round starts (lines not inside a rewritten block) and a repair applies (a
  metadata block, a property line or a closing brace is written again), whether or not the
  text written differs from the text read. With a count of 0 the output is the input.
\<close>

theorem count_is_number_of_repairs:
  assumes "repairIndentation lines = Inr (out, n)"
  shows "n = length (filter (\<lambda>k. \<not> inside_block lines k \<and> repaired_at lines k) [0..<length lines]) \<and>
         (n = 0 \<longrightarrow> out = lines)"
proof
  from assms repair_out [of lines]
  have out: "out = concat (map (emitted lines) (starts lines 0))"
    and n: "n = length (filter (repaired_at lines) (starts lines 0))" by simp_all
  have "filter (repaired_at lines) (starts lines 0) =
        filter (\<lambda>k. \<not> inside_block lines k \<and> repaired_at lines k) [0..<length lines]"
    by (simp add: starts_filter conj_commute)
  with n show count: "n = length (filter (\<lambda>k. \<not> inside_block lines k \<and> repaired_at lines k) [0..<length lines])"
    by simp
  show "n = 0 \<longrightarrow> out = lines"
  proof
    assume "n = 0"
    with count have none: "\<forall>k < length lines. inside_block lines k \<or> \<not> repaired_at lines k"
      by (auto simp: filter_empty_conv)
    have nofire: "\<not> block_fires lines k" for k
    proof
      assume f: "block_fires lines k"
      from block_fires_shape(1) [OF f] have "k < length lines" by simp
      with none f block_fires_not_inside [OF f] show False by (auto simp: repaired_at_def)
    qed
    then have ni: "\<not> inside_block lines k" for k by (simp add: inside_block_def)
    from ni have st: "starts lines 0 = [0..<length lines]" by (simp add: starts_filter)
    have me: "map (emitted lines) [0..<length lines] = map (\<lambda>k. [lines ! k]) [0..<length lines]"
    proof (rule map_cong [OF refl])
      fix k assume "k \<in> set [0..<length lines]"
      then have k: "k < length lines" by simp
      with none ni have "\<not> repaired_at lines k" by blast
      with k show "emitted lines k = [lines ! k]" by (rule emitted_plain)
    qed
    have "out = concat (map (emitted lines) [0..<length lines])" by (simp only: out st)
    also have "\<dots> = concat (map (\<lambda>k. [lines ! k]) [0..<length lines])" by (simp only: me)
    also have "\<dots> = map (\<lambda>k. lines ! k) [0..<length lines]" by (rule concat_singletons)
    also have "\<dots> = lines" by (rule map_nth)
    finally show "out = lines" .
  qed
qed

theorem count_is_number_of_repairs_witness:
  "repairIndentation aligned_example = Inr (aligned_example, 1) \<and>
   length (filter (\<lambda>k. \<not> inside_block aligned_example k \<and> repaired_at aligned_example k)
     [0..<length aligned_example]) = 1 \<and>
   repairIndentation plain_example = Inr (plain_example, 0)"
  using count_is_number_of_repairs [OF aligned_example_run]
    count_is_number_of_repairs [OF plain_example_run] aligned_example_run plain_example_run
  by simp

text \<open>
  C6. No input makes the repair raise: it always returns new lines and a count. A
  candidate line with no anchor anywhere before it is written at the default indentation
  of six spaces (plus the offset of its kind): a property line and a closing brace when no
  line before them contains \<open>metadata: {\<close>, the lines of a metadata block when no line
  before it contains \<open>facadeLogger.\<close> or \<open>logger.\<close>.
\<close>

theorem fallback_default:
  assumes "k < length lines"
  shows "\<exists>out n. repairIndentation lines = Inr (out, n) \<and>
    ((\<forall>j<k. \<not> metadata_anchor (lines ! j)) \<and> \<not> block_fires lines k \<and> prop_shape (lines ! k) \<longrightarrow>
       spaces 6 @ spaces 10 @ strip (lines ! k) @ [NL] \<in> set out) \<and>
    ((\<forall>j<k. \<not> metadata_anchor (lines ! j)) \<and> \<not> block_fires lines k \<and>
       \<not> prop_shape (lines ! k) \<and> brace_shape (lines ! k) \<longrightarrow>
       spaces 6 @ spaces 8 @ U ''}'' @ [NL] \<in> set out) \<and>
    ((\<forall>j<k. \<not> logger_anchor (lines ! j)) \<and> block_fires lines k \<longrightarrow>
       (\<exists>block. block_lines lines k (lines ! k) = Inr (Some block) \<and> set block \<subseteq> set out \<and>
          (\<forall>l \<in> set block. startswith l (spaces 6))))"
proof -
  define out where "out = concat (map (emitted lines) (starts lines 0))"
  have run: "repairIndentation lines = Inr (out, length (filter (repaired_at lines) (starts lines 0)))"
    by (simp add: repair_out out_def)
  have sub: "set (emitted lines k) \<subseteq> set out" if "\<not> inside_block lines k"
    using emitted_in_out [OF assms that] by (simp add: out_def)
  have p: "spaces 6 @ spaces 10 @ strip (lines ! k) @ [NL] \<in> set out"
    if "\<forall>j<k. \<not> metadata_anchor (lines ! j)" "\<not> block_fires lines k" "prop_shape (lines ! k)"
  proof -
    from that(1) have "\<not> inside_block lines k" by (intro no_anchor_not_inside) blast
    from sub [OF this] emitted_prop [OF assms that(2,3) prop_line_default [OF assms that(1)]]
    show ?thesis by simp
  qed
  have b: "spaces 6 @ spaces 8 @ U ''}'' @ [NL] \<in> set out"
    if "\<forall>j<k. \<not> metadata_anchor (lines ! j)" "\<not> block_fires lines k"
       "\<not> prop_shape (lines ! k)" "brace_shape (lines ! k)"
  proof -
    from that(1) have "\<not> inside_block lines k" by (intro no_anchor_not_inside) blast
    from sub [OF this] emitted_brace [OF assms that(2,3,4) brace_line_default [OF assms that(1)]]
    show ?thesis by simp
  qed
  have m: "\<exists>block. block_lines lines k (lines ! k) = Inr (Some block) \<and> set block \<subseteq> set out \<and>
          (\<forall>l \<in> set block. startswith l (spaces 6))"
    if "\<forall>j<k. \<not> logger_anchor (lines ! j)" "block_fires lines k"
  proof -
    from that(2) obtain block where bl: "block_lines lines k (lines ! k) = Inr (Some block)"
      by (auto simp: block_fires_def split: sum.splits option.splits)
    from that(1) have "\<not> inside_block lines k" by (intro no_anchor_not_inside) blast
    from sub [OF this] emitted_block [OF assms bl] have "set block \<subseteq> set out" by simp
    with bl block_lines_default [OF assms that(1) bl] show ?thesis by blast
  qed
  from run p b m show ?thesis by blast
qed

theorem fallback_default_witness:
  "(\<exists>out n. repairIndentation prop_example = Inr (out, n) \<and>
      \<not> block_fires prop_example 0 \<and> prop_shape (prop_example ! 0) \<and>
      spaces 6 @ spaces 10 @ strip (prop_example ! 0) @ [NL] \<in> set out) \<and>
   (\<exists>out n. repairIndentation prop_example = Inr (out, n) \<and>
      \<not> metadata_anchor (prop_example ! 0) \<and> \<not> block_fires prop_example 1 \<and>
      \<not> prop_shape (prop_example ! 1) \<and> brace_shape (prop_example ! 1) \<and>
      spaces 6 @ spaces 8 @ U ''}'' @ [NL] \<in> set out) \<and>
   (\<exists>out n block. repairIndentation block_example = Inr (out, n) \<and> block_fires block_example 0 \<and>
      block_lines block_example 0 (block_example ! 0) = Inr (Some block) \<and>
      set block \<subseteq> set out \<and> list_all (\<lambda>l. startswith l (spaces 6)) block)"
proof -
  have a1: "0 < length prop_example" and a2: "1 < length prop_example"
    and a3: "0 < length block_example"
    by (simp_all add: prop_example_def block_example_def)
  have p0: "\<not> block_fires prop_example 0" "prop_shape (prop_example ! 0)"
    by (simp_all add: prop_example_def text_defs re_defs indent_defs)
  have p1: "\<not> metadata_anchor (prop_example ! 0)" "\<not> block_fires prop_example 1"
    "\<not> prop_shape (prop_example ! 1)" "brace_shape (prop_example ! 1)"
    by (simp_all add: prop_example_def text_defs re_defs indent_defs)
  have b0: "block_fires block_example 0"
    by (simp add: block_example_def text_defs re_defs indent_defs)
  from p1(1) have q1: "\<forall>j<1. \<not> metadata_anchor (prop_example ! j)" by simp
  from fallback_default [OF a1] p0 have "\<exists>out n. repairIndentation prop_example = Inr (out, n) \<and>
      \<not> block_fires prop_example 0 \<and> prop_shape (prop_example ! 0) \<and>
      spaces 6 @ spaces 10 @ strip (prop_example ! 0) @ [NL] \<in> set out"
    by auto
  moreover from fallback_default [OF a2] p1 q1
  have "\<exists>out n. repairIndentation prop_example = Inr (out, n) \<and>
      \<not> metadata_anchor (prop_example ! 0) \<and> \<not> block_fires prop_example 1 \<and>
      \<not> prop_shape (prop_example ! 1) \<and> brace_shape (prop_example ! 1) \<and>
      spaces 6 @ spaces 8 @ U ''}'' @ [NL] \<in> set out"
    by auto
  moreover from fallback_default [OF a3] b0
  have "\<exists>out n block. repairIndentation block_example = Inr (out, n) \<and> block_fires block_example 0 \<and>
      block_lines block_example 0 (block_example ! 0) = Inr (Some block) \<and>
      set block \<subseteq> set out \<and> list_all (\<lambda>l. startswith l (spaces 6)) block"
    by (auto simp: list_all_iff)
  ultimately show ?thesis by blast
qed


section \<open>\<open>fix-storage-facade-python.py\<close> and \<open>fix-storage-facade-final.py\<close>\<close>

text \<open>
  Both scripts rewrite \<open>server/storage/facade/StorageFacade.ts\<close> with \<open>re.sub\<close> and a
  replacement function that counts its calls in \<open>fixed_count[0]\<close>, and write the file when
  the text has changed.
\<close>

definition python_pattern :: regex where
  \<comment> \<open>\<open>(\{\s*metadata:\s*\{)([^}]+?)(\}\s*\n\s+\}\s*\n\s+\);)\<close>\<close>
  "python_pattern =
     Seq [Grp 1 (Seq [Lit (U ''{''), Rep Greedy 0 Space, Lit (U ''metadata:''),
       Rep Greedy 0 Space, Lit (U ''{'')]), Grp 2 (Rep Lazy 1 (Not_lit 125)),
       Grp 3 (Seq [Lit (U ''}''), Rep Greedy 0 Space, Lit [10], Rep Greedy 1 Space,
       Lit (U ''}''), Rep Greedy 0 Space, Lit [10], Rep Greedy 1 Space, Lit (U '');'')])]"

definition pattern1 :: regex where
  \<comment> \<open>\<open>(this\.facadeLogger\.(info|warn|error|debug)\('([^']+)',\s*\{\s*metadata:\s*\{)([^}]+?)(\}\s*\n\s+\}\s*\n\s+\);)\<close>\<close>
  "pattern1 =
     Seq [Grp 1 (Seq [Lit (U ''this.facadeLogger.''), Grp 2 (Alt [Lit (U ''info''),
       Lit (U ''warn''), Lit (U ''error''), Lit (U ''debug'')]), Lit (U ''('' @ [39]),
       Grp 3 (Rep Greedy 1 (Not_lit 39)), Lit ([39] @ U '',''), Rep Greedy 0 Space,
       Lit (U ''{''), Rep Greedy 0 Space, Lit (U ''metadata:''), Rep Greedy 0 Space,
       Lit (U ''{'')]), Grp 4 (Rep Lazy 1 (Not_lit 125)), Grp 5 (Seq [Lit (U ''}''),
       Rep Greedy 0 Space, Lit [10], Rep Greedy 1 Space, Lit (U ''}''), Rep Greedy 0 Space,
       Lit [10], Rep Greedy 1 Space, Lit (U '');'')])]"

definition pattern2 :: regex where
  \<comment> \<open>\<open>(\{\s*metadata:\s*\{)([^}]+?)(\n\s+\}\s*\n\s+\}\);)\<close>\<close>
  "pattern2 =
     Seq [Grp 1 (Seq [Lit (U ''{''), Rep Greedy 0 Space, Lit (U ''metadata:''),
       Rep Greedy 0 Space, Lit (U ''{'')]), Grp 2 (Rep Lazy 1 (Not_lit 125)),
       Grp 3 (Seq [Lit [10], Rep Greedy 1 Space, Lit (U ''}''), Rep Greedy 0 Space, Lit [10],
       Rep Greedy 1 Space, Lit (U ''});'')])]"

text \<open>
  The cleaning of the metadata text that the three replacement functions share:
  \<^verbatim>\<open>
  clean = metadata_content.replace('\n', ' ').strip()
  props = [p.strip() for p in clean.split(',') if p.strip()]
  formatted = ',\n          '.join(props)
  \<close>
\<close>

definition formatted_props :: "ustr \<Rightarrow> ustr" where
  "formatted_props metadata_content =
     (let clean = strip (replace_char NL 32 metadata_content);
          props = map strip (filter (\<lambda>p. strip p \<noteq> []) (split_on 44 clean));
          formatted = join (U '','' @ [NL] @ spaces 10) props
      in formatted)"

text \<open>
  \<open>replace_func\<close> of \<open>fix-storage-facade-python.py\<close>; the second argument and the second
  component of the result are \<open>fixed_count[0]\<close> before and after the call.
  \<open>metadata_content.replace\<close> raises when group 2 is \<open>None\<close>.
\<close>

definition replace_func :: "rmatch \<Rightarrow> nat \<Rightarrow> error + ustr \<times> nat" where
  "replace_func match fixed_count =
     (case group match 2 of
        None \<Rightarrow> Inl AttributeError
      | Some metadata_content \<Rightarrow>
          Inr (ulines [U ''{'', U ''        metadata: {'', U ''          ''] @
               formatted_props metadata_content @
               ulines [[], U ''        }'', U ''      });''],
               fixed_count + 1))"

definition fix_storage_facade_python :: "world \<Rightarrow> error + world" where
  "fix_storage_facade_python w =
     (case read_file file_path w of
        Inl e \<Rightarrow> Inl e
      | Inr original \<Rightarrow>
          (case re_sub_fn python_pattern replace_func original 0 of
             Inl e \<Rightarrow> Inl e
           | Inr (content, fixed_count) \<Rightarrow>
               if content \<noteq> original then
                 Inr (print (Corrections fixed_count) (write_file file_path content w))
               else Inr (print No_correction w)))"

text \<open>
  \<open>replace_func1\<close> and \<open>replace_func2\<close> of \<open>fix-storage-facade-final.py\<close>. In
  \<open>replace_func1\<close> the variable \<open>logger_var\<close> is group 1, which is the whole text from
  \<open>this.facadeLogger\<close> to the brace after \<open>metadata:\<close>.
\<close>

definition replace_func1 :: "rmatch \<Rightarrow> nat \<Rightarrow> error + ustr \<times> nat" where
  "replace_func1 match fixed_count =
     (let logger_var = group match 1;
          message = group match 3
      in case group match 4 of
           None \<Rightarrow> Inl AttributeError
         | Some metadata_content \<Rightarrow>
             Inr (fmt logger_var @ [39] @ fmt message @
                  ulines [[39] @ U '', {'', U ''        metadata: {'', U ''          ''] @
                  formatted_props metadata_content @
                  ulines [[], U ''        }'', U ''      });''],
                  fixed_count + 1))"

definition replace_func2 :: "rmatch \<Rightarrow> nat \<Rightarrow> error + ustr \<times> nat" where
  "replace_func2 match fixed_count =
     (case group match 2 of
        None \<Rightarrow> Inl AttributeError
      | Some metadata_content \<Rightarrow>
          Inr (ulines [U ''{'', U ''        metadata: {'', U ''          ''] @
               formatted_props metadata_content @
               ulines [[], U ''        }'', U ''      });''],
               fixed_count + 1))"

text \<open>The two substitutions of the script, the second on the text the first has produced.\<close>

definition facade_final_text :: "ustr \<Rightarrow> error + ustr \<times> nat" where
  "facade_final_text original =
     (case re_sub_fn pattern1 replace_func1 original 0 of
        Inl e \<Rightarrow> Inl e
      | Inr (content, fixed_count) \<Rightarrow> re_sub_fn pattern2 replace_func2 content fixed_count)"

definition fix_storage_facade_final :: "world \<Rightarrow> error + world" where
  "fix_storage_facade_final w =
     (case read_file file_path w of
        Inl e \<Rightarrow> Inl e
      | Inr original \<Rightarrow>
          (case facade_final_text original of
             Inl e \<Rightarrow> Inl e
           | Inr (content, fixed_count) \<Rightarrow>
               if content \<noteq> original then
                 Inr (print (Corrections fixed_count) (write_file file_path content w))
               else Inr (print No_correction w)))"


section \<open>The migration scripts\<close>

text \<open>
  A rule is a pattern and a replacement string. The loop
  \<^verbatim>\<open>
  for old, new in replacements:
      content = re.sub(old, new, content)
  \<close>
  applies the rules of a table one after the other, each to the text the rule before it
  has produced. A run of statements \<open>content = re.sub(p, r, content)\<close> does the same with
  the rules in the order of the statements, and is written as the table of its calls.
\<close>

fun apply_replacements :: "(regex \<times> ustr) list \<Rightarrow> ustr \<Rightarrow> ustr" where
  "apply_replacements [] content = content"
| "apply_replacements ((old, new) # replacements) content =
     apply_replacements replacements (re_sub old new content)"

definition logger_import :: ustr where
  "logger_import = U ''import { logger }''"

definition console_re :: regex where
  \<comment> \<open>\<open>console\.\<close>\<close>
  "console_re = Lit (U ''console.'')"

definition blank_lines_re :: regex where
  \<comment> \<open>\<open>\n\s*\n\s*\n\<close>\<close>
  "blank_lines_re = Seq [Lit [10], Rep Greedy 0 Space, Lit [10], Rep Greedy 0 Space, Lit [10]]"


subsection \<open>\<open>migrate_console_to_logger.py\<close>\<close>

text \<open>The table \<open>replacements\<close> of \<open>migrate_context_cache\<close> (\<open>migrate_console_to_logger.py\<close>).\<close>

definition context_cache_replacements :: "(regex \<times> ustr) list" where
  \<open>context_cache_replacements =
     [(Lit (U ''console.log(`[ContextCache] Invalidation persistante par tags: ${tags.join(', ')}`);''),
       ulines
          [U ''logger.info('Invalidation persistante par tags', {'',
           U ''      metadata: {'',
           U ''        service: 'ContextCacheService','',
           U ''        operation: 'invalidateFromPersistentCacheByTags','',
           U ''        tags: tags.join(', ')'',
           U ''      }'',
           U ''    });'']),
      (Lit (U ''console.log(`[ContextCache] Prewarming ${entityType} avec filtres:`, filters);''),
       ulines
          [U ''logger.info('Prewarming avec filtres', {'',
           U ''      metadata: {'',
           U ''        service: 'ContextCacheService','',
           U ''        operation: 'prewarmEntityType','',
           U ''        entityType,'',
           U ''        filters: JSON.stringify(filters)'',
           U ''      }'',
           U ''    });'']),
      (Lit (U ''console.log(`[ContextCache] Prewarming ${entityType} termin'' @ [233] @ U '': ${limit} contextes g'' @ [233] @ U ''n'' @ [233] @ U ''r'' @ [233] @ U ''s`);''),
       ulines
          [U ''logger.info('Prewarming termin'' @ [233, 39] @ U '', {'',
           U ''      metadata: {'',
           U ''        service: 'ContextCacheService','',
           U ''        operation: 'prewarmEntityType','',
           U ''        entityType,'',
           U ''        contextsGenerated: limit'',
           U ''      }'',
           U ''    });'']),
      (Lit (U ''console.log(`[ContextCache] Pr'' @ [233] @ U ''chargement pattern: ${pattern}`);''),
       ulines
          [U ''logger.info('Pr'' @ [233] @ U ''chargement pattern', {'',
           U ''      metadata: {'',
           U ''        service: 'ContextCacheService','',
           U ''        operation: 'preloadContextForPattern','',
           U ''        pattern'',
           U ''      }'',
           U ''    });'']),
      (Lit (U ''console.log(`[ContextCache] Invalidation cascade pour ${entityType} li'' @ [233] @ U ''e '' @ [224] @ U '' ${entityId}`);''),
       ulines
          [U ''logger.info('Invalidation cascade', {'',
           U ''      metadata: {'',
           U ''        service: 'ContextCacheService','',
           U ''        operation: 'invalidateRelatedEntities','',
           U ''        entityType,'',
           U ''        relatedEntityId: entityId'',
           U ''      }'',
           U ''    });'']),
      (Lit (U ''console.log('[ContextCache] Prewarming d'' @ [233] @ U ''j'' @ [224] @ U '' en cours d'' @ [92, 39] @ U ''ex'' @ [233] @ U ''cution');''),
       ulines
          [U ''logger.info('Prewarming d'' @ [233] @ U ''j'' @ [224] @ U '' en cours', {'',
           U ''      metadata: {'',
           U ''        service: 'ContextCacheService','',
           U ''        operation: 'startIntelligentPrewarming'' @ [39],
           U ''      }'',
           U ''    });'']),
      (Lit (U ''console.log('[ContextCache] '' @ [128293] @ U '' Syst'' @ [232] @ U ''me de prewarming intelligent d'' @ [233] @ U ''marr'' @ [233] @ U '' avec succ'' @ [232] @ U ''s');''),
       ulines
          [U ''logger.info('Syst'' @ [232] @ U ''me de prewarming intelligent d'' @ [233] @ U ''marr'' @ [233, 39] @ U '', {'',
           U ''      metadata: {'',
           U ''        service: 'ContextCacheService','',
           U ''        operation: 'startIntelligentPrewarming'' @ [39],
           U ''      }'',
           U ''    });'']),
      (Lit (U ''console.log('[ContextCache] Syst'' @ [232] @ U ''me de prewarming arr'' @ [234] @ U ''t'' @ [233, 39] @ U '');''),
       ulines
          [U ''logger.info('Syst'' @ [232] @ U ''me de prewarming arr'' @ [234] @ U ''t'' @ [233, 39] @ U '', {'',
           U ''      metadata: {'',
           U ''        service: 'ContextCacheService','',
           U ''        operation: 'stopIntelligentPrewarming'' @ [39],
           U ''      }'',
           U ''    });'']),
      (Lit (U ''console.log('[ContextCache] Prewarming report'' @ [233] @ U '' - hors p'' @ [233] @ U ''riode optimale');''),
       ulines
          [U ''logger.info('Prewarming report'' @ [233] @ U '' - hors p'' @ [233] @ U ''riode optimale', {'',
           U ''      metadata: {'',
           U ''        service: 'ContextCacheService','',
           U ''        operation: 'executeIntelligentPrewarming'' @ [39],
           U ''      }'',
           U ''    });'']),
      (Lit (U ''console.log(`[ContextCache] '' @ [128640] @ U '' D'' @ [233] @ U ''but prewarming intelligent (p'' @ [233] @ U ''riode de pointe: ${isPeakHours})`);''),
       ulines
          [U ''logger.info('D'' @ [233] @ U ''but prewarming intelligent', {'',
           U ''      metadata: {'',
           U ''        service: 'ContextCacheService','',
           U ''        operation: 'executeIntelligentPrewarming','',
           U ''        isPeakHours'',
           U ''      }'',
           U ''    });'']),
      (Lit (U ''console.log(`[ContextCache] '' @ [9989] @ U '' Prewarming termin'' @ [233] @ U '' en ${Date.now() - startTime}ms - ${prewarmingResults.contextsPrewarmed} contextes`);''),
       ulines
          [U ''logger.info('Prewarming termin'' @ [233, 39] @ U '', {'',
           U ''      metadata: {'',
           U ''        service: 'ContextCacheService','',
           U ''        operation: 'executeIntelligentPrewarming','',
           U ''        durationMs: Date.now() - startTime,'',
           U ''        contextsPrewarmed: prewarmingResults.contextsPrewarmed'',
           U ''      }'',
           U ''    });'']),
      (Lit (U ''console.error(`[ContextCache] '' @ [10060] @ U '' Erreur prewarming intelligent:`, error);''),
       ulines
          [U ''logger.error('Erreur prewarming intelligent', {'',
           U ''      metadata: {'',
           U ''        service: 'ContextCacheService','',
           U ''        operation: 'executeIntelligentPrewarming','',
           U ''        error: error instanceof Error ? error.message : String(error),'',
           U ''        stack: error instanceof Error ? error.stack : undefined'',
           U ''      }'',
           U ''    });'']),
      (Lit (U ''console.error(`[ContextCache] Erreur prewarming ${entityType}:`, error);''),
       ulines
          [U ''logger.error('Erreur prewarming', {'',
           U ''      metadata: {'',
           U ''        service: 'ContextCacheService','',
           U ''        operation: 'executePrewarmingStrategy','',
           U ''        entityType,'',
           U ''        error: error instanceof Error ? error.message : String(error),'',
           U ''        stack: error instanceof Error ? error.stack : undefined'',
           U ''      }'',
           U ''    });'']),
      (Lit (U ''console.log('[ContextCache] '' @ [128260] @ U '' Prewarming initial au d'' @ [233] @ U ''marrage...');''),
       ulines
          [U ''logger.info('Prewarming initial au d'' @ [233] @ U ''marrage', {'',
           U ''      metadata: {'',
           U ''        service: 'ContextCacheService','',
           U ''        operation: 'executeInitialPrewarming'' @ [39],
           U ''      }'',
           U ''    });'']),
      (Lit (U ''console.log('[ContextCache] '' @ [9989] @ U '' Prewarming initial termin'' @ [233, 39] @ U '');''),
       ulines
          [U ''logger.info('Prewarming initial termin'' @ [233, 39] @ U '', {'',
           U ''      metadata: {'',
           U ''        service: 'ContextCacheService','',
           U ''        operation: 'executeInitialPrewarming'' @ [39],
           U ''      }'',
           U ''    });'']),
      (Lit (U ''console.log(`[ContextCache] '' @ [128202] @ U '' Monitoring: Hit rate prewarming: ${(prewarmingHitRate * 100).toFixed(1)}%, Utilisation: ${(cacheUtilization * 100).toFixed(1)}%`);''),
       ulines
          [U ''logger.info('Monitoring prewarming', {'',
           U ''      metadata: {'',
           U ''        service: 'ContextCacheService','',
           U ''        operation: 'monitorPrewarmingEffectiveness','',
           U ''        prewarmingHitRate: (prewarmingHitRate * 100).toFixed(1) + '%','',
           U ''        cacheUtilization: (cacheUtilization * 100).toFixed(1) + '%'' @ [39],
           U ''      }'',
           U ''    });'']),
      (Lit (U ''console.warn('[ContextCache] '' @ [9888, 65039] @ U '' Efficacit'' @ [233] @ U '' prewarming faible - r'' @ [233] @ U ''vision de strat'' @ [233] @ U ''gie recommand'' @ [233] @ U ''e');''),
       ulines
          [U ''logger.warn('Efficacit'' @ [233] @ U '' prewarming faible - r'' @ [233] @ U ''vision recommand'' @ [233] @ U ''e', {'',
           U ''      metadata: {'',
           U ''        service: 'ContextCacheService','',
           U ''        operation: 'monitorPrewarmingEffectiveness'' @ [39],
           U ''      }'',
           U ''    });'']),
      (Lit (U ''console.log('[ContextCache] Int'' @ [233] @ U ''gration PredictiveEngine activ'' @ [233] @ U ''e pour preloading intelligent');''),
       ulines
          [U ''logger.info('Int'' @ [233] @ U ''gration PredictiveEngine activ'' @ [233] @ U ''e', {'',
           U ''      metadata: {'',
           U ''        service: 'ContextCacheService','',
           U ''        operation: 'integratePredictiveEngine'' @ [39],
           U ''      }'',
           U ''    });'']),
      (Lit (U ''console.log('[ContextCache] Preloading pr'' @ [233] @ U ''dictif d'' @ [233] @ U ''sactiv'' @ [233, 39] @ U '');''),
       ulines
          [U ''logger.info('Preloading pr'' @ [233] @ U ''dictif d'' @ [233] @ U ''sactiv'' @ [233, 39] @ U '', {'',
           U ''      metadata: {'',
           U ''        service: 'ContextCacheService','',
           U ''        operation: 'preloadContextByPrediction'' @ [39],
           U ''      }'',
           U ''    });'']),
      (Lit (U ''console.log(`[ContextCache] Preloading pr'' @ [233] @ U ''dictif: ${entityType}:${entityId} (priorit'' @ [233] @ U '': ${priority})`);''),
       ulines
          [U ''logger.info('Preloading pr'' @ [233] @ U ''dictif d'' @ [233] @ U ''marr'' @ [233, 39] @ U '', {'',
           U ''      metadata: {'',
           U ''        service: 'ContextCacheService','',
           U ''        operation: 'preloadContextByPrediction','',
           U ''        entityType,'',
           U ''        entityId,'',
           U ''        priority'',
           U ''      }'',
           U ''    });'']),
      (Lit (U ''console.log(`[ContextCache] Contexte d'' @ [233] @ U ''j'' @ [224] @ U '' en cache: ${entityType}:${entityId}`);''),
       ulines
          [U ''logger.info('Contexte d'' @ [233] @ U ''j'' @ [224] @ U '' en cache', {'',
           U ''      metadata: {'',
           U ''        service: 'ContextCacheService','',
           U ''        operation: 'preloadContextByPrediction','',
           U ''        entityType,'',
           U ''        entityId'',
           U ''      }'',
           U ''    });'']),
      (Lit (U ''console.log(`[ContextCache] Preloading pr'' @ [233] @ U ''dictif compl'' @ [233] @ U ''t'' @ [233] @ U '': ${entityType}:${entityId} en ${duration}ms`);''),
       ulines
          [U ''logger.info('Preloading pr'' @ [233] @ U ''dictif compl'' @ [233] @ U ''t'' @ [233, 39] @ U '', {'',
           U ''      metadata: {'',
           U ''        service: 'ContextCacheService','',
           U ''        operation: 'preloadContextByPrediction','',
           U ''        entityType,'',
           U ''        entityId,'',
           U ''        durationMs: duration'',
           U ''      }'',
           U ''    });'']),
      (Lit (U ''console.error(`[ContextCache] Erreur preloading pr'' @ [233] @ U ''dictif ${entityType}:${entityId}:`, error);''),
       ulines
          [U ''logger.error('Erreur preloading pr'' @ [233] @ U ''dictif', {'',
           U ''      metadata: {'',
           U ''        service: 'ContextCacheService','',
           U ''        operation: 'preloadContextByPrediction','',
           U ''        entityType,'',
           U ''        entityId,'',
           U ''        error: error instanceof Error ? error.message : String(error),'',
           U ''        stack: error instanceof Error ? error.stack : undefined'',
           U ''      }'',
           U ''    });'']),
      (Lit (U ''console.log('[ContextCache] PredictiveEngine non int'' @ [233] @ U ''gr'' @ [233, 39] @ U '');''),
       ulines
          [U ''logger.info('PredictiveEngine non int'' @ [233] @ U ''gr'' @ [233, 39] @ U '', {'',
           U ''      metadata: {'',
           U ''        service: 'ContextCacheService','',
           U ''        operation: 'integrateHeatMapData'' @ [39],
           U ''      }'',
           U ''    });'']),
      (Lit (U ''console.log('[ContextCache] Int'' @ [233] @ U ''gration heat-map pour optimisation cache...');''),
       ulines
          [U ''logger.info('Int'' @ [233] @ U ''gration heat-map pour optimisation cache', {'',
           U ''      metadata: {'',
           U ''        service: 'ContextCacheService','',
           U ''        operation: 'integrateHeatMapData'' @ [39],
           U ''      }'',
           U ''    });'']),
      (Lit (U ''console.log('[ContextCache] Int'' @ [233] @ U ''gration heat-map termin'' @ [233] @ U ''e');''),
       ulines
          [U ''logger.info('Int'' @ [233] @ U ''gration heat-map termin'' @ [233] @ U ''e', {'',
           U ''      metadata: {'',
           U ''        service: 'ContextCacheService','',
           U ''        operation: 'integrateHeatMapData'' @ [39],
           U ''      }'',
           U ''    });'']),
      (Lit (U ''console.error('[ContextCache] Erreur int'' @ [233] @ U ''gration heat-map:', error);''),
       ulines
          [U ''logger.error('Erreur int'' @ [233] @ U ''gration heat-map', {'',
           U ''      metadata: {'',
           U ''        service: 'ContextCacheService','',
           U ''        operation: 'integrateHeatMapData','',
           U ''        error: error instanceof Error ? error.message : String(error),'',
           U ''        stack: error instanceof Error ? error.stack : undefined'',
           U ''      }'',
           U ''    });'']),
      (Lit (U ''console.log('[ContextCache] Optimisation LRU avec scoring pr'' @ [233] @ U ''dictif...');''),
       ulines
          [U ''logger.info('Optimisation LRU avec scoring pr'' @ [233] @ U ''dictif', {'',
           U ''      metadata: {'',
           U ''        service: 'ContextCacheService','',
           U ''        operation: 'optimizeLRUWithPredictiveScoring'' @ [39],
           U ''      }'',
           U ''    });'']),
      (Lit (U ''console.log(`[ContextCache] '' @ [201] @ U ''viction pr'' @ [233] @ U ''dictive: ${item.key.substring(0, 40)}... (score: ${item.predictiveScore})`);''),
       ulines
          [U ''logger.info('' @ [39, 201] @ U ''viction pr'' @ [233] @ U ''dictive', {'',
           U ''      metadata: {'',
           U ''        service: 'ContextCacheService','',
           U ''        operation: 'optimizeLRUWithPredictiveScoring','',
           U ''        cacheKey: item.key.substring(0, 40) + '...','',
           U ''        predictiveScore: item.predictiveScore'',
           U ''      }'',
           U ''    });'']),
      (Lit (U ''console.log(`[ContextCache] Optimisation LRU termin'' @ [233] @ U ''e: ${evictedCount} entr'' @ [233] @ U ''es '' @ [233] @ U ''vinc'' @ [233] @ U ''es`);''),
       ulines
          [U ''logger.info('Optimisation LRU termin'' @ [233] @ U ''e', {'',
           U ''      metadata: {'',
           U ''        service: 'ContextCacheService','',
           U ''        operation: 'optimizeLRUWithPredictiveScoring','',
           U ''        evictedCount'',
           U ''      }'',
           U ''    });'']),
      (Lit (U ''console.error('[ContextCache] Erreur optimisation LRU pr'' @ [233] @ U ''dictive:', error);''),
       ulines
          [U ''logger.error('Erreur optimisation LRU pr'' @ [233] @ U ''dictive', {'',
           U ''      metadata: {'',
           U ''        service: 'ContextCacheService','',
           U ''        operation: 'optimizeLRUWithPredictiveScoring','',
           U ''        error: error instanceof Error ? error.message : String(error),'',
           U ''        stack: error instanceof Error ? error.stack : undefined'',
           U ''      }'',
           U ''    });'']),
      (Lit (U ''console.log(`[ContextCache] Preloading ${hotEntities.length} entit'' @ [233] @ U ''s chaudes...`);''),
       ulines
          [U ''logger.info('Preloading entit'' @ [233] @ U ''s chaudes', {'',
           U ''      metadata: {'',
           U ''        service: 'ContextCacheService','',
           U ''        operation: 'preloadHotEntities','',
           U ''        hotEntitiesCount: hotEntities.length'',
           U ''      }'',
           U ''    });'']),
      (Lit (U ''console.warn(`[ContextCache] Erreur preloading entit'' @ [233] @ U '' chaude ${entity.entityType}:${entity.entityId}:`, error);''),
       ulines
          [U ''logger.warn('Erreur preloading entit'' @ [233] @ U '' chaude', {'',
           U ''      metadata: {'',
           U ''        service: 'ContextCacheService','',
           U ''        operation: 'preloadHotEntities','',
           U ''        entityType: entity.entityType,'',
           U ''        entityId: entity.entityId,'',
           U ''        error: error instanceof Error ? error.message : String(error),'',
           U ''        stack: error instanceof Error ? error.stack : undefined'',
           U ''      }'',
           U ''    });'']),
      (Lit (U ''console.log(`[ContextCache] '' @ [201] @ U ''viction entit'' @ [233] @ U '' froide: ${entityKey}`);''),
       ulines
          [U ''logger.info('' @ [39, 201] @ U ''viction entit'' @ [233] @ U '' froide', {'',
           U ''      metadata: {'',
           U ''        service: 'ContextCacheService','',
           U ''        operation: 'evictColdEntities','',
           U ''        entityKey'',
           U ''      }'',
           U ''    });'']),
      (Lit (U ''console.log(`[ContextCache] ${evictedCount} entit'' @ [233] @ U ''s froides '' @ [233] @ U ''vinc'' @ [233] @ U ''es`);''),
       ulines
          [U ''logger.info('Entit'' @ [233] @ U ''s froides '' @ [233] @ U ''vinc'' @ [233] @ U ''es', {'',
           U ''      metadata: {'',
           U ''        service: 'ContextCacheService','',
           U ''        operation: 'evictColdEntities','',
           U ''        evictedCount'',
           U ''      }'',
           U ''    });'']),
      (Lit (U ''console.log('[ContextCache] Mode preloading agressif - heures de pointe');''),
       ulines
          [U ''logger.info('Mode preloading agressif - heures de pointe', {'',
           U ''      metadata: {'',
           U ''        service: 'ContextCacheService','',
           U ''        operation: 'calculatePreloadingBudget'' @ [39],
           U ''      }'',
           U ''    });'']),
      (Lit (U ''console.log('[ContextCache] Mode preloading mod'' @ [233] @ U ''r'' @ [233] @ U '' - horaires business');''),
       ulines
          [U ''logger.info('Mode preloading mod'' @ [233] @ U ''r'' @ [233] @ U '' - horaires business', {'',
           U ''      metadata: {'',
           U ''        service: 'ContextCacheService','',
           U ''        operation: 'calculatePreloadingBudget'' @ [39],
           U ''      }'',
           U ''    });'']),
      (Lit (U ''console.log('[ContextCache] Mode preloading conservateur - hors horaires');''),
       ulines
          [U ''logger.info('Mode preloading conservateur - hors horaires', {'',
           U ''      metadata: {'',
           U ''        service: 'ContextCacheService','',
           U ''        operation: 'calculatePreloadingBudget'' @ [39],
           U ''      }'',
           U ''    });'']),
      (Lit (U ''console.warn('[ContextCache] Erreur r'' @ [233] @ U ''cup'' @ [233] @ U ''ration score pr'' @ [233] @ U ''dictif:', error);''),
       ulines
          [U ''logger.warn('Erreur r'' @ [233] @ U ''cup'' @ [233] @ U ''ration score pr'' @ [233] @ U ''dictif', {'',
           U ''      metadata: {'',
           U ''        service: 'ContextCacheService','',
           U ''        operation: 'getPredictiveScore','',
           U ''        error: error instanceof Error ? error.message : String(error),'',
           U ''        stack: error instanceof Error ? error.stack : undefined'',
           U ''      }'',
           U ''    });'']),
      (Lit (U ''console.log(`[ContextCache] Contexte pr'' @ [233] @ U ''dictif stock'' @ [233] @ U '': ${cacheKey} (TTL: ${ttlHours}h, priorit'' @ [233] @ U '': ${priority})`);''),
       ulines
          [U ''logger.info('Contexte pr'' @ [233] @ U ''dictif stock'' @ [233, 39] @ U '', {'',
           U ''      metadata: {'',
           U ''        service: 'ContextCacheService','',
           U ''        operation: 'storePredictiveContext','',
           U ''        cacheKey,'',
           U ''        ttlHours,'',
           U ''        priority'',
           U ''      }'',
           U ''    });'']),
      (Lit (U ''console.log('[ContextCache] Cycles pr'' @ [233] @ U ''dictifs automatiques d'' @ [233] @ U ''marr'' @ [233] @ U ''s');''),
       ulines
          [U ''logger.info('Cycles pr'' @ [233] @ U ''dictifs automatiques d'' @ [233] @ U ''marr'' @ [233] @ U ''s', {'',
           U ''      metadata: {'',
           U ''        service: 'ContextCacheService','',
           U ''        operation: 'startPredictiveCycles'' @ [39],
           U ''      }'',
           U ''    });'']),
      (Lit (U ''console.log('[ContextCache] Cycle preloading pr'' @ [233] @ U ''dictif...');''),
       ulines
          [U ''logger.info('Cycle preloading pr'' @ [233] @ U ''dictif d'' @ [233] @ U ''marr'' @ [233, 39] @ U '', {'',
           U ''      metadata: {'',
           U ''        service: 'ContextCacheService','',
           U ''        operation: 'startPredictiveCycles'' @ [39],
           U ''      }'',
           U ''    });'']),
      (Lit (U ''console.log(`[ContextCache] Cycle pr'' @ [233] @ U ''dictif termin'' @ [233] @ U '': ${viablePredictions.length} contextes preload'' @ [233] @ U ''s`);''),
       ulines
          [U ''logger.info('Cycle pr'' @ [233] @ U ''dictif termin'' @ [233, 39] @ U '', {'',
           U ''      metadata: {'',
           U ''        service: 'ContextCacheService','',
           U ''        operation: 'startPredictiveCycles','',
           U ''        contextsPreloaded: viablePredictions.length'',
           U ''      }'',
           U ''    });'']),
      (Lit (U ''console.error('[ContextCache] Erreur cycle preloading pr'' @ [233] @ U ''dictif:', error);''),
       ulines
          [U ''logger.error('Erreur cycle preloading pr'' @ [233] @ U ''dictif', {'',
           U ''      metadata: {'',
           U ''        service: 'ContextCacheService','',
           U ''        operation: 'startPredictiveCycles','',
           U ''        error: error instanceof Error ? error.message : String(error),'',
           U ''        stack: error instanceof Error ? error.stack : undefined'',
           U ''      }'',
           U ''    });'']),
      (Lit (U ''console.log(`[ContextCache] Preloading pr'' @ [233] @ U ''dictif ${enabled ? 'ACTIV'' @ [201, 39] @ U '' : 'D'' @ [201] @ U ''SACTIV'' @ [201, 39] @ U ''}`);''),
       ulines
          [U ''logger.info('' @ [39, 201] @ U ''tat preloading pr'' @ [233] @ U ''dictif modifi'' @ [233, 39] @ U '', {'',
           U ''      metadata: {'',
           U ''        service: 'ContextCacheService','',
           U ''        operation: 'togglePredictivePreloading','',
           U ''        enabled'',
           U ''      }'',
           U ''    });''])]\<close>

text \<open>The text \<open>migrate_context_cache\<close> writes for the text it has read.\<close>

definition migrate_context_cache_text :: "ustr \<Rightarrow> ustr" where
  "migrate_context_cache_text content = apply_replacements context_cache_replacements content"

definition migrate_context_cache :: "world \<Rightarrow> error + world" where
  "migrate_context_cache w =
     (case read_file ''server/services/ContextCacheService.ts'' w of
        Inl e \<Rightarrow> Inl e
      | Inr content \<Rightarrow>
          if \<not> contains logger_import content then Inr (print (Logger_not_imported ''ContextCacheService.ts'') w)
          else Inr (print (Migrated ''ContextCacheService.ts'') (write_file ''server/services/ContextCacheService.ts'' (migrate_context_cache_text content) w)))"

definition main_console_to_logger :: "world \<Rightarrow> error + world" where
  "main_console_to_logger w =
     (case migrate_context_cache w of
        Inl e \<Rightarrow> Inl e
      | Inr w' \<Rightarrow> Inr (print Finished w'))"

subsection \<open>\<open>migrate_remaining_console.py\<close>\<close>

text \<open>The calls of \<open>re.sub\<close> in \<open>migrate_remaining_email\<close> (\<open>migrate_remaining_console.py\<close>), in their order.\<close>

definition remaining_email_subs :: "(regex \<times> ustr) list" where
  \<open>remaining_email_subs =
     [(Lit (U ''console.log('=== FIN INVITATION FOURNISSEUR ==='' @ [92] @ U ''n');''),
       ulines
          [U ''logger.info('Fin invitation fournisseur', {'',
           U ''      metadata: {'',
           U ''        service: 'EmailService','',
           U ''        operation: 'sendSupplierInvitation'' @ [39],
           U ''      }'',
           U ''    });'']),
      (Lit (U ''console.log('' @ [39, 92] @ U ''n=== [MockEmailService] RAPPEL EXPIRATION (Handlebars) ===');''),
       ulines
          [U ''logger.info('Rappel expiration', {'',
           U ''      metadata: {'',
           U ''        service: 'EmailService','',
           U ''        operation: 'sendSessionReminder','',
           U ''        templateEngine: 'Handlebars'' @ [39],
           U ''      }'',
           U ''    });'']),
      (Lit (U ''console.log('' @ [39, 128231] @ U '' Destinataire:', contactEmail, `(${contactName})`);''),
       ulines
          [U ''logger.info('Destinataire', {'',
           U ''      metadata: {'',
           U ''        service: 'EmailService','',
           U ''        operation: 'sendSessionReminder','',
           U ''        recipient: contactEmail,'',
           U ''        contactName'',
           U ''      }'',
           U ''    });'']),
      (Lit (U ''console.log('' @ [39, 128231] @ U '' AO:', aoReference);''),
       ulines
          [U ''logger.info('AO r'' @ [233] @ U ''f'' @ [233] @ U ''rence', {'',
           U ''      metadata: {'',
           U ''        service: 'EmailService','',
           U ''        operation: 'sendSessionReminder','',
           U ''        aoReference'',
           U ''      }'',
           U ''    });'']),
      (Lit (U ''console.log('' @ [39, 128231] @ U '' Temps restant:', timeRemaining);''),
       ulines
          [U ''logger.info('Temps restant', {'',
           U ''      metadata: {'',
           U ''        service: 'EmailService','',
           U ''        operation: 'sendSessionReminder','',
           U ''        timeRemaining'',
           U ''      }'',
           U ''    });'']),
      (Lit (U ''console.log('' @ [39, 128231] @ U '' URL d'' @ [92, 39] @ U ''acc'' @ [232] @ U ''s:', accessUrl);''),
       ulines
          [U ''logger.info('URL acc'' @ [232] @ U ''s', {'',
           U ''      metadata: {'',
           U ''        service: 'EmailService','',
           U ''        operation: 'sendSessionReminder','',
           U ''        accessUrl'',
           U ''      }'',
           U ''    });'']),
      (Lit (U ''console.log('=== FIN RAPPEL EXPIRATION ==='' @ [92] @ U ''n');''),
       ulines
          [U ''logger.info('Fin rappel expiration', {'',
           U ''      metadata: {'',
           U ''        service: 'EmailService','',
           U ''        operation: 'sendSessionReminder'' @ [39],
           U ''      }'',
           U ''    });'']),
      (Lit (U ''console.log('' @ [39, 92] @ U ''n=== [MockEmailService] CONFIRMATION DOCUMENT (Handlebars) ===');''),
       ulines
          [U ''logger.info('Confirmation document', {'',
           U ''      metadata: {'',
           U ''        service: 'EmailService','',
           U ''        operation: 'sendDocumentReceived','',
           U ''        templateEngine: 'Handlebars'' @ [39],
           U ''      }'',
           U ''    });'']),
      (Lit (U ''console.log('' @ [39, 128231] @ U '' Document:', documentName);''),
       ulines
          [U ''logger.info('Document', {'',
           U ''      metadata: {'',
           U ''        service: 'EmailService','',
           U ''        operation: 'sendDocumentReceived','',
           U ''        documentName'',
           U ''      }'',
           U ''    });'']),
      (Lit (U ''console.log('' @ [39, 128231] @ U '' Date upload:', uploadDate);''),
       ulines
          [U ''logger.info('Date upload', {'',
           U ''      metadata: {'',
           U ''        service: 'EmailService','',
           U ''        operation: 'sendDocumentReceived','',
           U ''        uploadDate'',
           U ''      }'',
           U ''    });'']),
      (Lit (U ''console.log('=== FIN CONFIRMATION DOCUMENT ==='' @ [92] @ U ''n');''),
       ulines
          [U ''logger.info('Fin confirmation document', {'',
           U ''      metadata: {'',
           U ''        service: 'EmailService','',
           U ''        operation: 'sendDocumentReceived'' @ [39],
           U ''      }'',
           U ''    });'']),
      (Lit (U ''console.warn('[SendGridEmailService] SendGrid API key non configur'' @ [233] @ U ''e - utiliser MockEmailService pour le d'' @ [233] @ U ''veloppement');''),
       ulines
          [U ''logger.warn('SendGrid API key non configur'' @ [233] @ U ''e', {'',
           U ''      metadata: {'',
           U ''        service: 'EmailService','',
           U ''        operation: 'constructor','',
           U ''        provider: 'SendGrid'' @ [39],
           U ''      }'',
           U ''    });'']),
      (Lit (U ''console.log('[SendGridEmailService] Service email SendGrid configur'' @ [233] @ U '' avec succ'' @ [232] @ U ''s');''),
       ulines
          [U ''logger.info('Service email SendGrid configur'' @ [233, 39] @ U '', {'',
           U ''      metadata: {'',
           U ''        service: 'EmailService','',
           U ''        operation: 'constructor','',
           U ''        provider: 'SendGrid'' @ [39],
           U ''      }'',
           U ''    });'']),
      (Lit (U ''console.log('[SendGridEmailService] SIMULATION - Email qui serait envoy'' @ [233] @ U '' via SendGrid (Handlebars):', {''),
       ulines
          [U ''logger.info('SIMULATION Email SendGrid', {'',
           U ''      metadata: {'',
           U ''        service: 'EmailService','',
           U ''        operation: 'sendSupplierInvitation','',
           U ''        provider: 'SendGrid','',
           U ''        simulationData: {'']),
      (Lit (U ''console.log('[SendGridEmailService] '' @ [9989] @ U '' Instructions d'' @ [233] @ U ''tect'' @ [233] @ U ''es - rendu conditionnel activ'' @ [233, 39] @ U '');''),
       ulines
          [U ''logger.info('Instructions d'' @ [233] @ U ''tect'' @ [233] @ U ''es - rendu conditionnel activ'' @ [233, 39] @ U '', {'',
           U ''      metadata: {'',
           U ''        service: 'EmailService','',
           U ''        operation: 'sendSupplierInvitation','',
           U ''        provider: 'SendGrid'' @ [39],
           U ''      }'',
           U ''    });'']),
      (Lit (U ''console.log('[SendGridEmailService] '' @ [10060] @ U '' Pas d'' @ [92, 39] @ U ''instructions - bloc conditionnel masqu'' @ [233, 39] @ U '');''),
       ulines
          [U ''logger.info('Pas d'' @ [92, 39] @ U ''instructions - bloc conditionnel masqu'' @ [233, 39] @ U '', {'',
           U ''      metadata: {'',
           U ''        service: 'EmailService','',
           U ''        operation: 'sendSupplierInvitation','',
           U ''        provider: 'SendGrid'' @ [39],
           U ''      }'',
           U ''    });'']),
      (Lit (U ''console.error('[SendGridEmailService] Erreur envoi email:', error);''),
       ulines
          [U ''logger.error('Erreur envoi email', {'',
           U ''      metadata: {'',
           U ''        service: 'EmailService','',
           U ''        operation: 'sendSupplierInvitation','',
           U ''        provider: 'SendGrid','',
           U ''        error: error instanceof Error ? error.message : String(error),'',
           U ''        stack: error instanceof Error ? error.stack : undefined'',
           U ''      }'',
           U ''    });'']),
      (Lit (U ''console.log(`[EmailServiceFactory] Initialisation du service email: ${provider}`);''),
       ulines
          [U ''logger.info('Initialisation du service email', {'',
           U ''      metadata: {'',
           U ''        service: 'EmailService','',
           U ''        operation: 'createEmailService','',
           U ''        provider'',
           U ''      }'',
           U ''    });'']),
      (Lit (U ''console.log(`[EmailService] Service actif: ${emailService.constructor.name}`);''),
       ulines
          [U ''logger.info('Service actif', {'',
           U ''      metadata: {'',
           U ''        service: 'EmailService','',
           U ''        operation: 'init','',
           U ''        serviceName: emailService.constructor.name'',
           U ''      }'',
           U ''    });''])]\<close>

text \<open>The text \<open>migrate_remaining_email\<close> writes for the text it has read.\<close>

definition migrate_remaining_email_text :: "ustr \<Rightarrow> ustr" where
  "migrate_remaining_email_text content = apply_replacements remaining_email_subs content"

definition migrate_remaining_email :: "world \<Rightarrow> error + world" where
  "migrate_remaining_email w =
     (case read_file ''server/services/emailService.ts'' w of
        Inl e \<Rightarrow> Inl e
      | Inr content \<Rightarrow> Inr (print (Migrated ''emailService.ts'') (write_file ''server/services/emailService.ts'' (migrate_remaining_email_text content) w)))"

text \<open>The calls of \<open>re.sub\<close> in \<open>migrate_remaining_predictive\<close> (\<open>migrate_remaining_console.py\<close>), in their order.\<close>

definition remaining_predictive_subs :: "(regex \<times> ustr) list" where
  \<open>remaining_predictive_subs =
     [(Lit (U ''console.error('[PredictiveEngine] Erreur r'' @ [233] @ U ''cup'' @ [233] @ U ''ration historique revenues:', error);''),
       ulines
          [U ''logger.error('Erreur r'' @ [233] @ U ''cup'' @ [233] @ U ''ration historique revenues', {'',
           U ''      metadata: {'',
           U ''        service: 'PredictiveEngineService','',
           U ''        operation: 'getMonthlyRevenueHistory','',
           U ''        error: error instanceof Error ? error.message : String(error),'',
           U ''        stack: error instanceof Error ? error.stack : undefined'',
           U ''      }'',
           U ''    });'']),
      (Lit (U ''console.error('[PredictiveEngine] Erreur r'' @ [233] @ U ''cup'' @ [233] @ U ''ration historique d'' @ [233] @ U ''lais:', error);''),
       ulines
          [U ''logger.error('Erreur r'' @ [233] @ U ''cup'' @ [233] @ U ''ration historique d'' @ [233] @ U ''lais', {'',
           U ''      metadata: {'',
           U ''        service: 'PredictiveEngineService','',
           U ''        operation: 'getProjectDelayHistory','',
           U ''        error: error instanceof Error ? error.message : String(error),'',
           U ''        stack: error instanceof Error ? error.stack : undefined'',
           U ''      }'',
           U ''    });'']),
      (Lit (U ''console.error('[PredictiveEngine] Erreur pr'' @ [233] @ U ''diction heat-map:', error);''),
       ulines
          [U ''logger.error('Erreur pr'' @ [233] @ U ''diction heat-map', {'',
           U ''      metadata: {'',
           U ''        service: 'PredictiveEngineService','',
           U ''        operation: 'predictFromHeatMap','',
           U ''        error: error instanceof Error ? error.message : String(error),'',
           U ''        stack: error instanceof Error ? error.stack : undefined'',
           U ''      }'',
           U ''    });'']),
      (Lit (U ''console.error(`[PredictiveEngine] Erreur t'' @ [226] @ U ''che preloading ${task.id}:`, error);''),
       ulines
          [U ''logger.error('Erreur t'' @ [226] @ U ''che preloading', {'',
           U ''      metadata: {'',
           U ''        service: 'PredictiveEngineService','',
           U ''        operation: 'executeHighPriorityTasks','',
           U ''        taskId: task.id,'',
           U ''        error: error instanceof Error ? error.message : String(error),'',
           U ''        stack: error instanceof Error ? error.stack : undefined'',
           U ''      }'',
           U ''    });'']),
      (Lit (U ''console.log(`[PredictiveEngine] Ex'' @ [233] @ U ''cution preloading ${task.entityType}:${task.entityId}`);''),
       ulines
          [U ''logger.info('Ex'' @ [233] @ U ''cution preloading', {'',
           U ''      metadata: {'',
           U ''        service: 'PredictiveEngineService','',
           U ''        operation: 'executePreloadTask','',
           U ''        entityType: task.entityType,'',
           U ''        entityId: task.entityId'',
           U ''      }'',
           U ''    });'']),
      (Lit (U ''console.log(`[PredictiveEngine] Preloading compl'' @ [233] @ U ''t'' @ [233] @ U '': ${task.entityType}:${task.entityId}`);''),
       ulines
          [U ''logger.info('Preloading compl'' @ [233] @ U ''t'' @ [233, 39] @ U '', {'',
           U ''      metadata: {'',
           U ''        service: 'PredictiveEngineService','',
           U ''        operation: 'executePreloadTask','',
           U ''        entityType: task.entityType,'',
           U ''        entityId: task.entityId'',
           U ''      }'',
           U ''    });'']),
      (Lit (U ''console.error(`[PredictiveEngine] Erreur preloading ${task.id}:`, error);''),
       ulines
          [U ''logger.error('Erreur preloading', {'',
           U ''      metadata: {'',
           U ''        service: 'PredictiveEngineService','',
           U ''        operation: 'executePreloadTask','',
           U ''        taskId: task.id,'',
           U ''        error: error instanceof Error ? error.message : String(error),'',
           U ''        stack: error instanceof Error ? error.stack : undefined'',
           U ''      }'',
           U ''    });'']),
      (Lit (U ''console.error(`[PredictiveEngine] Erreur t'' @ [226] @ U ''che diff'' @ [233] @ U ''r'' @ [233] @ U ''e ${task.id}:`, error);''),
       ulines
          [U ''logger.error('Erreur t'' @ [226] @ U ''che diff'' @ [233] @ U ''r'' @ [233] @ U ''e', {'',
           U ''      metadata: {'',
           U ''        service: 'PredictiveEngineService','',
           U ''        operation: 'scheduleDelayedTasks','',
           U ''        taskId: task.id,'',
           U ''        error: error instanceof Error ? error.message : String(error),'',
           U ''        stack: error instanceof Error ? error.stack : undefined'',
           U ''      }'',
           U ''    });'']),
      (Lit (U ''console.log(`[PredictiveEngine] Cleanup acc'' @ [232] @ U ''s entit'' @ [233] @ U ''s: ${deletedCount} entr'' @ [233] @ U ''es supprim'' @ [233] @ U ''es`);''),
       ulines
          [U ''logger.info('Cleanup acc'' @ [232] @ U ''s entit'' @ [233] @ U ''s', {'',
           U ''      metadata: {'',
           U ''        service: 'PredictiveEngineService','',
           U ''        operation: 'cleanupStaleEntityAccess','',
           U ''        deletedCount'',
           U ''      }'',
           U ''    });'']),
      (Lit (U ''console.log('[PredictiveEngine] Mise '' @ [224] @ U '' jour patterns BTP...');''),
       ulines
          [U ''logger.info('Mise '' @ [224] @ U '' jour patterns BTP', {'',
           U ''      metadata: {'',
           U ''        service: 'PredictiveEngineService','',
           U ''        operation: 'updateBTPPatterns'' @ [39],
           U ''      }'',
           U ''    });'']),
      (Lit (U ''console.log('[PredictiveEngine] Patterns BTP mis '' @ [224] @ U '' jour');''),
       ulines
          [U ''logger.info('Patterns BTP mis '' @ [224] @ U '' jour', {'',
           U ''      metadata: {'',
           U ''        service: 'PredictiveEngineService','',
           U ''        operation: 'updateBTPPatterns'' @ [39],
           U ''      }'',
           U ''    });'']),
      (Lit (U ''console.error('[PredictiveEngine] Erreur mise '' @ [224] @ U '' jour patterns BTP:', error);''),
       ulines
          [U ''logger.error('Erreur mise '' @ [224] @ U '' jour patterns BTP', {'',
           U ''      metadata: {'',
           U ''        service: 'PredictiveEngineService','',
           U ''        operation: 'updateBTPPatterns','',
           U ''        error: error instanceof Error ? error.message : String(error),'',
           U ''        stack: error instanceof Error ? error.stack : undefined'',
           U ''      }'',
           U ''    });'']),
      (Lit (U ''console.log(`[PredictiveEngine] Preloading ${enabled ? 'ACTIV'' @ [201, 39] @ U '' : 'D'' @ [201] @ U ''SACTIV'' @ [201, 39] @ U ''}`);''),
       ulines
          [U ''logger.info('' @ [39, 201] @ U ''tat preloading', {'',
           U ''      metadata: {'',
           U ''        service: 'PredictiveEngineService','',
           U ''        operation: 'togglePredictivePreloading','',
           U ''        enabled: enabled ? 'ACTIV'' @ [201, 39] @ U '' : 'D'' @ [201] @ U ''SACTIV'' @ [201, 39],
           U ''      }'',
           U ''    });''])]\<close>

text \<open>The text \<open>migrate_remaining_predictive\<close> writes for the text it has read.\<close>

definition migrate_remaining_predictive_text :: "ustr \<Rightarrow> ustr" where
  "migrate_remaining_predictive_text content = apply_replacements remaining_predictive_subs content"

definition migrate_remaining_predictive :: "world \<Rightarrow> error + world" where
  "migrate_remaining_predictive w =
     (case read_file ''server/services/PredictiveEngineService.ts'' w of
        Inl e \<Rightarrow> Inl e
      | Inr content \<Rightarrow> Inr (print (Migrated ''PredictiveEngineService.ts'') (write_file ''server/services/PredictiveEngineService.ts'' (migrate_remaining_predictive_text content) w)))"

text \<open>The calls of \<open>re.sub\<close> in \<open>migrate_remaining_sql\<close> (\<open>migrate_remaining_console.py\<close>), in their order.\<close>

definition remaining_sql_subs :: "(regex \<times> ustr) list" where
  \<open>remaining_sql_subs =
     [(Lit (U ''console.log(`[SQLSecurity] SQL '' @ [224] @ U '' valider: ${sql.substring(0, 200)}${sql.length > 200 ? '...': '' @ [39, 39] @ U ''}`);''),
       ulines
          [U ''logger.info('SQL '' @ [224] @ U '' valider', {'',
           U ''      metadata: {'',
           U ''        service: 'SQLEngineService','',
           U ''        operation: 'validateSQL','',
           U ''        sqlPreview: sql.substring(0, 200) + (sql.length > 200 ? '...' : '' @ [39, 39] @ U '')'',
           U ''      }'',
           U ''    });'']),
      (Lit (U ''console.log(`[SQLSecurity] '' @ [10003] @ U '' SQL nettoy'' @ [233] @ U '' (${cleanedSQL.length} chars): ${cleanedSQL.substring(0, 150)}${cleanedSQL.length > 150 ? '...': '' @ [39, 39] @ U ''}`);''),
       ulines
          [U ''logger.info('SQL nettoy'' @ [233, 39] @ U '', {'',
           U ''      metadata: {'',
           U ''        service: 'SQLEngineService','',
           U ''        operation: 'validateSQL','',
           U ''        cleanedSQLLength: cleanedSQL.length,'',
           U ''        cleanedSQLPreview: cleanedSQL.substring(0, 150) + (cleanedSQL.length > 150 ? '...' : '' @ [39, 39] @ U '')'',
           U ''      }'',
           U ''    });'']),
      (Lit (U ''console.log(`[SQLSecurity] '' @ [201] @ U ''tape 4: Validation des colonnes...`);''),
       ulines
          [U ''logger.info('Validation des colonnes', {'',
           U ''      metadata: {'',
           U ''        service: 'SQLEngineService','',
           U ''        operation: 'validateSQL','',
           U ''        step: 4'',
           U ''      }'',
           U ''    });'']),
      (Lit (U ''console.log(`[SQLSecurity] Colonnes extraites: ${columnsInQuery.length} colonne(s)`);''),
       ulines
          [U ''logger.info('Colonnes extraites', {'',
           U ''      metadata: {'',
           U ''        service: 'SQLEngineService','',
           U ''        operation: 'validateSQL','',
           U ''        columnsCount: columnsInQuery.length'',
           U ''      }'',
           U ''    });'']),
      (Lit (U ''console.log(`[SQLSecurity] '' @ [201] @ U ''tape 5: D'' @ [233] @ U ''tection patterns d'injection...`);''),
       ulines
          [U ''logger.info('D'' @ [233] @ U ''tection patterns d'' @ [92, 39] @ U ''injection', {'',
           U ''      metadata: {'',
           U ''        service: 'SQLEngineService','',
           U ''        operation: 'validateSQL','',
           U ''        step: 5'',
           U ''      }'',
           U ''    });'']),
      (Lit (U ''console.log(`[SQLSecurity] '' @ [10007] @ U '' Patterns d'injection d'' @ [233] @ U ''tect'' @ [233] @ U ''s: ${violations.slice(injectionViolationsBefore).join(', ')}`);''),
       ulines
          [U ''logger.warn('Patterns d'' @ [92, 39] @ U ''injection d'' @ [233] @ U ''tect'' @ [233] @ U ''s', {'',
           U ''      metadata: {'',
           U ''        service: 'SQLEngineService','',
           U ''        operation: 'validateSQL','',
           U ''        patterns: violations.slice(injectionViolationsBefore).join(', ')'',
           U ''      }'',
           U ''    });'']),
      (Lit (U ''console.log(`[SQLSecurity] '' @ [10003] @ U '' Aucun pattern d'injection d'' @ [233] @ U ''tect'' @ [233] @ U ''`);''),
       ulines
          [U ''logger.info('Aucun pattern d'' @ [92, 39] @ U ''injection d'' @ [233] @ U ''tect'' @ [233, 39] @ U '', {'',
           U ''      metadata: {'',
           U ''        service: 'SQLEngineService','',
           U ''        operation: 'validateSQL'' @ [39],
           U ''      }'',
           U ''    });'']),
      (Lit (U ''console.log(`[SQLSecurity] '' @ [201] @ U ''tape 6: Validation contraintes m'' @ [233] @ U ''tier...`);''),
       ulines
          [U ''logger.info('Validation contraintes m'' @ [233] @ U ''tier', {'',
           U ''      metadata: {'',
           U ''        service: 'SQLEngineService','',
           U ''        operation: 'validateSQL','',
           U ''        step: 6'',
           U ''      }'',
           U ''    });'']),
      (Lit (U ''console.log(`[SQLSecurity] '' @ [10007] @ U '' Contraintes m'' @ [233] @ U ''tier viol'' @ [233] @ U ''es: ${violations.slice(businessViolationsBefore).join(', ')}`);''),
       ulines
          [U ''logger.warn('Contraintes m'' @ [233] @ U ''tier viol'' @ [233] @ U ''es', {'',
           U ''      metadata: {'',
           U ''        service: 'SQLEngineService','',
           U ''        operation: 'validateSQL','',
           U ''        violations: violations.slice(businessViolationsBefore).join(', ')'',
           U ''      }'',
           U ''    });'']),
      (Lit (U ''console.log(`[SQLSecurity] '' @ [10003] @ U '' Contraintes m'' @ [233] @ U ''tier respect'' @ [233] @ U ''es`);''),
       ulines
          [U ''logger.info('Contraintes m'' @ [233] @ U ''tier respect'' @ [233] @ U ''es', {'',
           U ''      metadata: {'',
           U ''        service: 'SQLEngineService','',
           U ''        operation: 'validateSQL'' @ [39],
           U ''      }'',
           U ''    });'']),
      (Lit (U ''console.log(`[SQLSecurity] '' @ [10007] @ U '' ERREUR PARSING: ${violation}`);''),
       ulines
          [U ''logger.error('Erreur parsing SQL', {'',
           U ''      metadata: {'',
           U ''        service: 'SQLEngineService','',
           U ''        operation: 'validateSQL','',
           U ''        violation'',
           U ''      }'',
           U ''    });'']),
      (Lit (U ''console.log(`[SQLSecurity] SQL probl'' @ [233] @ U ''matique: ${sql}`);''),
       ulines
          [U ''logger.error('SQL probl'' @ [233] @ U ''matique', {'',
           U ''      metadata: {'',
           U ''        service: 'SQLEngineService','',
           U ''        operation: 'validateSQL','',
           U ''        sql'',
           U ''      }'',
           U ''    });'']),
      (Lit (U ''console.log(`[SQLSecurity] '' @ [9552, 9552, 9552, 9552, 9552, 9552, 9552, 9552, 9552, 9552, 9552, 9552, 9552, 9552, 9552, 9552, 9552, 9552, 9552, 9552, 9552, 9552, 9552, 9552, 9552, 9552, 9552, 9552, 9552, 9552, 9552, 9552, 9552, 9552, 9552, 9552, 9552, 9552, 9552, 9552, 9552, 9552, 9552] @ U ''`);''),
       []),
      (Lit (U ''console.log(`[SQLSecurity] R'' @ [233] @ U ''sultat final: ${isSecure ? '' @ [39, 10003] @ U '' S'' @ [201] @ U ''CURIS'' @ [201, 39] @ U '' : '' @ [39, 10007] @ U '' REJET'' @ [201, 39] @ U ''}`);''),
       ulines
          [U ''logger.info('R'' @ [233] @ U ''sultat validation SQL', {'',
           U ''      metadata: {'',
           U ''        service: 'SQLEngineService','',
           U ''        operation: 'validateSQL','',
           U ''        result: isSecure ? 'S'' @ [201] @ U ''CURIS'' @ [201, 39] @ U '' : 'REJET'' @ [201, 39],
           U ''      }'',
           U ''    });'']),
      (Lit (U ''console.log(`[SQLSecurity] Violations: ${violations.length}`);''),
       ulines
          [U ''logger.info('Violations count', {'',
           U ''      metadata: {'',
           U ''        service: 'SQLEngineService','',
           U ''        operation: 'validateSQL','',
           U ''        violationsCount: violations.length'',
           U ''      }'',
           U ''    });'']),
      (Lit (U ''console.log(`[SQLSecurity] D'' @ [233] @ U ''tail violations:`);''),
       ulines
          [U ''logger.info('D'' @ [233] @ U ''tail violations', {'',
           U ''      metadata: {'',
           U ''        service: 'SQLEngineService','',
           U ''        operation: 'validateSQL'' @ [39],
           U ''      }'',
           U ''    });'']),
      (Lit (U ''violations.forEach((v, i) => console.log(`[SQLSecurity]   ${i + 1}. ${v}`));''),
       ulines
          [U ''violations.forEach((v, i) => logger.info('Violation', {'',
           U ''        metadata: {'',
           U ''          service: 'SQLEngineService','',
           U ''          operation: 'validateSQL','',
           U ''          index: i + 1,'',
           U ''          violation: v'',
           U ''        }'',
           U ''      }));'']),
      (Lit (U ''console.log('[SQLEngine] Note: Filtre user_id manquant, sera ajout'' @ [233] @ U '' par RBAC');''),
       ulines
          [U ''logger.info('Filtre user_id manquant, sera ajout'' @ [233] @ U '' par RBAC', {'',
           U ''      metadata: {'',
           U ''        service: 'SQLEngineService','',
           U ''        operation: 'generateIntelligentContext'' @ [39],
           U ''      }'',
           U ''    });'']),
      (Lit (U ''console.log('[SQLEngine] Query '' @ [233] @ U ''chou'' @ [233] @ U ''e apr'' @ [232] @ U ''s timeout (ignor'' @ [233] @ U ''e):', err.message);''),
       ulines
          [U ''logger.warn('Query '' @ [233] @ U ''chou'' @ [233] @ U ''e apr'' @ [232] @ U ''s timeout', {'',
           U ''      metadata: {'',
           U ''        service: 'SQLEngineService','',
           U ''        operation: 'executeNaturalLanguageQuery','',
           U ''        error: err.message'',
           U ''      }'',
           U ''    });'']),
      (Lit (U ''console.log(`[SQLEngine] Query ${queryId} executed in ${Date.now() - startTime}ms, ${resultCount} results`);''),
       ulines
          [U ''logger.info('Query executed', {'',
           U ''      metadata: {'',
           U ''        service: 'SQLEngineService','',
           U ''        operation: 'executeNaturalLanguageQuery','',
           U ''        queryId,'',
           U ''        durationMs: Date.now() - startTime,'',
           U ''        resultsCount: resultCount'',
           U ''      }'',
           U ''    });'']),
      (Lit (U ''console.error('[SQLEngine] Erreur logging:', error);''),
       ulines
          [U ''logger.error('Erreur logging', {'',
           U ''      metadata: {'',
           U ''        service: 'SQLEngineService','',
           U ''        operation: 'logQueryToAudit','',
           U ''        error: error instanceof Error ? error.message : String(error),'',
           U ''        stack: error instanceof Error ? error.stack : undefined'',
           U ''      }'',
           U ''    });'']),
      (Seq [Lit [10], Rep Greedy 0 Space, Lit [10], Rep Greedy 0 Space, Lit [10]],
       ulines
          [[],
           [],
           []])]\<close>

text \<open>The text \<open>migrate_remaining_sql\<close> writes for the text it has read.\<close>

definition migrate_remaining_sql_text :: "ustr \<Rightarrow> ustr" where
  "migrate_remaining_sql_text content = apply_replacements remaining_sql_subs content"

definition migrate_remaining_sql :: "world \<Rightarrow> error + world" where
  "migrate_remaining_sql w =
     (case read_file ''server/services/SQLEngineService.ts'' w of
        Inl e \<Rightarrow> Inl e
      | Inr content \<Rightarrow> Inr (print (Migrated ''SQLEngineService.ts'') (write_file ''server/services/SQLEngineService.ts'' (migrate_remaining_sql_text content) w)))"

subsection \<open>\<open>migrate_remaining_services.py\<close>\<close>

text \<open>The table \<open>replacements\<close> of \<open>migrate_email_service\<close> (\<open>migrate_remaining_services.py\<close>).\<close>

definition email_service_replacements :: "(regex \<times> ustr) list" where
  \<open>email_service_replacements =
     [(Lit (U ''console.error('[HandlebarsTemplateService] Erreur lors du rendu du template:', error);''),
       ulines
          [U ''logger.error('Erreur rendu template', {'',
           U ''        metadata: {'',
           U ''          service: 'EmailService','',
           U ''          operation: 'renderTemplate','',
           U ''          error: error instanceof Error ? error.message : String(error),'',
           U ''          stack: error instanceof Error ? error.stack : undefined'',
           U ''        }'',
           U ''      });'']),
      (Lit (U ''console.error('Template content:', templateContent.substring(0, 200) + '...');''),
       ulines
          [U ''logger.error('Template content preview', {'',
           U ''        metadata: {'',
           U ''          service: 'EmailService','',
           U ''          operation: 'renderTemplate','',
           U ''          templatePreview: templateContent.substring(0, 200) + '...'' @ [39],
           U ''        }'',
           U ''      });'']),
      (Lit (U ''console.error('Data provided:', JSON.stringify(data, null, 2));''),
       ulines
          [U ''logger.error('Template data provided', {'',
           U ''        metadata: {'',
           U ''          service: 'EmailService','',
           U ''          operation: 'renderTemplate','',
           U ''          data: JSON.stringify(data, null, 2)'',
           U ''        }'',
           U ''      });'']),
      (Lit (U ''console.warn('[HandlebarsTemplateService] Utilisation du fallback na'' @ [239] @ U ''f');''),
       ulines
          [U ''logger.warn('Utilisation du fallback na'' @ [239] @ U ''f', {'',
           U ''        metadata: {'',
           U ''          service: 'EmailService','',
           U ''          operation: 'renderTemplate'' @ [39],
           U ''        }'',
           U ''      });'']),
      (Lit (U ''console.log('[MockEmailService] Service email MOCK initialis'' @ [233] @ U '' pour le d'' @ [233] @ U ''veloppement');''),
       ulines
          [U ''logger.info('Service email MOCK initialis'' @ [233, 39] @ U '', {'',
           U ''        metadata: {'',
           U ''          service: 'EmailService','',
           U ''          operation: 'constructor'' @ [39],
           U ''        }'',
           U ''      });'']),
      (Lit (U ''console.log('' @ [39, 92] @ U ''n=== [MockEmailService] INVITATION FOURNISSEUR (Handlebars) ===');''),
       ulines
          [U ''logger.info('Envoi invitation fournisseur', {'',
           U ''        metadata: {'',
           U ''          service: 'EmailService','',
           U ''          operation: 'sendSupplierInvitation','',
           U ''          templateEngine: 'Handlebars'' @ [39],
           U ''        }'',
           U ''      });'']),
      (Lit (U ''console.log('' @ [39, 128231] @ U '' Destinataire:', data.contactEmail, `(${data.contactName})`);''),
       ulines
          [U ''logger.info('Destinataire', {'',
           U ''        metadata: {'',
           U ''          service: 'EmailService','',
           U ''          operation: 'sendSupplierInvitation','',
           U ''          recipient: data.contactEmail,'',
           U ''          contactName: data.contactName'',
           U ''        }'',
           U ''      });'']),
      (Lit (U ''console.log('' @ [39, 128231] @ U '' Sujet:', subject);''),
       ulines
          [U ''logger.info('Sujet email', {'',
           U ''        metadata: {'',
           U ''          service: 'EmailService','',
           U ''          operation: 'sendSupplierInvitation','',
           U ''          subject'',
           U ''        }'',
           U ''      });'']),
      (Lit (U ''console.log('' @ [39, 128231] @ U '' Fournisseur:', data.supplierName);''),
       ulines
          [U ''logger.info('Fournisseur', {'',
           U ''        metadata: {'',
           U ''          service: 'EmailService','',
           U ''          operation: 'sendSupplierInvitation','',
           U ''          supplierName: data.supplierName'',
           U ''        }'',
           U ''      });'']),
      (Lit (U ''console.log('' @ [39, 128231] @ U '' AO:', data.aoReference);''),
       ulines
          [U ''logger.info('AO r'' @ [233] @ U ''f'' @ [233] @ U ''rence', {'',
           U ''        metadata: {'',
           U ''          service: 'EmailService','',
           U ''          operation: 'sendSupplierInvitation','',
           U ''          aoReference: data.aoReference'',
           U ''        }'',
           U ''      });'']),
      (Lit (U ''console.log('' @ [39, 128231] @ U '' Lot:', data.lotDescription);''),
       ulines
          [U ''logger.info('Lot description', {'',
           U ''        metadata: {'',
           U ''          service: 'EmailService','',
           U ''          operation: 'sendSupplierInvitation','',
           U ''          lotDescription: data.lotDescription'',
           U ''        }'',
           U ''      });'']),
      (Lit (U ''console.log('' @ [39, 128231] @ U '' URL d'' @ [92, 39] @ U ''acc'' @ [232] @ U ''s:', data.accessUrl);''),
       ulines
          [U ''logger.info('URL acc'' @ [232] @ U ''s', {'',
           U ''        metadata: {'',
           U ''          service: 'EmailService','',
           U ''          operation: 'sendSupplierInvitation','',
           U ''          accessUrl: data.accessUrl'',
           U ''        }'',
           U ''      });'']),
      (Lit (U ''console.log('' @ [39, 128231] @ U '' Expiration:', data.expirationDate);''),
       ulines
          [U ''logger.info('Date expiration', {'',
           U ''        metadata: {'',
           U ''          service: 'EmailService','',
           U ''          operation: 'sendSupplierInvitation','',
           U ''          expirationDate: data.expirationDate'',
           U ''        }'',
           U ''      });'']),
      (Lit (U ''console.log('' @ [39, 128231] @ U '' Instructions:', data.instructions);''),
       ulines
          [U ''logger.info('Instructions incluses', {'',
           U ''        metadata: {'',
           U ''          service: 'EmailService','',
           U ''          operation: 'sendSupplierInvitation','',
           U ''          instructions: data.instructions'',
           U ''        }'',
           U ''      });'']),
      (Lit (U ''console.log('' @ [39, 128231] @ U '' '' @ [9989] @ U '' Instructions incluses dans le rendu conditionnel');''),
       ulines
          [U ''logger.info('Instructions incluses dans rendu', {'',
           U ''        metadata: {'',
           U ''          service: 'EmailService','',
           U ''          operation: 'sendSupplierInvitation','',
           U ''          conditionalRender: true'',
           U ''        }'',
           U ''      });'']),
      (Lit (U ''console.log('' @ [39, 128231] @ U '' '' @ [10060] @ U '' Pas d'' @ [92, 39] @ U ''instructions - bloc conditionnel masqu'' @ [233, 39] @ U '');''),
       ulines
          [U ''logger.info('Pas d'' @ [92, 39] @ U ''instructions - bloc masqu'' @ [233, 39] @ U '', {'',
           U ''        metadata: {'',
           U ''          service: 'EmailService','',
           U ''          operation: 'sendSupplierInvitation','',
           U ''          conditionalRender: false'',
           U ''        }'',
           U ''      });'']),
      (Lit (U ''console.log('' @ [39, 128231] @ U '' Template HTML rendu avec Handlebars (', htmlContent.length, 'caract'' @ [232] @ U ''res)');''),
       ulines
          [U ''logger.info('Template HTML rendu', {'',
           U ''        metadata: {'',
           U ''          service: 'EmailService','',
           U ''          operation: 'sendSupplierInvitation','',
           U ''          htmlLength: htmlContent.length,'',
           U ''          templateEngine: 'Handlebars'' @ [39],
           U ''        }'',
           U ''      });'']),
      (Lit (U ''console.log('' @ [39, 128231] @ U '' Template TEXT rendu avec Handlebars (', textContent.length, 'caract'' @ [232] @ U ''res)');''),
       ulines
          [U ''logger.info('Template TEXT rendu', {'',
           U ''        metadata: {'',
           U ''          service: 'EmailService','',
           U ''          operation: 'sendSupplierInvitation','',
           U ''          textLength: textContent.length,'',
           U ''          templateEngine: 'Handlebars'' @ [39],
           U ''        }'',
           U ''      });'']),
      (Lit (U ''console.log('' @ [39, 128231] @ U '' APER'' @ [199] @ U ''U RENDU HTML:');''),
       ulines
          [U ''logger.info('Aper'' @ [231] @ U ''u rendu HTML', {'',
           U ''        metadata: {'',
           U ''          service: 'EmailService','',
           U ''          operation: 'sendSupplierInvitation'' @ [39],
           U ''        }'',
           U ''      });'']),
      (Lit (U ''console.log(htmlPreview.substring(0, 500) + '...');''),
       ulines
          [U ''logger.info('HTML preview', {'',
           U ''        metadata: {'',
           U ''          service: 'EmailService','',
           U ''          operation: 'sendSupplierInvitation','',
           U ''          htmlPreview: htmlPreview.substring(0, 500) + '...'' @ [39],
           U ''        }'',
           U ''      });''])]\<close>

text \<open>The calls of \<open>re.sub\<close> after the loop in \<open>migrate_email_service\<close> (\<open>migrate_remaining_services.py\<close>), in their order.\<close>

definition email_service_subs :: "(regex \<times> ustr) list" where
  \<open>email_service_subs =
     [(Lit (U ''console.log('=== FIN INVITATION FOURNISSEUR ===');''),
       ulines
          [U ''logger.info('Fin invitation fournisseur', {'',
           U ''      metadata: {'',
           U ''        service: 'EmailService','',
           U ''        operation: 'sendSupplierInvitation'' @ [39],
           U ''      }'',
           U ''    });'']),
      (Lit (U ''console.log(`[MockEmailService] '' @ [128233] @ U '' SESSION REMINDER FOURNISSEUR`);''),
       ulines
          [U ''logger.info('Session reminder fournisseur', {'',
           U ''      metadata: {'',
           U ''        service: 'EmailService','',
           U ''        operation: 'sendSessionReminder'' @ [39],
           U ''      }'',
           U ''    });'']),
      (Lit (U ''console.log(`[MockEmailService] '' @ [128196] @ U '' DOCUMENT RECEIVED CONFIRMATION`);''),
       ulines
          [U ''logger.info('Document received confirmation', {'',
           U ''      metadata: {'',
           U ''        service: 'EmailService','',
           U ''        operation: 'sendDocumentReceived'' @ [39],
           U ''      }'',
           U ''    });'']),
      (Lit (U ''console.log(`[SendGridEmailService] Email envoy'' @ [233] @ U '' avec succ'' @ [232] @ U ''s`);''),
       ulines
          [U ''logger.info('Email envoy'' @ [233] @ U '' avec succ'' @ [232] @ U ''s', {'',
           U ''      metadata: {'',
           U ''        service: 'EmailService','',
           U ''        operation: 'sendSupplierInvitation','',
           U ''        provider: 'SendGrid'' @ [39],
           U ''      }'',
           U ''    });'']),
      (Lit (U ''console.log(`[SendGridEmailService] Message ID: ${messageId}`);''),
       ulines
          [U ''logger.info('Message ID', {'',
           U ''      metadata: {'',
           U ''        service: 'EmailService','',
           U ''        operation: 'sendSupplierInvitation','',
           U ''        provider: 'SendGrid','',
           U ''        messageId'',
           U ''      }'',
           U ''    });'']),
      (Lit (U ''console.error(`[SendGridEmailService] Erreur lors de l'envoi:`, error);''),
       ulines
          [U ''logger.error('Erreur envoi email', {'',
           U ''      metadata: {'',
           U ''        service: 'EmailService','',
           U ''        operation: 'sendSupplierInvitation','',
           U ''        provider: 'SendGrid','',
           U ''        error: error instanceof Error ? error.message : String(error),'',
           U ''        stack: error instanceof Error ? error.stack : undefined'',
           U ''      }'',
           U ''    });'']),
      (Lit (U ''console.log(`[EmailService] Rappels programm'' @ [233] @ U ''s pour session ${session.id}`);''),
       ulines
          [U ''logger.info('Rappels programm'' @ [233] @ U ''s', {'',
           U ''      metadata: {'',
           U ''        service: 'EmailService','',
           U ''        operation: 'scheduleSessionReminders','',
           U ''        sessionId: session.id'',
           U ''      }'',
           U ''    });''])]\<close>

text \<open>The text \<open>migrate_email_service\<close> writes for the text it has read.\<close>

definition migrate_email_service_text :: "ustr \<Rightarrow> ustr" where
  "migrate_email_service_text content = apply_replacements email_service_subs (apply_replacements email_service_replacements content)"

definition migrate_email_service :: "world \<Rightarrow> error + bool \<times> world" where
  "migrate_email_service w0 =
     (let w = print (Migrating ''emailService.ts'') w0 in
      case read_file ''server/services/emailService.ts'' w of
        Inl e \<Rightarrow> Inl e
      | Inr content \<Rightarrow>
          if \<not> contains logger_import content then
            Inr (False, print (Logger_not_imported ''emailService.ts'') w)
          else Inr (True, print (Migrated ''emailService.ts'') (write_file ''server/services/emailService.ts'' (migrate_email_service_text content) w)))"

text \<open>The table \<open>replacements\<close> of \<open>migrate_predictive_engine\<close> (\<open>migrate_remaining_services.py\<close>).\<close>

definition predictive_engine_replacements :: "(regex \<times> ustr) list" where
  \<open>predictive_engine_replacements =
     [(Lit (U ''console.log('[PredictiveEngine] Service initialis'' @ [233] @ U '' avec preloading pr'' @ [233] @ U ''dictif activ'' @ [233, 39] @ U '');''),
       ulines
          [U ''logger.info('Service initialis'' @ [233] @ U '' avec preloading pr'' @ [233] @ U ''dictif', {'',
           U ''      metadata: {'',
           U ''        service: 'PredictiveEngineService','',
           U ''        operation: 'constructor'' @ [39],
           U ''      }'',
           U ''    });'']),
      (Lit (U ''console.log('[PredictiveEngine] Cache hit pour forecast revenue');''),
       ulines
          [U ''logger.info('Cache hit', {'',
           U ''      metadata: {'',
           U ''        service: 'PredictiveEngineService','',
           U ''        operation: 'forecastRevenue','',
           U ''        cacheHit: true'',
           U ''      }'',
           U ''    });'']),
      (Lit (U ''console.log('[PredictiveEngine] Calcul forecast revenue:', params);''),
       ulines
          [U ''logger.info('Calcul forecast revenue', {'',
           U ''      metadata: {'',
           U ''        service: 'PredictiveEngineService','',
           U ''        operation: 'forecastRevenue','',
           U ''        params'',
           U ''      }'',
           U ''    });'']),
      (Lit (U ''console.log('[PredictiveEngine] Aucune donn'' @ [233] @ U ''e historique trouv'' @ [233] @ U ''e');''),
       ulines
          [U ''logger.info('Aucune donn'' @ [233] @ U ''e historique trouv'' @ [233] @ U ''e', {'',
           U ''      metadata: {'',
           U ''        service: 'PredictiveEngineService','',
           U ''        operation: 'forecastRevenue'' @ [39],
           U ''      }'',
           U ''    });'']),
      (Lit (U ''console.log('[PredictiveEngine] Forecast calcul'' @ [233] @ U '':', results.length, 'pr'' @ [233] @ U ''visions');''),
       ulines
          [U ''logger.info('Forecast calcul'' @ [233, 39] @ U '', {'',
           U ''      metadata: {'',
           U ''        service: 'PredictiveEngineService','',
           U ''        operation: 'forecastRevenue','',
           U ''        forecastCount: results.length'',
           U ''      }'',
           U ''    });'']),
      (Lit (U ''console.error('[PredictiveEngine] Erreur calcul forecast revenue:', error);''),
       ulines
          [U ''logger.error('Erreur calcul forecast revenue', {'',
           U ''      metadata: {'',
           U ''        service: 'PredictiveEngineService','',
           U ''        operation: 'forecastRevenue','',
           U ''        error: error instanceof Error ? error.message : String(error),'',
           U ''        stack: error instanceof Error ? error.stack : undefined'',
           U ''      }'',
           U ''    });'']),
      (Lit (U ''console.log('[PredictiveEngine] Cache hit pour project risks');''),
       ulines
          [U ''logger.info('Cache hit', {'',
           U ''      metadata: {'',
           U ''        service: 'PredictiveEngineService','',
           U ''        operation: 'detectProjectRisks','',
           U ''        cacheHit: true'',
           U ''      }'',
           U ''    });'']),
      (Lit (U ''console.log('[PredictiveEngine] D'' @ [233] @ U ''tection risques projets:', params);''),
       ulines
          [U ''logger.info('D'' @ [233] @ U ''tection risques projets', {'',
           U ''      metadata: {'',
           U ''        service: 'PredictiveEngineService','',
           U ''        operation: 'detectProjectRisks','',
           U ''        params'',
           U ''      }'',
           U ''    });'']),
      (Lit (U ''console.log('[PredictiveEngine] Risques d'' @ [233] @ U ''tect'' @ [233] @ U ''s:', results.length, 'projets '' @ [224] @ U '' risque');''),
       ulines
          [U ''logger.info('Risques d'' @ [233] @ U ''tect'' @ [233] @ U ''s', {'',
           U ''      metadata: {'',
           U ''        service: 'PredictiveEngineService','',
           U ''        operation: 'detectProjectRisks','',
           U ''        risksCount: results.length'',
           U ''      }'',
           U ''    });'']),
      (Lit (U ''console.error('[PredictiveEngine] Erreur d'' @ [233] @ U ''tection risques:', error);''),
       ulines
          [U ''logger.error('Erreur d'' @ [233] @ U ''tection risques', {'',
           U ''      metadata: {'',
           U ''        service: 'PredictiveEngineService','',
           U ''        operation: 'detectProjectRisks','',
           U ''        error: error instanceof Error ? error.message : String(error),'',
           U ''        stack: error instanceof Error ? error.stack : undefined'',
           U ''      }'',
           U ''    });'']),
      (Lit (U ''console.log('[PredictiveEngine] Cache hit pour recommendations');''),
       ulines
          [U ''logger.info('Cache hit', {'',
           U ''      metadata: {'',
           U ''        service: 'PredictiveEngineService','',
           U ''        operation: 'generateBusinessRecommendations','',
           U ''        cacheHit: true'',
           U ''      }'',
           U ''    });'']),
      (Lit (U ''console.log('[PredictiveEngine] G'' @ [233] @ U ''n'' @ [233] @ U ''ration recommandations business:', context);''),
       ulines
          [U ''logger.info('G'' @ [233] @ U ''n'' @ [233] @ U ''ration recommandations business', {'',
           U ''      metadata: {'',
           U ''        service: 'PredictiveEngineService','',
           U ''        operation: 'generateBusinessRecommendations','',
           U ''        context'',
           U ''      }'',
           U ''    });'']),
      (Lit (U ''console.log('[PredictiveEngine] Recommandations g'' @ [233] @ U ''n'' @ [233] @ U ''r'' @ [233] @ U ''es:', filteredRecs.length, 'actions');''),
       ulines
          [U ''logger.info('Recommandations g'' @ [233] @ U ''n'' @ [233] @ U ''r'' @ [233] @ U ''es', {'',
           U ''      metadata: {'',
           U ''        service: 'PredictiveEngineService','',
           U ''        operation: 'generateBusinessRecommendations','',
           U ''        recommendationsCount: filteredRecs.length'',
           U ''      }'',
           U ''    });'']),
      (Lit (U ''console.error('[PredictiveEngine] Erreur g'' @ [233] @ U ''n'' @ [233] @ U ''ration recommandations:', error);''),
       ulines
          [U ''logger.error('Erreur g'' @ [233] @ U ''n'' @ [233] @ U ''ration recommandations', {'',
           U ''      metadata: {'',
           U ''        service: 'PredictiveEngineService','',
           U ''        operation: 'generateBusinessRecommendations','',
           U ''        error: error instanceof Error ? error.message : String(error),'',
           U ''        stack: error instanceof Error ? error.stack : undefined'',
           U ''      }'',
           U ''    });'']),
      (Lit (U ''console.error('[PredictiveEngine] Erreur r'' @ [233] @ U ''cup'' @ [233] @ U ''ration KPIs:', error);''),
       ulines
          [U ''logger.error('Erreur r'' @ [233] @ U ''cup'' @ [233] @ U ''ration KPIs', {'',
           U ''      metadata: {'',
           U ''        service: 'PredictiveEngineService','',
           U ''        operation: 'getCurrentKPIs','',
           U ''        error: error instanceof Error ? error.message : String(error),'',
           U ''        stack: error instanceof Error ? error.stack : undefined'',
           U ''      }'',
           U ''    });'']),
      (Lit (U ''console.error('[PredictiveEngine] Erreur r'' @ [233] @ U ''cup'' @ [233] @ U ''ration benchmarks:', error);''),
       ulines
          [U ''logger.error('Erreur r'' @ [233] @ U ''cup'' @ [233] @ U ''ration benchmarks', {'',
           U ''      metadata: {'',
           U ''        service: 'PredictiveEngineService','',
           U ''        operation: 'getIndustryBenchmarks','',
           U ''        error: error instanceof Error ? error.message : String(error),'',
           U ''        stack: error instanceof Error ? error.stack : undefined'',
           U ''      }'',
           U ''    });'']),
      (Lit (U ''console.error('[PredictiveEngine] Erreur recommandations planning:', error);''),
       ulines
          [U ''logger.error('Erreur recommandations planning', {'',
           U ''      metadata: {'',
           U ''        service: 'PredictiveEngineService','',
           U ''        operation: 'generatePlanningRecommendations','',
           U ''        error: error instanceof Error ? error.message : String(error),'',
           U ''        stack: error instanceof Error ? error.stack : undefined'',
           U ''      }'',
           U ''    });'']),
      (Lit (U ''console.log(`[PredictiveEngine] Cache hit pour ${key} (${entry.hit_count} hits)`);''),
       ulines
          [U ''logger.info('Cache hit', {'',
           U ''      metadata: {'',
           U ''        service: 'PredictiveEngineService','',
           U ''        operation: 'getCachedEntry','',
           U ''        cacheKey: key,'',
           U ''        hitCount: entry.hit_count'',
           U ''      }'',
           U ''    });'']),
      (Lit (U ''console.log(`[PredictiveEngine] Cache set pour ${key} (TTL: ${ttlMinutes}min)`);''),
       ulines
          [U ''logger.info('Cache set', {'',
           U ''      metadata: {'',
           U ''        service: 'PredictiveEngineService','',
           U ''        operation: 'setCacheEntry','',
           U ''        cacheKey: key,'',
           U ''        ttlMinutes'',
           U ''      }'',
           U ''    });'']),
      (Lit (U ''console.log(`[PredictiveEngine] Cache cleanup: ${deletedCount} entr'' @ [233] @ U ''es supprim'' @ [233] @ U ''es`);''),
       ulines
          [U ''logger.info('Cache cleanup', {'',
           U ''      metadata: {'',
           U ''        service: 'PredictiveEngineService','',
           U ''        operation: 'cleanupCache','',
           U ''        deletedCount'',
           U ''      }'',
           U ''    });''])]\<close>

text \<open>The calls of \<open>re.sub\<close> after the loop in \<open>migrate_predictive_engine\<close> (\<open>migrate_remaining_services.py\<close>), in their order.\<close>

definition predictive_engine_subs :: "(regex \<times> ustr) list" where
  \<open>predictive_engine_subs =
     [(Lit (U ''console.log('[PredictiveEngine] G'' @ [233] @ U ''n'' @ [233] @ U ''ration heat-map entit'' @ [233] @ U ''s...');''),
       ulines
          [U ''logger.info('G'' @ [233] @ U ''n'' @ [233] @ U ''ration heat-map entit'' @ [233] @ U ''s', {'',
           U ''      metadata: {'',
           U ''        service: 'PredictiveEngineService','',
           U ''        operation: 'generateEntityHeatMap'' @ [39],
           U ''      }'',
           U ''    });'']),
      (Lit (U ''console.log('[PredictiveEngine] Cache hit pour entity heatmap');''),
       ulines
          [U ''logger.info('Cache hit pour entity heatmap', {'',
           U ''      metadata: {'',
           U ''        service: 'PredictiveEngineService','',
           U ''        operation: 'generateEntityHeatMap','',
           U ''        cacheHit: true'',
           U ''      }'',
           U ''    });'']),
      (Lit (U ''console.log(`[PredictiveEngine] Heat-map g'' @ [233] @ U ''n'' @ [233] @ U ''r'' @ [233] @ U ''e: ${hotEntities.length} entit'' @ [233] @ U ''s chaudes, ${coldEntities.length} froides`);''),
       ulines
          [U ''logger.info('Heat-map g'' @ [233] @ U ''n'' @ [233] @ U ''r'' @ [233] @ U ''e', {'',
           U ''      metadata: {'',
           U ''        service: 'PredictiveEngineService','',
           U ''        operation: 'generateEntityHeatMap','',
           U ''        hotEntitiesCount: hotEntities.length,'',
           U ''        coldEntitiesCount: coldEntities.length'',
           U ''      }'',
           U ''    });'']),
      (Lit (U ''console.error('[PredictiveEngine] Erreur g'' @ [233] @ U ''n'' @ [233] @ U ''ration heat-map:', error);''),
       ulines
          [U ''logger.error('Erreur g'' @ [233] @ U ''n'' @ [233] @ U ''ration heat-map', {'',
           U ''      metadata: {'',
           U ''        service: 'PredictiveEngineService','',
           U ''        operation: 'generateEntityHeatMap','',
           U ''        error: error instanceof Error ? error.message : String(error),'',
           U ''        stack: error instanceof Error ? error.stack : undefined'',
           U ''      }'',
           U ''    });'']),
      (Lit (U ''console.log('[PredictiveEngine] Pr'' @ [233] @ U ''diction acc'' @ [232] @ U ''s entit'' @ [233] @ U ''s pour utilisateur:', userId);''),
       ulines
          [U ''logger.info('Pr'' @ [233] @ U ''diction acc'' @ [232] @ U ''s entit'' @ [233] @ U ''s', {'',
           U ''      metadata: {'',
           U ''        service: 'PredictiveEngineService','',
           U ''        operation: 'predictNextEntityAccess','',
           U ''        userId'',
           U ''      }'',
           U ''    });'']),
      (Lit (U ''console.log(`[PredictiveEngine] ${filteredPredictions.length} pr'' @ [233] @ U ''dictions g'' @ [233] @ U ''n'' @ [233] @ U ''r'' @ [233] @ U ''es (confiance '' @ [8805] @ U ''${this.PRELOADING_CONFIDENCE_THRESHOLD}%)`);''),
       ulines
          [U ''logger.info('Pr'' @ [233] @ U ''dictions g'' @ [233] @ U ''n'' @ [233] @ U ''r'' @ [233] @ U ''es', {'',
           U ''      metadata: {'',
           U ''        service: 'PredictiveEngineService','',
           U ''        operation: 'predictNextEntityAccess','',
           U ''        predictionsCount: filteredPredictions.length,'',
           U ''        confidenceThreshold: this.PRELOADING_CONFIDENCE_THRESHOLD'',
           U ''      }'',
           U ''    });'']),
      (Lit (U ''console.error('[PredictiveEngine] Erreur pr'' @ [233] @ U ''diction acc'' @ [232] @ U ''s:', error);''),
       ulines
          [U ''logger.error('Erreur pr'' @ [233] @ U ''diction acc'' @ [232] @ U ''s', {'',
           U ''      metadata: {'',
           U ''        service: 'PredictiveEngineService','',
           U ''        operation: 'predictNextEntityAccess','',
           U ''        error: error instanceof Error ? error.message : String(error),'',
           U ''        stack: error instanceof Error ? error.stack : undefined'',
           U ''      }'',
           U ''    });'']),
      (Lit (U ''console.log('[PredictiveEngine] Preloading d'' @ [233] @ U ''sactiv'' @ [233] @ U '' ou ContextCache non disponible');''),
       ulines
          [U ''logger.info('Preloading d'' @ [233] @ U ''sactiv'' @ [233] @ U '' ou ContextCache non disponible', {'',
           U ''      metadata: {'',
           U ''        service: 'PredictiveEngineService','',
           U ''        operation: 'schedulePreloadTasks'' @ [39],
           U ''      }'',
           U ''    });'']),
      (Lit (U ''console.log('[PredictiveEngine] Programmation t'' @ [226] @ U ''ches preloading pour', predictions.length, 'pr'' @ [233] @ U ''dictions');''),
       ulines
          [U ''logger.info('Programmation t'' @ [226] @ U ''ches preloading', {'',
           U ''      metadata: {'',
           U ''        service: 'PredictiveEngineService','',
           U ''        operation: 'schedulePreloadTasks','',
           U ''        predictionsCount: predictions.length'',
           U ''      }'',
           U ''    });'']),
      (Lit (U ''console.log(`[PredictiveEngine] ${newTasks.length} nouvelles t'' @ [226] @ U ''ches programm'' @ [233] @ U ''es`);''),
       ulines
          [U ''logger.info('Nouvelles t'' @ [226] @ U ''ches programm'' @ [233] @ U ''es', {'',
           U ''      metadata: {'',
           U ''        service: 'PredictiveEngineService','',
           U ''        operation: 'schedulePreloadTasks','',
           U ''        newTasksCount: newTasks.length'',
           U ''      }'',
           U ''    });'']),
      (Lit (U ''console.error('[PredictiveEngine] Erreur programmation t'' @ [226] @ U ''ches preloading:', error);''),
       ulines
          [U ''logger.error('Erreur programmation t'' @ [226] @ U ''ches preloading', {'',
           U ''      metadata: {'',
           U ''        service: 'PredictiveEngineService','',
           U ''        operation: 'schedulePreloadTasks','',
           U ''        error: error instanceof Error ? error.message : String(error),'',
           U ''        stack: error instanceof Error ? error.stack : undefined'',
           U ''      }'',
           U ''    });'']),
      (Lit (U ''console.log('[PredictiveEngine] Int'' @ [233] @ U ''gration ContextCacheService activ'' @ [233] @ U ''e pour preloading');''),
       ulines
          [U ''logger.info('Int'' @ [233] @ U ''gration ContextCacheService activ'' @ [233] @ U ''e', {'',
           U ''      metadata: {'',
           U ''        service: 'PredictiveEngineService','',
           U ''        operation: 'integrateWithContextCache'' @ [39],
           U ''      }'',
           U ''    });''])]\<close>

text \<open>The text \<open>migrate_predictive_engine\<close> writes for the text it has read.\<close>

definition migrate_predictive_engine_text :: "ustr \<Rightarrow> ustr" where
  "migrate_predictive_engine_text content = apply_replacements predictive_engine_subs (apply_replacements predictive_engine_replacements content)"

definition migrate_predictive_engine :: "world \<Rightarrow> error + bool \<times> world" where
  "migrate_predictive_engine w0 =
     (let w = print (Migrating ''PredictiveEngineService.ts'') w0 in
      case read_file ''server/services/PredictiveEngineService.ts'' w of
        Inl e \<Rightarrow> Inl e
      | Inr content \<Rightarrow>
          if \<not> contains logger_import content then
            Inr (False, print (Logger_not_imported ''PredictiveEngineService.ts'') w)
          else Inr (True, print (Migrated ''PredictiveEngineService.ts'') (write_file ''server/services/PredictiveEngineService.ts'' (migrate_predictive_engine_text content) w)))"

text \<open>The table \<open>replacements\<close> of \<open>migrate_sql_engine\<close> (\<open>migrate_remaining_services.py\<close>).\<close>

definition sql_engine_replacements :: "(regex \<times> ustr) list" where
  \<open>sql_engine_replacements =
     [(Lit (U ''console.log(`[SQLEngine] D'' @ [233] @ U ''marrage requ'' @ [234] @ U ''te ${queryId} pour utilisateur ${request.userId}`);''),
       ulines
          [U ''logger.info('D'' @ [233] @ U ''marrage requ'' @ [234] @ U ''te', {'',
           U ''      metadata: {'',
           U ''        service: 'SQLEngineService','',
           U ''        operation: 'executeNaturalLanguageQuery','',
           U ''        queryId,'',
           U ''        userId: request.userId'',
           U ''      }'',
           U ''    });'']),
      (Lit (U ''console.log(`[SQLEngine] ========================================`);''),
       []),
      (Lit (U ''console.log(`[SQLEngine] SQL G'' @ [201] @ U ''N'' @ [201] @ U ''R'' @ [201] @ U '' PAR L'IA (longueur: ${generatedSQL.length} chars):`);''),
       ulines
          [U ''logger.info('SQL g'' @ [233] @ U ''n'' @ [233] @ U ''r'' @ [233] @ U '' par l'' @ [92, 39] @ U ''IA', {'',
           U ''      metadata: {'',
           U ''        service: 'SQLEngineService','',
           U ''        operation: 'executeNaturalLanguageQuery','',
           U ''        sqlLength: generatedSQL.length,'',
           U ''        queryId'',
           U ''      }'',
           U ''    });'']),
      (Lit (U ''console.log(`[SQLEngine] ${generatedSQL}`);''),
       ulines
          [U ''logger.info('SQL query', {'',
           U ''      metadata: {'',
           U ''        service: 'SQLEngineService','',
           U ''        operation: 'executeNaturalLanguageQuery','',
           U ''        sql: generatedSQL,'',
           U ''        queryId'',
           U ''      }'',
           U ''    });'']),
      (Lit (U ''console.error(`[SQLEngine] Erreur requ'' @ [234] @ U ''te ${queryId}:`, error);''),
       ulines
          [U ''logger.error('Erreur requ'' @ [234] @ U ''te', {'',
           U ''      metadata: {'',
           U ''        service: 'SQLEngineService','',
           U ''        operation: 'executeNaturalLanguageQuery','',
           U ''        queryId,'',
           U ''        error: error instanceof Error ? error.message : String(error),'',
           U ''        stack: error instanceof Error ? error.stack : undefined'',
           U ''      }'',
           U ''    });'']),
      (Lit (U ''console.log(`[SQLEngine] G'' @ [233] @ U ''n'' @ [233] @ U ''ration contexte intelligent pour ${request.userId} (${request.userRole})`);''),
       ulines
          [U ''logger.info('G'' @ [233] @ U ''n'' @ [233] @ U ''ration contexte intelligent', {'',
           U ''      metadata: {'',
           U ''        service: 'SQLEngineService','',
           U ''        operation: 'generateIntelligentContext','',
           U ''        userId: request.userId,'',
           U ''        userRole: request.userRole'',
           U ''      }'',
           U ''    });'']),
      (Lit (U ''console.error(`[SQLEngine] Erreur g'' @ [233] @ U ''n'' @ [233] @ U ''ration contexte intelligent:`, error);''),
       ulines
          [U ''logger.error('Erreur g'' @ [233] @ U ''n'' @ [233] @ U ''ration contexte intelligent', {'',
           U ''      metadata: {'',
           U ''        service: 'SQLEngineService','',
           U ''        operation: 'generateIntelligentContext','',
           U ''        error: error instanceof Error ? error.message : String(error),'',
           U ''        stack: error instanceof Error ? error.stack : undefined'',
           U ''      }'',
           U ''    });'']),
      (Lit (U ''console.log(`[SQLSecurity] Validation SQL pour ${userId} (${userRole})`);''),
       ulines
          [U ''logger.info('Validation SQL', {'',
           U ''      metadata: {'',
           U ''        service: 'SQLEngineService','',
           U ''        operation: 'validateSQL','',
           U ''        userId,'',
           U ''        userRole'',
           U ''      }'',
           U ''    });'']),
      (Lit (U ''console.log(`[SQLSecurity] SQL '' @ [224] @ U '' valider: ${sql.substring(0, 200)}${sql.length > 200 ? '...': '' @ [39, 39] @ U ''}`);''),
       ulines
          [U ''logger.info('SQL '' @ [224] @ U '' valider', {'',
           U ''      metadata: {'',
           U ''        service: 'SQLEngineService','',
           U ''        operation: 'validateSQL','',
           U ''        sqlPreview: sql.substring(0, 200) + (sql.length > 200 ? '...' : '' @ [39, 39] @ U '')'',
           U ''      }'',
           U ''    });'']),
      (Lit (U ''console.log(`[SQLSecurity] '' @ [10003] @ U '' SQL nettoy'' @ [233] @ U '' (${cleanedSQL.length} chars): ${cleanedSQL.substring(0, 150)}${cleanedSQL.length > 150 ? '...': '' @ [39, 39] @ U ''}`);''),
       ulines
          [U ''logger.info('SQL nettoy'' @ [233, 39] @ U '', {'',
           U ''      metadata: {'',
           U ''        service: 'SQLEngineService','',
           U ''        operation: 'validateSQL','',
           U ''        cleanedSQLLength: cleanedSQL.length,'',
           U ''        cleanedSQLPreview: cleanedSQL.substring(0, 150) + (cleanedSQL.length > 150 ? '...' : '' @ [39, 39] @ U '')'',
           U ''      }'',
           U ''    });'']),
      (Lit (U ''console.warn(`[SQLSecurity] Erreur nettoyage SQL, utilisation SQL brut: ${cleanError}`);''),
       ulines
          [U ''logger.warn('Erreur nettoyage SQL, utilisation SQL brut', {'',
           U ''      metadata: {'',
           U ''        service: 'SQLEngineService','',
           U ''        operation: 'validateSQL','',
           U ''        cleanError'',
           U ''      }'',
           U ''    });'']),
      (Lit (U ''console.log(`[SQLSecurity] '' @ [201] @ U ''tape 1: Parsing AST avec node-sql-parser...`);''),
       ulines
          [U ''logger.info('Parsing AST', {'',
           U ''      metadata: {'',
           U ''        service: 'SQLEngineService','',
           U ''        operation: 'validateSQL','',
           U ''        step: 1'',
           U ''      }'',
           U ''    });'']),
      (Lit (U ''console.log(`[SQLSecurity] '' @ [10003] @ U '' Parsing AST r'' @ [233] @ U ''ussi`);''),
       ulines
          [U ''logger.info('Parsing AST r'' @ [233] @ U ''ussi', {'',
           U ''      metadata: {'',
           U ''        service: 'SQLEngineService','',
           U ''        operation: 'validateSQL'' @ [39],
           U ''      }'',
           U ''    });'']),
      (Lit (U ''console.log(`[SQLSecurity] '' @ [201] @ U ''tape 2: V'' @ [233] @ U ''rification READ-ONLY (${astArray.length} statement(s))...`);''),
       ulines
          [U ''logger.info('V'' @ [233] @ U ''rification READ-ONLY', {'',
           U ''      metadata: {'',
           U ''        service: 'SQLEngineService','',
           U ''        operation: 'validateSQL','',
           U ''        step: 2,'',
           U ''        statementsCount: astArray.length'',
           U ''      }'',
           U ''    });'']),
      (Lit (U ''console.log(`[SQLSecurity] '' @ [10007] @ U '' ${violation}`);''),
       ulines
          [U ''logger.warn('Violation s'' @ [233] @ U ''curit'' @ [233] @ U '' SQL', {'',
           U ''      metadata: {'',
           U ''        service: 'SQLEngineService','',
           U ''        operation: 'validateSQL','',
           U ''        violation'',
           U ''      }'',
           U ''    });'']),
      (Lit (U ''console.log(`[SQLSecurity] '' @ [10003] @ U '' Statement type: SELECT`);''),
       ulines
          [U ''logger.info('Statement type: SELECT', {'',
           U ''      metadata: {'',
           U ''        service: 'SQLEngineService','',
           U ''        operation: 'validateSQL'' @ [39],
           U ''      }'',
           U ''    });'']),
      (Lit (U ''console.log(`[SQLSecurity] '' @ [201] @ U ''tape 3: Validation des tables...`);''),
       ulines
          [U ''logger.info('Validation des tables', {'',
           U ''      metadata: {'',
           U ''        service: 'SQLEngineService','',
           U ''        operation: 'validateSQL','',
           U ''        step: 3'',
           U ''      }'',
           U ''    });'']),
      (Lit (U ''console.log(`[SQLSecurity] Tables extraites: [${tablesInQuery.join(', ')}]`);''),
       ulines
          [U ''logger.info('Tables extraites', {'',
           U ''      metadata: {'',
           U ''        service: 'SQLEngineService','',
           U ''        operation: 'validateSQL','',
           U ''        tables: tablesInQuery.join(', ')'',
           U ''      }'',
           U ''    });'']),
      (Lit (U ''console.log(`[SQLSecurity] '' @ [10003] @ U '' Table autoris'' @ [233] @ U ''e: ${tableName}`);''),
       ulines
          [U ''logger.info('Table autoris'' @ [233] @ U ''e', {'',
           U ''      metadata: {'',
           U ''        service: 'SQLEngineService','',
           U ''        operation: 'validateSQL','',
           U ''        tableName'',
           U ''      }'',
           U ''    });''])]\<close>

text \<open>The calls of \<open>re.sub\<close> after the loop in \<open>migrate_sql_engine\<close> (\<open>migrate_remaining_services.py\<close>), in their order.\<close>

definition sql_engine_subs :: "(regex \<times> ustr) list" where
  \<open>sql_engine_subs =
     [(Seq [Lit [10], Rep Greedy 0 Space, Lit [10], Rep Greedy 0 Space, Lit [10]],
       ulines
          [[],
           [],
           []])]\<close>

text \<open>The text \<open>migrate_sql_engine\<close> writes for the text it has read.\<close>

definition migrate_sql_engine_text :: "ustr \<Rightarrow> ustr" where
  "migrate_sql_engine_text content = apply_replacements sql_engine_subs (apply_replacements sql_engine_replacements content)"

definition migrate_sql_engine :: "world \<Rightarrow> error + bool \<times> world" where
  "migrate_sql_engine w0 =
     (let w = print (Migrating ''SQLEngineService.ts'') w0 in
      case read_file ''server/services/SQLEngineService.ts'' w of
        Inl e \<Rightarrow> Inl e
      | Inr content \<Rightarrow>
          if \<not> contains logger_import content then
            Inr (False, print (Logger_not_imported ''SQLEngineService.ts'') w)
          else Inr (True, print (Migrated ''SQLEngineService.ts'') (write_file ''server/services/SQLEngineService.ts'' (migrate_sql_engine_text content) w)))"

subsection \<open>The verification steps\<close>

definition services :: "string list" where
  "services =
     [''server/services/emailService.ts'',
      ''server/services/PredictiveEngineService.ts'',
      ''server/services/SQLEngineService.ts'']"

text \<open>
  The loop of \<open>verify\<close> and of \<open>verify_migrations\<close>:
  \<^verbatim>\<open>
  for service in services:
      with open(service, 'r', encoding='utf-8') as f:
          content = f.read()
          console_count = len(re.findall(r'console\.', content))
          if console_count == 0:
              print(...)
          else:
              print(...)
              all_success = False
  \<close>
\<close>

fun verify_loop :: "string list \<Rightarrow> bool \<Rightarrow> world \<Rightarrow> error + bool \<times> world" where
  "verify_loop [] all_success w = Inr (all_success, w)"
| "verify_loop (service # rest) all_success w =
     (case read_file service w of
        Inl e \<Rightarrow> Inl e
      | Inr content \<Rightarrow>
          let console_count = findall_count console_re content in
          if console_count = 0 then
            verify_loop rest all_success (print (No_console_left service) w)
          else
            verify_loop rest False (print (Console_left service console_count) w))"

text \<open>\<open>verify\<close> of \<open>migrate_remaining_console.py\<close>.\<close>

definition verify :: "world \<Rightarrow> error + bool \<times> world" where
  "verify w = verify_loop services True w"

text \<open>\<open>verify_migrations\<close> of \<open>migrate_remaining_services.py\<close>.\<close>

definition verify_migrations :: "world \<Rightarrow> error + bool \<times> world" where
  "verify_migrations w = verify_loop services True (print Verifying w)"

text \<open>
  The main parts of the two scripts. \<open>migrate_remaining_services.py\<close> ends with
  \<open>sys.exit(0)\<close> when the verification has succeeded, and with \<open>sys.exit(1)\<close> when it has
  not or when a migration has failed; the result carries the exit status.
\<close>

definition main_remaining_console :: "world \<Rightarrow> error + world" where
  "main_remaining_console w0 =
     (case migrate_remaining_email (print Starting w0) of
        Inl e \<Rightarrow> Inl e
      | Inr w1 \<Rightarrow>
          (case migrate_remaining_predictive w1 of
             Inl e \<Rightarrow> Inl e
           | Inr w2 \<Rightarrow>
               (case migrate_remaining_sql w2 of
                  Inl e \<Rightarrow> Inl e
                | Inr w3 \<Rightarrow>
                    (case verify (print Verifying w3) of
                       Inl e \<Rightarrow> Inl e
                     | Inr (ok, w4) \<Rightarrow>
                         Inr (print (if ok then All_migrated else Some_left) w4)))))"

definition main_remaining_services :: "world \<Rightarrow> error + nat \<times> world" where
  "main_remaining_services w0 =
     (case migrate_email_service (print Starting w0) of
        Inl e \<Rightarrow> Inl e
      | Inr (ok1, w1) \<Rightarrow>
          (case migrate_predictive_engine w1 of
             Inl e \<Rightarrow> Inl e
           | Inr (ok2, w2) \<Rightarrow>
               (case migrate_sql_engine w2 of
                  Inl e \<Rightarrow> Inl e
                | Inr (ok3, w3) \<Rightarrow>
                    let success = ok1 \<and> ok2 \<and> ok3 in
                    if success then
                      (case verify_migrations w3 of
                         Inl e \<Rightarrow> Inl e
                       | Inr (ok, w4) \<Rightarrow>
                           if ok then Inr (0, print All_migrated w4)
                           else Inr (1, print Some_left w4))
                    else Inr (1, print Migration_failed w3))))"



section \<open>Facts about substitution\<close>

text \<open>
  The engine of the contract \<open>rewrite(documentText, rules) -> (newText, changeCount)\<close>:
  the loop of the migration scripts, with the number of substitutions made (what
  \<open>re.subn\<close> reports) added up. The migration scripts themselves keep no count; the text
  \<open>rewrite\<close> returns is the text \<open>apply_replacements\<close> returns.
\<close>

fun rewrite :: "(regex \<times> ustr) list \<Rightarrow> ustr \<Rightarrow> ustr \<times> nat" where
  "rewrite [] doc = (doc, 0)"
| "rewrite ((pattern, replacement) # rules) doc =
     (case re_subn pattern replacement doc of
        (doc', n) \<Rightarrow> (case rewrite rules doc' of (doc'', m) \<Rightarrow> (doc'', n + m)))"

lemma rewrite_text: "fst (rewrite rules doc) = apply_replacements rules doc"
  by (induction rules doc rule: rewrite.induct) (auto simp: re_sub_def split: prod.splits)

lemma matches_no_match: "scan r adv p s = None \<Longrightarrow> matches r adv p s = ([], s)"
  by (subst matches.simps) simp

lemma re_subn_no_match: "re_search r s = None \<Longrightarrow> re_subn r new s = (s, 0)"
  by (simp add: re_search_def re_subn_def matches_no_match)

lemma re_sub_no_match: "re_search r s = None \<Longrightarrow> re_sub r new s = s"
  by (simp add: re_sub_def re_subn_no_match)

lemma re_sub_fn_no_match: "re_search r s = None \<Longrightarrow> re_sub_fn r f s st = Inr (s, st)"
  by (simp add: re_search_def re_sub_fn_def matches_no_match)

lemma findall_no_match: "re_search r s = None \<Longrightarrow> findall_count r s = 0"
  by (simp add: re_search_def findall_count_def matches_no_match)

lemma rewrite_no_match:
  "\<forall>(pattern, replacement) \<in> set rules. re_search pattern doc = None \<Longrightarrow>
     rewrite rules doc = (doc, 0)"
  by (induction rules) (auto simp: re_subn_no_match)

lemma apply_replacements_append:
  "apply_replacements (rules1 @ rules2) doc =
     apply_replacements rules2 (apply_replacements rules1 doc)"
  by (induction rules1 doc rule: apply_replacements.induct) simp_all

lemmas sub_defs = re_sub_def re_subn_def re_sub_fn_def findall_count_def matches.simps ulines_def

lemma apply_no_match:
  "\<forall>(pattern, replacement) \<in> set rules. re_search pattern doc = None \<Longrightarrow>
     apply_replacements rules doc = doc"
  using rewrite_no_match [of rules doc] rewrite_text [of rules doc] by simp

lemma files_print [simp]: "files (print msg w) = files w"
  by (simp add: print_def)

lemma written_print [simp]: "written (print msg w) = written w"
  by (simp add: print_def)

lemma files_write [simp]: "files (write_file path doc w) = (files w)(path \<mapsto> doc)"
  by (simp add: write_file_def)

lemma written_write [simp]: "written (write_file path doc w) = written w @ [(path, doc)]"
  by (simp add: write_file_def)

lemma read_file_print [simp]: "read_file path (print msg w) = read_file path w"
  by (simp add: read_file_def)

lemma matches_nil: "matches r adv p s = ([], rest) \<Longrightarrow> rest = s"
  by (subst (asm) matches.simps) (auto split: option.splits prod.splits)

lemma sub_calls_count:
  fixes f :: "rmatch \<Rightarrow> nat \<Rightarrow> error + ustr \<times> nat"
  assumes "\<And>m n out n'. f m n = Inr (out, n') \<Longrightarrow> n' = n + 1"
  shows "sub_calls f ps n = Inr (out, n') \<Longrightarrow> n' = n + length ps"
proof (induction ps arbitrary: n out)
  case Nil
  then show ?case by simp
next
  case (Cons x ps)
  obtain pre m where x: "x = (pre, m)" by (cases x) auto
  from Cons.prems x obtain new n1 out1 where
    f: "f m n = Inr (new, n1)" and r: "sub_calls f ps n1 = Inr (out1, n')"
    by (auto split: sum.splits prod.splits)
  from assms [OF f] Cons.IH [OF r] show ?case by simp
qed

lemma re_sub_fn_count:
  fixes f :: "rmatch \<Rightarrow> nat \<Rightarrow> error + ustr \<times> nat"
  assumes "\<And>m n out n'. f m n = Inr (out, n') \<Longrightarrow> n' = n + 1"
    and "re_sub_fn r f s n = Inr (out, n')"
  shows "n \<le> n' \<and> (n' = n \<longrightarrow> out = s)"
proof -
  obtain ps rest where ma: "matches r False 0 s = (ps, rest)" by (cases "matches r False 0 s") auto
  with assms(2) obtain out1 where c: "sub_calls f ps n = Inr (out1, n')" and o: "out = out1 @ rest"
    by (auto simp: re_sub_fn_def split: sum.splits prod.splits)
  from sub_calls_count [OF assms(1) c] have n': "n' = n + length ps" by simp
  have "out = s" if "n' = n"
  proof -
    from that n' have "ps = []" by simp
    with ma c o matches_nil [of r False 0 s rest] show ?thesis by simp
  qed
  with n' show ?thesis by simp
qed

lemma replace_func_counts:
  "replace_func m n = Inr (out, n') \<Longrightarrow> n' = n + 1"
  "replace_func1 m n = Inr (out, n') \<Longrightarrow> n' = n + 1"
  "replace_func2 m n = Inr (out, n') \<Longrightarrow> n' = n + 1"
  by (auto simp: replace_func_def replace_func1_def replace_func2_def Let_def split: option.splits)

lemma facade_final_count:
  assumes "facade_final_text doc = Inr (content, 0)"
  shows "content = doc"
proof -
  from assms obtain c1 n1 where 1: "re_sub_fn pattern1 replace_func1 doc 0 = Inr (c1, n1)"
    and 2: "re_sub_fn pattern2 replace_func2 c1 n1 = Inr (content, 0)"
    by (auto simp: facade_final_text_def split: sum.splits prod.splits)
  from re_sub_fn_count [OF replace_func_counts(3) 2] have "n1 = 0" "content = c1" by simp_all
  with re_sub_fn_count [OF replace_func_counts(2) 1] show ?thesis by simp
qed

lemmas migrate_text_defs = migrate_context_cache_text_def migrate_remaining_email_text_def
  migrate_remaining_predictive_text_def migrate_remaining_sql_text_def
  migrate_email_service_text_def migrate_predictive_engine_text_def migrate_sql_engine_text_def
  blank_lines_re_def console_re_def logger_import_def


section \<open>Properties of the scripts that rewrite with patterns\<close>

text \<open>Texts and worlds used as inputs below.\<close>

definition quiet :: ustr where
  "quiet = U ''const x = 1;\<newline>''"



definition console_line :: ustr where
  "console_line =
     U ''console.error('[PredictiveEngine] Erreur r'' @ [233] @ U ''cup'' @ [233] @
     U ''ration historique revenues:', error);''"

definition logger_call :: ustr where
  "logger_call =
     ulines
       [U ''logger.error('Erreur r'' @ [233] @ U ''cup'' @ [233] @ U ''ration historique revenues', {'',
        U ''      metadata: {'',
        U ''        service: 'PredictiveEngineService','',
        U ''        operation: 'getMonthlyRevenueHistory','',
        U ''        error: error instanceof Error ? error.message : String(error),'',
        U ''        stack: error instanceof Error ? error.stack : undefined'',
        U ''      }'',
        U ''    });'']"

definition loose_block :: ustr where
  "loose_block = U ''{metadata:{a}\<newline> }\<newline> );''"

definition open_block :: ustr where
  "open_block = U ''{metadata:{a\<newline> }\<newline> });''"

definition clean_block :: ustr where
  "clean_block =
     ulines [U ''{'', U ''        metadata: {'', U ''          a'', U ''        }'', U ''      });'']"

definition facade_world :: "ustr \<Rightarrow> world" where
  "facade_world doc = \<lparr>files = [file_path \<mapsto> doc], written = [], printed = []\<rparr>"

definition imported_world :: world where
  "imported_world =
     \<lparr>files = [''server/services/ContextCacheService.ts'' \<mapsto> logger_import],
      written = [], printed = []\<rparr>"

definition bare_world :: world where
  "bare_world = \<lparr>files = (\<lambda>path. Some quiet), written = [], printed = []\<rparr>"

definition unguarded_world :: world where
  "unguarded_world =
     \<lparr>files = [''server/services/PredictiveEngineService.ts'' \<mapsto> console_line],
      written = [], printed = []\<rparr>"

definition verify_world :: world where
  "verify_world =
     \<lparr>files = [''server/services/emailService.ts'' \<mapsto> quiet,
               ''server/services/PredictiveEngineService.ts'' \<mapsto> console_line,
               ''server/services/SQLEngineService.ts'' \<mapsto> []],
      written = [], printed = []\<rparr>"

definition clean_world :: world where
  "clean_world =
     \<lparr>files = [''server/services/emailService.ts'' \<mapsto> quiet,
               ''server/services/PredictiveEngineService.ts'' \<mapsto> logger_call,
               ''server/services/SQLEngineService.ts'' \<mapsto> []],
      written = [], printed = []\<rparr>"

text \<open>
  C2. A document in which no pattern of the rules matches comes back unchanged with a
  change count of 0: from the loop of the migration scripts (and so from
  \<open>migrate_remaining_sql\<close>, whose rules include the one that joins blank lines), from
  \<open>re.sub\<close> with \<open>replace_func\<close> in \<open>fix-storage-facade-python.py\<close>, whose counter stays
  0, and from the two substitutions of \<open>fix-storage-facade-final.py\<close>.
\<close>

theorem no_match_no_change:
  "((\<forall>(pattern, replacement) \<in> set rules. re_search pattern doc = None) \<longrightarrow>
      rewrite rules doc = (doc, 0) \<and> apply_replacements rules doc = doc) \<and>
   (re_search python_pattern doc = None \<longrightarrow>
      re_sub_fn python_pattern replace_func doc 0 = Inr (doc, 0)) \<and>
   (re_search pattern1 doc = None \<and> re_search pattern2 doc = None \<longrightarrow>
      facade_final_text doc = Inr (doc, 0))"
proof (intro conjI impI)
  assume none: "\<forall>(pattern, replacement) \<in> set rules. re_search pattern doc = None"
  then show "rewrite rules doc = (doc, 0)" by (rule rewrite_no_match)
  then have "fst (rewrite rules doc) = doc" by simp
  then show "apply_replacements rules doc = doc" by (simp add: rewrite_text)
next
  assume "re_search python_pattern doc = None"
  then show "re_sub_fn python_pattern replace_func doc 0 = Inr (doc, 0)"
    by (rule re_sub_fn_no_match)
next
  assume "re_search pattern1 doc = None \<and> re_search pattern2 doc = None"
  then show "facade_final_text doc = Inr (doc, 0)"
    by (simp add: facade_final_text_def re_sub_fn_no_match)
qed

lemma quiet_remaining_sql:
  "\<forall>(pattern, replacement) \<in> set remaining_sql_subs. re_search pattern quiet = None"
  by (simp add: remaining_sql_subs_def quiet_def re_search_def match_at_def text_defs ulines_def)

lemma quiet_facade:
  "re_search python_pattern quiet = None" "re_search pattern1 quiet = None"
  "re_search pattern2 quiet = None"
  by (simp_all add: python_pattern_def pattern1_def pattern2_def quiet_def re_search_def
      match_at_def text_defs)

theorem no_match_no_change_witness:
  "rewrite remaining_sql_subs quiet = (quiet, 0) \<and>
   migrate_remaining_sql_text quiet = quiet \<and>
   re_sub_fn python_pattern replace_func quiet 0 = Inr (quiet, 0) \<and>
   facade_final_text quiet = Inr (quiet, 0)"
  using no_match_no_change [of remaining_sql_subs quiet] quiet_remaining_sql quiet_facade
  by (simp add: migrate_remaining_sql_text_def)

text \<open>
  C5. The rules are applied in the order given, each to the text the rules before it have
  produced: applying a list of rules is applying its first part and then its second part
  to the result, the first rule is applied before all others, and in
  \<open>fix-storage-facade-final.py\<close> the substitution of \<open>pattern2\<close> works on the result of the
  substitution of \<open>pattern1\<close> (and goes on counting from its count).
\<close>

theorem rules_applied_in_order:
  "apply_replacements (rules1 @ rules2) doc =
     apply_replacements rules2 (apply_replacements rules1 doc) \<and>
   apply_replacements ((old, new) # rules) doc = apply_replacements rules (re_sub old new doc) \<and>
   facade_final_text doc =
     (case re_sub_fn pattern1 replace_func1 doc 0 of
        Inl e \<Rightarrow> Inl e
      | Inr (content, fixed_count) \<Rightarrow> re_sub_fn pattern2 replace_func2 content fixed_count)"
  by (simp add: apply_replacements_append facade_final_text_def)

text \<open>
  The example of the spec: rule \<open>A\<close> to \<open>X(Y)\<close>, then rule \<open>X(\<close> to \<open>Z(\<close>. On the text \<open>A\<close>
  the second rule alone finds nothing; after the first rule it does.
\<close>

theorem rules_applied_in_order_witness:
  "apply_replacements ([(Lit (U ''A''), U ''X(Y)'')] @ [(Lit (U ''X(''), U ''Z('')]) (U ''A'') = U ''Z(Y)'' \<and>
   apply_replacements [(Lit (U ''X(''), U ''Z('')] (U ''A'') = U ''A''"
  using rules_applied_in_order [of "[(Lit (U ''A''), U ''X(Y)'')]" "[(Lit (U ''X(''), U ''Z('')]" "U ''A''"]
  by (simp add: sub_defs match_at_def text_defs)







text \<open>
  C1, as the claim states it, fails. The migration functions keep no change count and
  write the file whenever the import of the logger is there: on a file that holds the
  import and nothing else no rule of \<open>migrate_context_cache\<close> matches, the number of
  substitutions is 0, and the file is written all the same (with the text it had).
\<close>

theorem write_counterexample:
  "rewrite context_cache_replacements logger_import = (logger_import, 0) \<and>
   migrate_context_cache imported_world =
     Inr \<lparr>files = [''server/services/ContextCacheService.ts'' \<mapsto> logger_import],
          written = [(''server/services/ContextCacheService.ts'', logger_import)],
          printed = [Migrated ''ContextCacheService.ts'']\<rparr>"
proof -
  have none: "\<forall>(pattern, replacement) \<in> set context_cache_replacements.
      re_search pattern logger_import = None"
    by (simp add: context_cache_replacements_def migrate_text_defs re_search_def
        match_at_def text_defs ulines_def)
  have 1: "rewrite context_cache_replacements logger_import = (logger_import, 0)"
    using none by (rule rewrite_no_match)
  have 2: "migrate_context_cache_text logger_import = logger_import"
    using apply_no_match [OF none] by (simp add: migrate_context_cache_text_def)
  have 3: "contains logger_import logger_import"
    by (simp add: logger_import_def U_def)
  show ?thesis
    by (simp add: 1 migrate_context_cache_def imported_world_def read_file_def 2 3
        print_def write_file_def)
qed

text \<open>
  Inputs for the three scripts: a text without anything to repair; the lines of
  \<open>aligned_example\<close>, in which the closing brace is written again as it was; a metadata
  block closed on the next lines, for each of the two \<open>fix-storage-facade\<close> scripts; and
  the block both write for it, in which \<open>pattern2\<close> matches again.
\<close>

lemmas facade_defs = python_pattern_def pattern1_def pattern2_def formatted_props_def
  replace_func_def replace_func1_def replace_func2_def facade_final_text_def Let_def

lemma loose_block_run: "re_sub_fn python_pattern replace_func loose_block 0 = Inr (clean_block, 1)"
  by (simp add: loose_block_def clean_block_def facade_defs sub_defs re_defs text_defs)

lemma open_block_run: "facade_final_text open_block = Inr (clean_block, 1)"
  by (simp add: open_block_def clean_block_def facade_defs sub_defs re_defs text_defs)

lemma clean_block_run: "facade_final_text clean_block = Inr (clean_block, 1)"
  by (simp add: clean_block_def facade_defs sub_defs re_defs text_defs)

lemma block_differs: "clean_block \<noteq> loose_block" "clean_block \<noteq> open_block"
  by (simp_all add: loose_block_def open_block_def clean_block_def ulines_def U_def)

lemma readlines_aligned: "readlines (concat aligned_example) = aligned_example"
  by (simp add: aligned_example_def text_defs)

text \<open>
  C1, amended. The three scripts that count their changes write nothing and leave the
  file as it is when the count is 0. \<open>fix-indentation-storage-facade.py\<close> writes exactly
  when \<open>fixed\<close> is positive, and then the lines it has produced. The two
  \<open>fix-storage-facade\<close> scripts write exactly when the text has changed, and then the new
  text: a count of 0 leaves the text as it was, a text that has not changed is not
  written whatever the count, and a text that has changed has a positive count. The seven
  migration functions write the rewritten text once they have read the file and, where
  they test for it, found the import of the logger.
\<close>

theorem write_only_on_change:
  "(files w file_path = Some doc \<and> repairIndentation (readlines doc) = Inr (new_lines, fixed) \<longrightarrow>
      (\<exists>w'. fix_indentation w = Inr w' \<and>
         (fixed = 0 \<longrightarrow> files w' = files w \<and> written w' = written w) \<and>
         (0 < fixed \<longrightarrow> files w' = (files w)(file_path \<mapsto> concat new_lines) \<and>
            written w' = written w @ [(file_path, concat new_lines)]))) \<and>
   (files w file_path = Some doc \<and>
    re_sub_fn python_pattern replace_func doc 0 = Inr (content, fixed_count) \<longrightarrow>
      (\<exists>w'. fix_storage_facade_python w = Inr w' \<and>
         (fixed_count = 0 \<longrightarrow> content = doc) \<and>
         (content = doc \<longrightarrow> files w' = files w \<and> written w' = written w) \<and>
         (content \<noteq> doc \<longrightarrow> 0 < fixed_count \<and> files w' = (files w)(file_path \<mapsto> content) \<and>
            written w' = written w @ [(file_path, content)]))) \<and>
   (files w file_path = Some doc \<and> facade_final_text doc = Inr (content, fixed_count) \<longrightarrow>
      (\<exists>w'. fix_storage_facade_final w = Inr w' \<and>
         (fixed_count = 0 \<longrightarrow> content = doc) \<and>
         (content = doc \<longrightarrow> files w' = files w \<and> written w' = written w) \<and>
         (content \<noteq> doc \<longrightarrow> 0 < fixed_count \<and> files w' = (files w)(file_path \<mapsto> content) \<and>
            written w' = written w @ [(file_path, content)]))) \<and>
   (files w ''server/services/ContextCacheService.ts'' = Some doc \<and> contains logger_import doc \<longrightarrow>
      (\<exists>w'. migrate_context_cache w = Inr w' \<and>
         written w' = written w @
           [(''server/services/ContextCacheService.ts'', migrate_context_cache_text doc)])) \<and>
   (files w ''server/services/emailService.ts'' = Some doc \<longrightarrow>
      (\<exists>w'. migrate_remaining_email w = Inr w' \<and>
         written w' = written w @
           [(''server/services/emailService.ts'', migrate_remaining_email_text doc)])) \<and>
   (files w ''server/services/PredictiveEngineService.ts'' = Some doc \<longrightarrow>
      (\<exists>w'. migrate_remaining_predictive w = Inr w' \<and>
         written w' = written w @
           [(''server/services/PredictiveEngineService.ts'', migrate_remaining_predictive_text doc)])) \<and>
   (files w ''server/services/SQLEngineService.ts'' = Some doc \<longrightarrow>
      (\<exists>w'. migrate_remaining_sql w = Inr w' \<and>
         written w' = written w @
           [(''server/services/SQLEngineService.ts'', migrate_remaining_sql_text doc)])) \<and>
   (files w ''server/services/emailService.ts'' = Some doc \<and> contains logger_import doc \<longrightarrow>
      (\<exists>w'. migrate_email_service w = Inr (True, w') \<and>
         written w' = written w @
           [(''server/services/emailService.ts'', migrate_email_service_text doc)])) \<and>
   (files w ''server/services/PredictiveEngineService.ts'' = Some doc \<and> contains logger_import doc \<longrightarrow>
      (\<exists>w'. migrate_predictive_engine w = Inr (True, w') \<and>
         written w' = written w @
           [(''server/services/PredictiveEngineService.ts'', migrate_predictive_engine_text doc)])) \<and>
   (files w ''server/services/SQLEngineService.ts'' = Some doc \<and> contains logger_import doc \<longrightarrow>
      (\<exists>w'. migrate_sql_engine w = Inr (True, w') \<and>
         written w' = written w @
           [(''server/services/SQLEngineService.ts'', migrate_sql_engine_text doc)]))"
proof (intro conjI impI)
  assume "files w file_path = Some doc \<and> repairIndentation (readlines doc) = Inr (new_lines, fixed)"
  then show "\<exists>w'. fix_indentation w = Inr w' \<and>
         (fixed = 0 \<longrightarrow> files w' = files w \<and> written w' = written w) \<and>
         (0 < fixed \<longrightarrow> files w' = (files w)(file_path \<mapsto> concat new_lines) \<and>
            written w' = written w @ [(file_path, concat new_lines)])"
    by (simp add: fix_indentation_def read_file_def)
next
  assume a: "files w file_path = Some doc \<and>
    re_sub_fn python_pattern replace_func doc 0 = Inr (content, fixed_count)"
  then have r: "re_sub_fn python_pattern replace_func doc 0 = Inr (content, fixed_count)" by simp
  from re_sub_fn_count [OF replace_func_counts(1) r]
  have "fixed_count = 0 \<longrightarrow> content = doc" by simp
  with a show "\<exists>w'. fix_storage_facade_python w = Inr w' \<and>
         (fixed_count = 0 \<longrightarrow> content = doc) \<and>
         (content = doc \<longrightarrow> files w' = files w \<and> written w' = written w) \<and>
         (content \<noteq> doc \<longrightarrow> 0 < fixed_count \<and> files w' = (files w)(file_path \<mapsto> content) \<and>
            written w' = written w @ [(file_path, content)])"
    by (auto simp: fix_storage_facade_python_def read_file_def)
next
  assume a: "files w file_path = Some doc \<and> facade_final_text doc = Inr (content, fixed_count)"
  with facade_final_count [of doc content] have "fixed_count = 0 \<longrightarrow> content = doc" by auto
  with a show "\<exists>w'. fix_storage_facade_final w = Inr w' \<and>
         (fixed_count = 0 \<longrightarrow> content = doc) \<and>
         (content = doc \<longrightarrow> files w' = files w \<and> written w' = written w) \<and>
         (content \<noteq> doc \<longrightarrow> 0 < fixed_count \<and> files w' = (files w)(file_path \<mapsto> content) \<and>
            written w' = written w @ [(file_path, content)])"
    by (auto simp: fix_storage_facade_final_def read_file_def)
qed (simp_all add: migrate_context_cache_def migrate_remaining_email_def
      migrate_remaining_predictive_def migrate_remaining_sql_def migrate_email_service_def
      migrate_predictive_engine_def migrate_sql_engine_def read_file_def Let_def)

lemma quiet_repair: "repairIndentation (readlines quiet) = Inr ([quiet], 0)"
  by (simp add: quiet_def repair_loop.simps text_defs re_defs indent_defs)

theorem write_only_on_change_witness:
  "(\<exists>w'. fix_indentation (facade_world quiet) = Inr w' \<and> files w' = files (facade_world quiet) \<and>
      written w' = []) \<and>
   (\<exists>w'. fix_indentation (facade_world (concat aligned_example)) = Inr w' \<and>
      written w' = [(file_path, concat aligned_example)]) \<and>
   (\<exists>w'. fix_storage_facade_python (facade_world quiet) = Inr w' \<and>
      files w' = files (facade_world quiet) \<and> written w' = []) \<and>
   (\<exists>w'. fix_storage_facade_python (facade_world loose_block) = Inr w' \<and>
      files w' file_path = Some clean_block \<and> written w' = [(file_path, clean_block)]) \<and>
   (\<exists>w'. fix_storage_facade_final (facade_world quiet) = Inr w' \<and>
      files w' = files (facade_world quiet) \<and> written w' = []) \<and>
   (\<exists>w'. fix_storage_facade_final (facade_world open_block) = Inr w' \<and>
      files w' file_path = Some clean_block \<and> written w' = [(file_path, clean_block)]) \<and>
   facade_final_text clean_block = Inr (clean_block, 1) \<and>
   (\<exists>w'. fix_storage_facade_final (facade_world clean_block) = Inr w' \<and>
      files w' = files (facade_world clean_block) \<and> written w' = []) \<and>
   (\<exists>w'. migrate_context_cache imported_world = Inr w' \<and>
      written w' = [(''server/services/ContextCacheService.ts'', migrate_context_cache_text logger_import)])"
proof -
  have f: "files (facade_world d) file_path = Some d" "written (facade_world d) = []" for d
    by (simp_all add: facade_world_def)
  have p: "re_sub_fn python_pattern replace_func quiet 0 = Inr (quiet, 0)"
    using quiet_facade(1) by (rule re_sub_fn_no_match)
  have q: "facade_final_text quiet = Inr (quiet, 0)"
    using quiet_facade(2,3) by (simp add: facade_final_text_def re_sub_fn_no_match)
  have i: "files imported_world ''server/services/ContextCacheService.ts'' = Some logger_import"
      "written imported_world = []"
    by (simp_all add: imported_world_def)
  have c: "contains logger_import logger_import" by (simp add: logger_import_def U_def)
  have a: "repairIndentation (readlines (concat aligned_example)) = Inr (aligned_example, 1)"
    by (simp only: readlines_aligned aligned_example_run)
  note q1 = write_only_on_change [of "facade_world quiet" quiet "[quiet]" 0 quiet 0]
  from q1 [THEN conjunct1] f quiet_repair
  have 1: "\<exists>w'. fix_indentation (facade_world quiet) = Inr w' \<and>
      files w' = files (facade_world quiet) \<and> written w' = []"
    by simp
  from q1 [THEN conjunct2, THEN conjunct1] f p
  have 3: "\<exists>w'. fix_storage_facade_python (facade_world quiet) = Inr w' \<and>
      files w' = files (facade_world quiet) \<and> written w' = []"
    by simp
  from q1 [THEN conjunct2, THEN conjunct2, THEN conjunct1] f q
  have 5: "\<exists>w'. fix_storage_facade_final (facade_world quiet) = Inr w' \<and>
      files w' = files (facade_world quiet) \<and> written w' = []"
    by simp
  from write_only_on_change [of "facade_world (concat aligned_example)" "concat aligned_example"
      aligned_example 1, THEN conjunct1] f a
  have 2: "\<exists>w'. fix_indentation (facade_world (concat aligned_example)) = Inr w' \<and>
      written w' = [(file_path, concat aligned_example)]"
    by auto
  from write_only_on_change [of "facade_world loose_block" loose_block _ _ clean_block 1,
      THEN conjunct2, THEN conjunct1] f loose_block_run block_differs
  have 4: "\<exists>w'. fix_storage_facade_python (facade_world loose_block) = Inr w' \<and>
      files w' file_path = Some clean_block \<and> written w' = [(file_path, clean_block)]"
    by auto
  from write_only_on_change [of "facade_world open_block" open_block _ _ clean_block 1,
      THEN conjunct2, THEN conjunct2, THEN conjunct1] f open_block_run block_differs
  have 6: "\<exists>w'. fix_storage_facade_final (facade_world open_block) = Inr w' \<and>
      files w' file_path = Some clean_block \<and> written w' = [(file_path, clean_block)]"
    by auto
  from write_only_on_change [of "facade_world clean_block" clean_block _ _ clean_block 1,
      THEN conjunct2, THEN conjunct2, THEN conjunct1] f clean_block_run
  have 7: "\<exists>w'. fix_storage_facade_final (facade_world clean_block) = Inr w' \<and>
      files w' = files (facade_world clean_block) \<and> written w' = []"
    by simp
  from write_only_on_change [of imported_world logger_import, THEN conjunct2, THEN conjunct2,
      THEN conjunct2, THEN conjunct1] i c
  have 8: "\<exists>w'. migrate_context_cache imported_world = Inr w' \<and>
      written w' = [(''server/services/ContextCacheService.ts'', migrate_context_cache_text logger_import)]"
    by simp
  from 1 2 3 4 5 6 clean_block_run 7 8 show ?thesis by (intro conjI)
qed

text \<open>
  C8, as the claim states it, fails: the three functions of
  \<open>migrate_remaining_console.py\<close> do not test for the import. On a file without the import
  that holds a line of the rules, \<open>migrate_remaining_predictive\<close> rewrites the line and
  writes the file.
\<close>

lemma console_line_run: "migrate_remaining_predictive_text console_line = logger_call"
  by (simp add: console_line_def logger_call_def migrate_text_defs remaining_predictive_subs_def
      sub_defs match_at_def text_defs)

theorem guard_counterexample:
  "\<not> contains logger_import console_line \<and>
   migrate_remaining_predictive unguarded_world =
     Inr \<lparr>files = [''server/services/PredictiveEngineService.ts'' \<mapsto> logger_call],
          written = [(''server/services/PredictiveEngineService.ts'', logger_call)],
          printed = [Migrated ''PredictiveEngineService.ts'']\<rparr> \<and>
   logger_call \<noteq> console_line"
proof (intro conjI)
  show "\<not> contains logger_import console_line"
    by (simp add: logger_import_def console_line_def U_def)
  show "migrate_remaining_predictive unguarded_world =
     Inr \<lparr>files = [''server/services/PredictiveEngineService.ts'' \<mapsto> logger_call],
          written = [(''server/services/PredictiveEngineService.ts'', logger_call)],
          printed = [Migrated ''PredictiveEngineService.ts'']\<rparr>"
    by (simp add: migrate_remaining_predictive_def unguarded_world_def read_file_def
        console_line_run print_def write_file_def)
  show "logger_call \<noteq> console_line"
    by (simp add: logger_call_def console_line_def ulines_def U_def)
qed

text \<open>
  C8, amended. The four migration functions that test for the import
  (\<open>migrate_context_cache\<close> of \<open>migrate_console_to_logger.py\<close>; \<open>migrate_email_service\<close>,
  \<open>migrate_predictive_engine\<close> and \<open>migrate_sql_engine\<close> of
  \<open>migrate_remaining_services.py\<close>) return early on a file whose text does not contain
  \<open>import { logger }\<close>: nothing is written and the files are as before (the three of
  \<open>migrate_remaining_services.py\<close> return \<open>False\<close>).
\<close>

theorem guard_fails_no_write:
  "(files w ''server/services/ContextCacheService.ts'' = Some doc \<and> \<not> contains logger_import doc \<longrightarrow>
      (\<exists>w'. migrate_context_cache w = Inr w' \<and> files w' = files w \<and> written w' = written w)) \<and>
   (files w ''server/services/emailService.ts'' = Some doc \<and> \<not> contains logger_import doc \<longrightarrow>
      (\<exists>w'. migrate_email_service w = Inr (False, w') \<and> files w' = files w \<and>
         written w' = written w)) \<and>
   (files w ''server/services/PredictiveEngineService.ts'' = Some doc \<and>
    \<not> contains logger_import doc \<longrightarrow>
      (\<exists>w'. migrate_predictive_engine w = Inr (False, w') \<and> files w' = files w \<and>
         written w' = written w)) \<and>
   (files w ''server/services/SQLEngineService.ts'' = Some doc \<and> \<not> contains logger_import doc \<longrightarrow>
      (\<exists>w'. migrate_sql_engine w = Inr (False, w') \<and> files w' = files w \<and>
         written w' = written w))"
  by (simp add: migrate_context_cache_def migrate_email_service_def
      migrate_predictive_engine_def migrate_sql_engine_def read_file_def Let_def)

theorem guard_fails_no_write_witness:
  "\<not> contains logger_import quiet \<and>
   (\<exists>w'. migrate_context_cache bare_world = Inr w' \<and> files w' = files bare_world \<and>
      written w' = written bare_world) \<and>
   (\<exists>w'. migrate_email_service bare_world = Inr (False, w') \<and> files w' = files bare_world \<and>
      written w' = written bare_world) \<and>
   (\<exists>w'. migrate_predictive_engine bare_world = Inr (False, w') \<and> files w' = files bare_world \<and>
      written w' = written bare_world) \<and>
   (\<exists>w'. migrate_sql_engine bare_world = Inr (False, w') \<and> files w' = files bare_world \<and>
      written w' = written bare_world)"
proof -
  have n: "\<not> contains logger_import quiet" by (simp add: logger_import_def quiet_def U_def)
  have f: "files bare_world path = Some quiet" for path by (simp add: bare_world_def)
  from guard_fails_no_write [of bare_world quiet] n f show ?thesis by simp
qed

text \<open>
  C9. When the three service files can be read, \<open>verify\<close> and \<open>verify_migrations\<close> return
  \<open>True\<close> exactly when \<open>re.findall\<close> finds no match of \<open>console\.\<close> in any of the three
  files, and \<open>False\<close> as soon as one file has a match; they write nothing.
\<close>

lemma verify_loop_result:
  "\<forall>s \<in> set ss. files w s \<noteq> None \<Longrightarrow>
     \<exists>w'. verify_loop ss b w =
            Inr (b \<and> (\<forall>s \<in> set ss. findall_count console_re (the (files w s)) = 0), w') \<and>
          files w' = files w \<and> written w' = written w"
proof (induction ss arbitrary: b w)
  case Nil
  then show ?case by simp
next
  case (Cons s ss)
  from Cons.prems obtain doc where doc: "files w s = Some doc" by auto
  let ?n = "findall_count console_re doc"
  show ?case
  proof (cases "?n = 0")
    case True
    let ?w = "print (No_console_left s) w"
    from Cons.prems have "\<forall>s \<in> set ss. files ?w s \<noteq> None" by simp
    from Cons.IH [OF this, of b] doc True show ?thesis
      by (auto simp: read_file_def Let_def)
  next
    case False
    let ?w = "print (Console_left s ?n) w"
    from Cons.prems have "\<forall>s \<in> set ss. files ?w s \<noteq> None" by simp
    from Cons.IH [OF this, of False] doc False show ?thesis
      by (auto simp: read_file_def Let_def)
  qed
qed

theorem verify_success_iff:
  assumes "files w ''server/services/emailService.ts'' = Some email"
    and "files w ''server/services/PredictiveEngineService.ts'' = Some predictive"
    and "files w ''server/services/SQLEngineService.ts'' = Some sql"
  shows "(\<exists>w'. verify w =
            Inr (findall_count console_re email = 0 \<and> findall_count console_re predictive = 0 \<and>
                 findall_count console_re sql = 0, w') \<and>
          files w' = files w \<and> written w' = written w) \<and>
         (\<exists>w'. verify_migrations w =
            Inr (findall_count console_re email = 0 \<and> findall_count console_re predictive = 0 \<and>
                 findall_count console_re sql = 0, w') \<and>
          files w' = files w \<and> written w' = written w)"
proof -
  have all: "\<forall>s \<in> set services. files v s \<noteq> None" if "files v = files w" for v
    using assms that by (simp add: services_def)
  have eq: "(True \<and> (\<forall>s \<in> set services. findall_count console_re (the (files v s)) = 0)) =
        (findall_count console_re email = 0 \<and> findall_count console_re predictive = 0 \<and>
                 findall_count console_re sql = 0)" if "files v = files w" for v
    using assms that by (simp add: services_def)
  from verify_loop_result [OF all [of w], of True] eq [of w]
  have 1: "\<exists>w'. verify w =
            Inr (findall_count console_re email = 0 \<and> findall_count console_re predictive = 0 \<and>
                 findall_count console_re sql = 0, w') \<and>
          files w' = files w \<and> written w' = written w"
    by (simp add: verify_def)
  let ?v = "print Verifying w"
  have fv: "files ?v = files w" by simp
  from verify_loop_result [OF all [OF fv], of True] eq [OF fv]
  have 2: "\<exists>w'. verify_migrations w =
            Inr (findall_count console_re email = 0 \<and> findall_count console_re predictive = 0 \<and>
                 findall_count console_re sql = 0, w') \<and>
          files w' = files w \<and> written w' = written w"
    by (simp add: verify_migrations_def)
  from 1 2 show ?thesis by blast
qed

lemma console_counts:
  "findall_count console_re quiet = 0" "findall_count console_re console_line = 1"
  "findall_count console_re [] = 0" "findall_count console_re logger_call = 0"
  by (simp_all add: console_re_def quiet_def console_line_def logger_call_def sub_defs match_at_def
      text_defs)

theorem verify_success_iff_witness:
  "(\<exists>w'. verify verify_world = Inr (False, w')) \<and>
   (\<exists>w'. verify_migrations verify_world = Inr (False, w')) \<and>
   (\<exists>w'. verify clean_world = Inr (True, w')) \<and>
   (\<exists>w'. verify_migrations clean_world = Inr (True, w'))"
proof -
  have v: "files verify_world ''server/services/emailService.ts'' = Some quiet"
      "files verify_world ''server/services/PredictiveEngineService.ts'' = Some console_line"
      "files verify_world ''server/services/SQLEngineService.ts'' = Some []"
    by (simp_all add: verify_world_def)
  have c: "files clean_world ''server/services/emailService.ts'' = Some quiet"
      "files clean_world ''server/services/PredictiveEngineService.ts'' = Some logger_call"
      "files clean_world ''server/services/SQLEngineService.ts'' = Some []"
    by (simp_all add: clean_world_def)
  from verify_success_iff [OF v] verify_success_iff [OF c] console_counts
  show ?thesis by auto
qed


end
